(* ===== verification/Prelude.thy ===== *)
theory Prelude
  imports Complex_Main "HOL-Library.Sublist"
begin

text \<open>
  Shared vocabulary of the REURB backend model (src/app.py): the Python/JSON values a
  request handler receives (\<open>jval\<close>), Python dictionaries as association lists in insertion
  order (\<open>pydict\<close>, with \<open>dict_get\<close> for \<open>d.get(k)\<close> and \<open>dict_set\<close> for \<open>d[k] = v\<close>),
  Python truthiness, the ASCII character classes used by \<open>str.strip\<close> and by
  case-insensitive matching, and Python's \<open>float()\<close> applied to a value
  (\<open>py_float\<close>), which the handlers use to coerce the three numeric fields.
  Floats are idealised as \<open>real\<close>: rounding and the non-finite values are not modelled.
\<close>

named_theorems dict_simps "lookup and key facts of Python dictionaries as association lists"
named_theorems ascii_simps "evaluation facts of the ASCII character classes"

section \<open>Python and JSON values\<close>

text \<open>
  A JSON document as \<open>request.get_json()\<close> returns it: \<open>None\<close>, booleans, numbers
  (Python \<open>int\<close>/\<open>float\<close>, both as \<open>real\<close>), strings, lists and dicts. The same type
  holds the cells pandas produces on import, where \<open>JNull\<close> is a missing cell (NaN).
\<close>

datatype jval =
    JNull
  | JBool bool
  | JNum real
  | JStr string
  | JArr "jval list"
  | JObj "(string \<times> jval) list"

type_synonym pydict = "(string \<times> jval) list"

text \<open>\<open>d.get(k)\<close>: \<open>None\<close> when the key is absent.\<close>

definition dict_get :: "pydict \<Rightarrow> string \<Rightarrow> jval" where
  "dict_get d k = (case map_of d k of Some v \<Rightarrow> v | None \<Rightarrow> JNull)"

text \<open>\<open>d[k] = v\<close>: overwrite in place when the key is present, append otherwise.\<close>

fun dict_set :: "'k \<Rightarrow> 'v \<Rightarrow> ('k \<times> 'v) list \<Rightarrow> ('k \<times> 'v) list" where
  "dict_set k v [] = [(k, v)]"
| "dict_set k v ((a, b) # ps) = (if a = k then (k, v) # ps else (a, b) # dict_set k v ps)"

text \<open>Python truthiness of a value: \<open>bool(v)\<close>.\<close>

fun py_truthy :: "jval \<Rightarrow> bool" where
  "py_truthy JNull = False"
| "py_truthy (JBool b) = b"
| "py_truthy (JNum r) = (r \<noteq> 0)"
| "py_truthy (JStr s) = (s \<noteq> [])"
| "py_truthy (JArr xs) = (xs \<noteq> [])"
| "py_truthy (JObj d) = (d \<noteq> [])"

text \<open>
  Python exceptions as the left summand: \<open>bindE\<close> runs the next step on a value and
  propagates the first exception raised.
\<close>

definition bindE :: "'e + 'a \<Rightarrow> ('a \<Rightarrow> 'e + 'b) \<Rightarrow> 'e + 'b" where
  "bindE x f = (case x of Inl e \<Rightarrow> Inl e | Inr a \<Rightarrow> f a)"

section \<open>ASCII character classes\<close>

definition is_digit :: "char \<Rightarrow> bool" where
  "is_digit c \<longleftrightarrow> 48 \<le> (of_char c :: nat) \<and> (of_char c :: nat) \<le> 57"

text \<open>\<open>str.isspace\<close> on the ASCII range: tab to carriage return, the separators 0x1C to 0x1F, space.\<close>

definition is_space :: "char \<Rightarrow> bool" where
  "is_space c \<longleftrightarrow> (let n = (of_char c :: nat) in (9 \<le> n \<and> n \<le> 13) \<or> (28 \<le> n \<and> n \<le> 32))"

definition lower_char :: "char \<Rightarrow> char" where
  "lower_char c = (let n = (of_char c :: nat) in if 65 \<le> n \<and> n \<le> 90 then char_of (n + 32) else c)"

definition lower :: "string \<Rightarrow> string" where
  "lower s = map lower_char s"

definition strip :: "string \<Rightarrow> string" where
  "strip s = rev (dropWhile is_space (rev (dropWhile is_space s)))"

section \<open>Python's float() on strings\<close>

text \<open>
  A run of decimal digits in which single underscores may separate digits (\<open>1_000\<close>),
  as Python's float literal grammar allows. Returns the digits and the rest.
\<close>

fun scan_digits :: "string \<Rightarrow> string \<times> string" where
  "scan_digits [] = ([], [])"
| "scan_digits (c # r) =
     (if is_digit c then
        (case r of
           u # d # r' \<Rightarrow>
             if u = CHR ''_'' \<and> is_digit d
             then (let (ds, rest) = scan_digits (d # r') in (c # ds, rest))
             else (let (ds, rest) = scan_digits r in (c # ds, rest))
         | _ \<Rightarrow> (let (ds, rest) = scan_digits r in (c # ds, rest)))
      else ([], c # r))"

definition digits_value :: "string \<Rightarrow> nat" where
  "digits_value ds = foldl (\<lambda>n c. 10 * n + (of_char c - 48)) 0 ds"

definition parse_sign :: "string \<Rightarrow> int \<times> string" where
  "parse_sign s =
     (case s of
        c # r \<Rightarrow> if c = CHR ''-'' then (-1, r) else if c = CHR ''+'' then (1, r) else (1, s)
      | [] \<Rightarrow> (1, []))"

text \<open>The exponent part: empty, or \<open>e\<close>/\<open>E\<close>, an optional sign and at least one digit.\<close>

definition parse_exponent :: "string \<Rightarrow> int option" where
  "parse_exponent s =
     (case s of
        [] \<Rightarrow> Some 0
      | c # r \<Rightarrow>
          if c = CHR ''e'' \<or> c = CHR ''E'' then
            (let (sg, r1) = parse_sign r; (ds, rest) = scan_digits r1
             in if ds \<noteq> [] \<and> rest = [] then Some (sg * int (digits_value ds)) else None)
          else None)"

definition scale10 :: "int \<Rightarrow> real" where
  "scale10 k = (if 0 \<le> k then 10 ^ nat k else inverse (10 ^ nat (- k)))"

text \<open>
  \<open>float(s)\<close> for a string: surrounding whitespace stripped, an optional sign, digits with
  an optional fraction (at least one digit in all), an optional exponent; anything else
  raises \<open>ValueError\<close> (\<open>None\<close>). The spellings \<open>inf\<close>, \<open>infinity\<close> and \<open>nan\<close>,
  which Python accepts, are outside the finite model and give \<open>None\<close> here.
\<close>

definition py_float_str :: "string \<Rightarrow> real option" where
  "py_float_str s =
     (let (sg, r) = parse_sign (strip s);
          (d1, r1) = scan_digits r;
          (d2, r2) = (case r1 of
                        c # r' \<Rightarrow> if c = CHR ''.'' then scan_digits r' else ([], r1)
                      | [] \<Rightarrow> ([], []))
      in if d1 @ d2 = [] then None
         else (case parse_exponent r2 of
                 None \<Rightarrow> None
               | Some e \<Rightarrow> Some (of_int sg * of_nat (digits_value (d1 @ d2)) * scale10 (e - int (length d2)))))"

text \<open>
  \<open>float(v)\<close> for a JSON value: numbers are kept, \<open>True\<close>/\<open>False\<close> give 1.0/0.0,
  strings are parsed, and \<open>None\<close>, lists and dicts raise \<open>TypeError\<close> (\<open>None\<close>).
\<close>

fun py_float :: "jval \<Rightarrow> real option" where
  "py_float (JNum r) = Some r"
| "py_float (JBool b) = Some (if b then 1 else 0)"
| "py_float (JStr s) = py_float_str s"
| "py_float _ = None"

section \<open>Shared lemmas\<close>

text \<open>The definitions \<open>py_float_str\<close> unfolds to, for evaluating it on literals by \<open>simp\<close>.\<close>

lemmas py_float_str_eval = py_float_str_def parse_sign_def strip_def is_space_def is_digit_def
  parse_exponent_def digits_value_def scale10_def

text \<open>The definitions \<open>lower\<close> unfolds to on literals: the case-folded character is computed bit by bit.\<close>

lemmas lower_eval = lower_char_def char_of_def bit_0 Let_def

lemma map_of_dict_set [simp, dict_simps]: "map_of (dict_set k v d) = (map_of d)(k \<mapsto> v)"
  by (induction d) (auto simp: fun_eq_iff)

lemma set_keys_dict_set [simp, dict_simps]: "set (map fst (dict_set k v d)) = insert k (set (map fst d))"
  by (induction d) force+

lemma keys_dict_set [dict_simps]:
  "map fst (dict_set k v d) = (if k \<in> set (map fst d) then map fst d else map fst d @ [k])"
proof (induction d)
  case Nil
  then show ?case by simp
next
  case (Cons p d)
  then show ?case by (cases p) (simp add: Cons.IH)
qed

lemma distinct_keys_dict_set [simp, dict_simps]:
  "distinct (map fst d) \<Longrightarrow> distinct (map fst (dict_set k v d))"
  by (simp add: keys_dict_set)

lemma dict_get_dict_set [simp, dict_simps]: "dict_get (dict_set k v d) k' = (if k' = k then v else dict_get d k')"
  by (simp add: dict_get_def)

lemma dict_get_Nil [simp, dict_simps]: "dict_get [] k = JNull"
  by (simp add: dict_get_def)

lemma dict_set_present [dict_simps]:
  "k \<in> set (map fst d) \<Longrightarrow> length (dict_set k v d) = length d"
  by (metis keys_dict_set length_map)

lemma bindE_simps [simp]: "bindE (Inl e) f = Inl e" "bindE (Inr a) f = f a"
  by (simp_all add: bindE_def)

lemma bindE_Inr: "bindE x f = Inr b \<longleftrightarrow> (\<exists>a. x = Inr a \<and> f a = Inr b)"
  by (cases x) simp_all

lemma py_truthy_dict_get: "py_truthy (dict_get d k) \<Longrightarrow> k \<in> set (map fst d)"
  by (cases "map_of d k") (auto simp: dict_get_def dest: map_of_SomeD intro: rev_image_eqI)

lemma lower_char_id:
  "\<not> (65 \<le> (of_char c :: nat) \<and> (of_char c :: nat) \<le> 90) \<Longrightarrow> lower_char c = c"
  by (auto simp: lower_char_def Let_def)

lemma lower_append [simp]: "lower (xs @ ys) = lower xs @ lower ys"
  by (simp add: lower_def)

lemma lower_Cons [simp]: "lower (c # xs) = lower_char c # lower xs"
  by (simp add: lower_def)

lemma lower_Nil [simp]: "lower [] = []"
  by (simp add: lower_def)

lemma length_lower [simp]: "length (lower s) = length s"
  by (simp add: lower_def)

end
