(* ===== verification/Schema.thy ===== *)
theory Schema
  imports Prelude
begin

text \<open>
  The ORM models of src/app.py (lines 27 to 127) as data: one constructor of \<open>model\<close> per
  \<open>db.Model\<close> class, and for each its columns in declaration order with their SQL type,
  nullability, uniqueness and Python-side default, plus the one foreign key
  (\<open>construcoes.cadastro_id\<close> references \<open>cadastros_reurb.id\<close>). The handlers never
  name a column by anything but its string, and \<open>CadastroReurb.__table__.columns\<close> is
  read by introspection, so the schema is kept as data rather than as a record type.
\<close>

datatype model =
    Usuario | Proprietario | CadastroReurb | Construcao
  | PGV | PadraoConstrutivo | ValorLogradouro | AliquotaIPTU

text \<open>
  SQL column types: \<open>Integer\<close>, \<open>String(n)\<close> (varchar of at most \<open>n\<close> characters),
  \<open>Text\<close>, \<open>Float\<close>.
\<close>

datatype coltype = TInteger | TString nat | TText | TFloat

text \<open>\<open>db.Column(type, nullable=..., unique=..., default=...)\<close>; a primary key is not null and unique.\<close>

datatype column = Column
  (col_name: string) (col_type: coltype) (col_nullable: bool) (col_unique: bool)
  (col_default: "jval option")

abbreviation pk_column :: column where
  "pk_column \<equiv> Column ''id'' TInteger False True None"

abbreviation opt_column :: "string \<Rightarrow> coltype \<Rightarrow> column" where
  "opt_column n t \<equiv> Column n t True False None"

abbreviation req_column :: "string \<Rightarrow> coltype \<Rightarrow> column" where
  "req_column n t \<equiv> Column n t False False None"

definition cadastro_columns :: "column list" where
  "cadastro_columns = [pk_column,
    opt_column ''req_nome'' (TString 150),
    opt_column ''req_cpf'' (TString 20),
    opt_column ''req_rg'' (TString 20),
    opt_column ''req_data_nasc'' (TString 20),
    opt_column ''req_nacionalidade'' (TString 50),
    opt_column ''req_estado_civil'' (TString 30),
    opt_column ''conj_nome'' (TString 150),
    opt_column ''conj_cpf'' (TString 20),
    opt_column ''req_profissao'' (TString 100),
    opt_column ''req_telefone'' (TString 30),
    opt_column ''req_email'' (TString 150),
    opt_column ''req_cep_atual'' (TString 15),
    opt_column ''req_logradouro_atual'' (TString 150),
    opt_column ''req_numero_atual'' (TString 20),
    opt_column ''req_complemento_atual'' (TString 100),
    opt_column ''req_bairro_atual'' (TString 100),
    opt_column ''req_cidade_atual'' (TString 100),
    opt_column ''req_uf_atual'' (TString 2),
    opt_column ''imovel_cep'' (TString 15),
    opt_column ''imovel_logradouro'' (TString 150),
    opt_column ''imovel_numero'' (TString 20),
    opt_column ''imovel_complemento'' (TString 100),
    opt_column ''imovel_bairro'' (TString 100),
    opt_column ''imovel_cidade'' (TString 100),
    opt_column ''imovel_uf'' (TString 2),
    opt_column ''inscricao_imobiliaria'' (TString 30),
    opt_column ''imovel_area_total'' TFloat,
    opt_column ''imovel_area_construida'' TFloat,
    opt_column ''imovel_uso'' (TString 30),
    opt_column ''imovel_tipo_construcao'' (TString 30),
    opt_column ''imovel_data_ocupacao'' (TString 20),
    opt_column ''imovel_forma_ocupacao'' TText,
    opt_column ''imovel_docs_posse'' TText,
    opt_column ''imovel_fotos'' TText,
    opt_column ''imovel_croqui'' TText,
    opt_column ''confrontante_ld'' (TString 200),
    opt_column ''confrontante_le'' (TString 200),
    opt_column ''confrontante_fundo'' (TString 200),
    opt_column ''confrontante_frente'' (TString 200),
    opt_column ''reurb_finalidade_moradia'' (TString 50),
    opt_column ''reurb_renda_familiar'' TFloat,
    opt_column ''reurb_propriedade'' (TString 30),
    opt_column ''reurb_infra_necessaria'' (TString 30),
    opt_column ''reurb_riscos'' (TString 30),
    opt_column ''reurb_riscos_descricao'' TText,
    opt_column ''reurb_outro_imovel'' (TString 10),
    opt_column ''reurb_cadunico'' (TString 10)]"

fun columns :: "model \<Rightarrow> column list" where
  "columns Usuario = [pk_column,
     req_column ''nome'' (TString 100),
     Column ''usuario'' (TString 50) False True None,
     req_column ''senha'' (TString 255),
     Column ''acesso'' (TString 20) False False (Some (JStr ''Usuario''))]"
| "columns Proprietario = [pk_column,
     req_column ''nome'' (TString 100),
     req_column ''cpfcnpj'' (TString 20),
     req_column ''telefone'' (TString 20)]"
| "columns CadastroReurb = cadastro_columns"
| "columns Construcao = [pk_column,
     opt_column ''cadastro_id'' TInteger,
     opt_column ''area_total'' TFloat,
     opt_column ''area_construida'' TFloat,
     opt_column ''uso'' (TString 50),
     opt_column ''padrao'' (TString 50),
     opt_column ''tipo'' (TString 50)]"
| "columns PGV = [pk_column, req_column ''descricao'' (TString 150), req_column ''valor_m2'' TFloat]"
| "columns PadraoConstrutivo = [pk_column, req_column ''descricao'' (TString 150), req_column ''valor_m2'' TFloat]"
| "columns ValorLogradouro = [pk_column, req_column ''logradouro'' (TString 150), req_column ''valor_m2'' TFloat]"
| "columns AliquotaIPTU = [pk_column, req_column ''tipo'' (TString 150), req_column ''aliquota'' TFloat]"

text \<open>\<open>[c.name for c in Model.__table__.columns]\<close>.\<close>

definition column_names :: "model \<Rightarrow> string list" where
  "column_names m = map col_name (columns m)"

text \<open>\<open>db.ForeignKey\<close> declarations: (child column, parent model); the parent key is \<open>id\<close>.\<close>

fun foreign_keys :: "model \<Rightarrow> (string \<times> model) list" where
  "foreign_keys Construcao = [(''cadastro_id'', CadastroReurb)]"
| "foreign_keys _ = []"

text \<open>The three \<open>Float\<close> columns of a REURB registration that the handlers coerce with \<open>float()\<close>.\<close>

definition numeric_fields :: "string list" where
  "numeric_fields = [''imovel_area_total'', ''imovel_area_construida'', ''reurb_renda_familiar'']"

lemma distinct_column_names: "distinct (column_names m)"
  by (cases m) (simp_all add: column_names_def cadastro_columns_def)

lemma id_first_column: "columns m = pk_column # tl (columns m)"
  by (cases m) (simp_all add: cadastro_columns_def)

lemma numeric_fields_columns: "set numeric_fields \<subseteq> set (column_names CadastroReurb)"
  by (simp add: numeric_fields_def column_names_def cadastro_columns_def)

lemma numeric_fields_type:
  "c \<in> set (columns CadastroReurb) \<Longrightarrow> col_name c \<in> set numeric_fields \<Longrightarrow> c = opt_column (col_name c) TFloat"
  by (auto simp: numeric_fields_def cadastro_columns_def)

lemma column_names_tl: "column_names m = ''id'' # map col_name (tl (columns m))"
  using id_first_column [of m] by (metis column_names_def list.simps(9) column.sel(1))

end
