(* ===== verification/Storage.thy ===== *)
theory Storage
  imports Schema
begin

text \<open>
  The relational store behind Flask-SQLAlchemy, as the handlers of src/app.py use it.
  A \<open>db\<close> holds, per model, its table as a list of rows in storage order (what
  \<open>Model.query.all()\<close> returns) and the model's id sequence (the \<open>serial\<close> counter of
  its primary key). A row is an association list from column names to stored values,
  in column order. Writes are operations (\<open>op\<close>) queued in the session and applied by
  \<open>commit\<close> in order; the first failure rolls the tables back to the state before the
  request, but not the sequences, which PostgreSQL advances outside transactions.

  The engine's conversion of a bound Python value to a column type (psycopg2 and
  PostgreSQL input functions) is not code of this repository: it is the parameter
  \<open>eng :: engine\<close>, and \<open>engine_ok\<close> is all the development assumes of it. NOT NULL,
  UNIQUE and FOREIGN KEY constraints come from the schema and are checked after every
  statement, against the whole candidate state (equivalent to PostgreSQL's per-row check
  when the state satisfied them before). \<open>db.Integer\<close> columns and id sequences are
  PostgreSQL's 32-bit \<open>integer\<close>: values outside \<open>int32_min\<close>..\<open>int32_max\<close> do not
  conform, and a sequence past \<open>int32_max\<close> raises \<open>SequenceExhausted\<close>.
\<close>

named_theorems handler_wf "each request handler preserves the invariant db_wf"

datatype dbval = DNull | DInt int | DStr string | DFloat real

type_synonym row = "(string \<times> dbval) list"

text \<open>Attributes set on an ORM instance: constructor keywords or \<open>setattr\<close> calls.\<close>

type_synonym obj = "(string \<times> jval) list"

record db =
  tables :: "model \<Rightarrow> row list"
  seqs :: "model \<Rightarrow> int"

datatype dberr =
    BindError string
  | NotNullViolation string
  | UniqueViolation
  | FKViolation
  | StaleData
  | QueryFault
  | TxnAborted
  | SequenceExhausted

text \<open>
  The range of PostgreSQL's \<open>integer\<close> (int4), the type of every \<open>db.Integer\<close>
  column and of the \<open>serial\<close> sequences behind the primary keys: a value outside it is
  refused (\<open>integer out of range\<close>), a sequence past its maximum raises instead of wrapping.
\<close>

definition int32_min :: int where
  "int32_min = - (2 ^ 31)"

definition int32_max :: int where
  "int32_max = 2 ^ 31 - 1"

text \<open>The engine: a Python value bound for a column of the given type, or \<open>None\<close> when it rejects it.\<close>

type_synonym engine = "coltype \<Rightarrow> jval \<Rightarrow> dbval option"

text \<open>
  What \<open>hasattr\<close> and \<open>setattr\<close> do on a model instance with a name that is neither a
  column nor a relationship: no such attribute, an attribute that takes the value
  without being persisted (\<open>query\<close>, \<open>metadata\<close>, \<open>registry\<close>, ... of the declarative
  base), or one whose assignment raises (\<open>__class__\<close> given a non-class). This is
  SQLAlchemy and Python behaviour, not code of the repository: it is the parameter
  \<open>ca :: class_attrs\<close> of the handlers that reach it.
\<close>

datatype attr_effect = NoAttr | AttrSet | AttrRaises string

type_synonym class_attrs = "model \<Rightarrow> string \<Rightarrow> jval \<Rightarrow> attr_effect"

text \<open>The attributes every Flask-SQLAlchemy model class has, for the examples.\<close>

definition ex_attrs :: class_attrs where
  "ex_attrs m k v =
     (if k \<in> set [''query'', ''query_class'', ''metadata'', ''registry''] then AttrSet
      else if k = ''__class__'' then AttrRaises ''TypeError''
      else NoAttr)"

text \<open>
  A concrete engine, for the witnesses: PostgreSQL's behaviour on the values the
  handlers bind (NULL everywhere, numbers and numeric strings into \<open>Float\<close> columns,
  integral numbers into \<open>Integer\<close> columns, strings within the declared length).
\<close>

fun pg_engine :: engine where
  "pg_engine _ JNull = Some DNull"
| "pg_engine TFloat (JNum r) = Some (DFloat r)"
| "pg_engine TFloat (JStr s) = map_option DFloat (py_float_str s)"
| "pg_engine TInteger (JNum r) =
     (if of_int \<lfloor>r\<rfloor> = r \<and> int32_min \<le> \<lfloor>r\<rfloor> \<and> \<lfloor>r\<rfloor> \<le> int32_max then Some (DInt \<lfloor>r\<rfloor>) else None)"
| "pg_engine (TString n) (JStr s) = (if length s \<le> n then Some (DStr s) else None)"
| "pg_engine TText (JStr s) = Some (DStr s)"
| "pg_engine _ _ = None"

definition all_models :: "model list" where
  "all_models = [Usuario, Proprietario, CadastroReurb, Construcao, PGV, PadraoConstrutivo,
     ValorLogradouro, AliquotaIPTU]"

text \<open>The state right after \<open>db.create_all()\<close> on an empty database.\<close>

definition empty_db :: db where
  "empty_db = \<lparr>tables = (\<lambda>_. []), seqs = (\<lambda>_. 0)\<rparr>"

text \<open>\<open>getattr(row, c)\<close>; a column the row lacks reads as NULL.\<close>

definition row_get :: "row \<Rightarrow> string \<Rightarrow> dbval" where
  "row_get r c = (case map_of r c of Some v \<Rightarrow> v | None \<Rightarrow> DNull)"

text \<open>Python truthiness of a loaded attribute (\<open>None\<close>, \<open>''\<close> and \<open>0.0\<close> are false).\<close>

fun db_truthy :: "dbval \<Rightarrow> bool" where
  "db_truthy DNull = False"
| "db_truthy (DInt i) = (i \<noteq> 0)"
| "db_truthy (DStr s) = (s \<noteq> [])"
| "db_truthy (DFloat x) = (x \<noteq> 0)"

text \<open>The number a loaded \<open>Float\<close> (or \<open>Integer\<close>) attribute holds.\<close>

fun db_num :: "dbval \<Rightarrow> real" where
  "db_num (DFloat x) = x"
| "db_num (DInt i) = of_int i"
| "db_num _ = 0"

text \<open>The string a loaded \<open>String\<close> attribute holds (\<open>str(v)\<close> in an f-string).\<close>

fun db_str :: "dbval \<Rightarrow> string" where
  "db_str (DStr s) = s"
| "db_str _ = []"

subsection \<open>Well-typed values and the engine contract\<close>

fun conforms :: "coltype \<Rightarrow> dbval \<Rightarrow> bool" where
  "conforms _ DNull = True"
| "conforms TInteger (DInt i) = (int32_min \<le> i \<and> i \<le> int32_max)"
| "conforms (TString n) (DStr s) = (length s \<le> n)"
| "conforms TText (DStr _) = True"
| "conforms TFloat (DFloat _) = True"
| "conforms _ _ = False"

definition cell_ok :: "column \<Rightarrow> dbval \<Rightarrow> bool" where
  "cell_ok c v \<longleftrightarrow> conforms (col_type c) v \<and> (v = DNull \<longrightarrow> col_nullable c)"

definition engine_ok :: "engine \<Rightarrow> bool" where
  "engine_ok eng \<longleftrightarrow> (\<forall>t v d. eng t v = Some d \<longrightarrow> conforms t d) \<and> (\<forall>t. eng t JNull = Some DNull)"

subsection \<open>Constraints\<close>

definition cell_wf :: "column \<Rightarrow> string \<times> dbval \<Rightarrow> bool" where
  "cell_wf c kv \<longleftrightarrow> fst kv = col_name c \<and> cell_ok c (snd kv)"

text \<open>A row has exactly the model's columns, in order, each holding a value of its type.\<close>

definition row_wf :: "model \<Rightarrow> row \<Rightarrow> bool" where
  "row_wf m r \<longleftrightarrow> list_all2 cell_wf (columns m) r"

definition unique_ok :: "model \<Rightarrow> row list \<Rightarrow> bool" where
  "unique_ok m rs \<longleftrightarrow>
     list_all (\<lambda>c. col_unique c \<longrightarrow> distinct (filter (\<lambda>v. v \<noteq> DNull) (map (\<lambda>r. row_get r (col_name c)) rs)))
       (columns m)"

definition fk_ok :: "db \<Rightarrow> bool" where
  "fk_ok s \<longleftrightarrow>
     list_all (\<lambda>m. list_all (\<lambda>(c, p). list_all (\<lambda>r. row_get r c = DNull \<or>
         (\<exists>pr\<in>set (tables s p). row_get pr ''id'' = row_get r c)) (tables s m)) (foreign_keys m))
       all_models"

definition db_wf :: "db \<Rightarrow> bool" where
  "db_wf s \<longleftrightarrow> list_all (\<lambda>m. list_all (row_wf m) (tables s m) \<and> unique_ok m (tables s m)) all_models \<and> fk_ok s"

text \<open>The constraint a statement on model \<open>m\<close> violates in the state it produced, if any.\<close>

definition constraint_error :: "model \<Rightarrow> db \<Rightarrow> dberr option" where
  "constraint_error m s =
     (if \<not> unique_ok m (tables s m) then Some UniqueViolation
      else if \<not> fk_ok s then Some FKViolation else None)"

definition finish_op :: "model \<Rightarrow> db \<Rightarrow> db \<Rightarrow> db \<times> dberr option" where
  "finish_op m s0 s1 = (case constraint_error m s1 of None \<Rightarrow> (s1, None) | Some e \<Rightarrow> (s0, Some e))"

subsection \<open>Statements\<close>

text \<open>The value an instance supplies for a column: the attribute, else the column default, else NULL.\<close>

definition obj_value :: "obj \<Rightarrow> column \<Rightarrow> jval" where
  "obj_value o' c = (case map_of o' (col_name c) of Some v \<Rightarrow> v
     | None \<Rightarrow> (case col_default c of Some d \<Rightarrow> d | None \<Rightarrow> JNull))"

definition bind_value :: "engine \<Rightarrow> column \<Rightarrow> jval \<Rightarrow> dberr + dbval" where
  "bind_value eng c v =
     (case eng (col_type c) v of
        None \<Rightarrow> Inl (BindError (col_name c))
      | Some d \<Rightarrow> if d = DNull \<and> \<not> col_nullable c then Inl (NotNullViolation (col_name c)) else Inr d)"

fun bind_all :: "engine \<Rightarrow> obj \<Rightarrow> column list \<Rightarrow> dberr + row" where
  "bind_all eng o' [] = Inr []"
| "bind_all eng o' (c # cs) =
     (case bind_value eng c (obj_value o' c) of
        Inl e \<Rightarrow> Inl e
      | Inr d \<Rightarrow> (case bind_all eng o' cs of Inl e \<Rightarrow> Inl e | Inr r \<Rightarrow> Inr ((col_name c, d) # r)))"

text \<open>
  \<open>INSERT\<close>: an instance without an id (absent or \<open>None\<close>) takes \<open>nextval\<close> of the
  model's sequence, which stays advanced even when the statement then fails, and which
  raises once it would pass the maximum of \<open>integer\<close> (a \<open>serial\<close> runs from 1 to
  \<open>int32_max\<close>); an explicit id is bound like any other value and leaves the sequence
  alone.
\<close>

definition alloc_id :: "engine \<Rightarrow> model \<Rightarrow> obj \<Rightarrow> db \<Rightarrow> (dberr + dbval) \<times> db" where
  "alloc_id eng m o' s =
     (let given = (case map_of o' ''id'' of Some v \<Rightarrow> v | None \<Rightarrow> JNull)
      in if given = JNull
         then (if 1 \<le> seqs s m + 1 \<and> seqs s m + 1 \<le> int32_max
               then (Inr (DInt (seqs s m + 1)), s\<lparr>seqs := (seqs s)(m := seqs s m + 1)\<rparr>)
               else (Inl SequenceExhausted, s))
         else (bind_value eng pk_column given, s))"

definition insert_obj :: "engine \<Rightarrow> model \<Rightarrow> obj \<Rightarrow> db \<Rightarrow> db \<times> dberr option" where
  "insert_obj eng m o' s =
     (case alloc_id eng m o' s of
        (Inl e, s1) \<Rightarrow> (s1, Some e)
      | (Inr idv, s1) \<Rightarrow>
          (case bind_all eng o' (tl (columns m)) of
             Inl e \<Rightarrow> (s1, Some e)
           | Inr rest \<Rightarrow> finish_op m s1 (s1\<lparr>tables := (tables s1)(m := tables s1 m @ [(''id'', idv) # rest])\<rparr>)))"

text \<open>The row of model \<open>m\<close> with primary key \<open>i\<close>: \<open>Model.query.get(i)\<close>.\<close>

definition get_row :: "db \<Rightarrow> model \<Rightarrow> int \<Rightarrow> row option" where
  "get_row s m i = find (\<lambda>r. row_get r ''id'' = DInt i) (tables s m)"

text \<open>\<open>UPDATE\<close> of the attributes set on a loaded instance; attributes that are not columns are not persisted.\<close>

fun bind_updates :: "engine \<Rightarrow> model \<Rightarrow> obj \<Rightarrow> row \<Rightarrow> dberr + row" where
  "bind_updates eng m [] r = Inr r"
| "bind_updates eng m ((k, v) # kvs) r =
     (case find (\<lambda>c. col_name c = k) (columns m) of
        None \<Rightarrow> bind_updates eng m kvs r
      | Some c \<Rightarrow> (case bind_value eng c v of
                    Inl e \<Rightarrow> Inl e
                  | Inr d \<Rightarrow> bind_updates eng m kvs (dict_set k d r)))"

definition update_obj :: "engine \<Rightarrow> model \<Rightarrow> int \<Rightarrow> obj \<Rightarrow> db \<Rightarrow> db \<times> dberr option" where
  "update_obj eng m i o' s =
     (case get_row s m i of
        None \<Rightarrow> (s, Some StaleData)
      | Some r \<Rightarrow>
          (case bind_updates eng m o' r of
             Inl e \<Rightarrow> (s, Some e)
           | Inr r' \<Rightarrow> finish_op m s (s\<lparr>tables := (tables s)(m :=
                map (\<lambda>x. if row_get x ''id'' = DInt i then r' else x) (tables s m))\<rparr>)))"

text \<open>\<open>DELETE\<close> of the rows of \<open>m\<close> whose column \<open>c\<close> holds \<open>v\<close> (by id: \<open>c = ''id''\<close>).\<close>

definition delete_where :: "model \<Rightarrow> string \<Rightarrow> dbval \<Rightarrow> db \<Rightarrow> db \<times> dberr option" where
  "delete_where m c v s =
     finish_op m s (s\<lparr>tables := (tables s)(m := filter (\<lambda>r. row_get r c \<noteq> v) (tables s m))\<rparr>)"

datatype op =
    OpInsert model obj
  | OpUpdate model int obj
  | OpDelete model int
  | OpDeleteWhere model string dbval

fun apply_op :: "engine \<Rightarrow> op \<Rightarrow> db \<Rightarrow> db \<times> dberr option" where
  "apply_op eng (OpInsert m o') s = insert_obj eng m o' s"
| "apply_op eng (OpUpdate m i o') s = update_obj eng m i o' s"
| "apply_op eng (OpDelete m i) s = delete_where m ''id'' (DInt i) s"
| "apply_op eng (OpDeleteWhere m c v) s = delete_where m c v s"

fun flush :: "engine \<Rightarrow> op list \<Rightarrow> db \<Rightarrow> db \<times> dberr option" where
  "flush eng [] s = (s, None)"
| "flush eng (x # xs) s = (case apply_op eng x s of (s', None) \<Rightarrow> flush eng xs s' | (s', Some e) \<Rightarrow> (s', Some e))"

text \<open>\<open>db.session.commit()\<close>, and on failure \<open>db.session.rollback()\<close> (or the request teardown).\<close>

definition commit :: "engine \<Rightarrow> op list \<Rightarrow> db \<Rightarrow> db \<times> dberr option" where
  "commit eng ops s =
     (case flush eng ops s of
        (s', None) \<Rightarrow> (s', None)
      | (s', Some e) \<Rightarrow> (s\<lparr>seqs := seqs s'\<rparr>, Some e))"

subsection \<open>The invariant\<close>

lemma in_all_models [simp]: "m \<in> set all_models"
  by (cases m) (simp_all add: all_models_def)

lemma db_wf_iff:
  "db_wf s \<longleftrightarrow> (\<forall>m. (\<forall>r\<in>set (tables s m). row_wf m r) \<and> unique_ok m (tables s m)) \<and> fk_ok s"
  by (auto simp: db_wf_def list_all_iff)

lemma fk_ok_seqs [simp]: "fk_ok (s\<lparr>seqs := x\<rparr>) = fk_ok s"
  by (simp add: fk_ok_def)

lemma db_wf_seqs [simp]: "db_wf (s\<lparr>seqs := x\<rparr>) = db_wf s"
  by (simp add: db_wf_def)

lemma db_wf_empty: "db_wf empty_db"
  by (simp add: db_wf_def fk_ok_def unique_ok_def empty_db_def list_all_iff)

lemma db_wf_set_table:
  assumes "db_wf s" and "\<forall>r\<in>set rs. row_wf m r" and "unique_ok m rs"
    and "fk_ok (s\<lparr>tables := (tables s)(m := rs)\<rparr>)"
  shows "db_wf (s\<lparr>tables := (tables s)(m := rs)\<rparr>)"
  using assms by (auto simp: db_wf_iff)

lemma finish_op_None:
  "finish_op m s0 s1 = (s', None) \<Longrightarrow> s' = s1 \<and> unique_ok m (tables s1 m) \<and> fk_ok s1"
  by (auto simp: finish_op_def constraint_error_def split: if_splits option.splits)

lemma finish_op_Some: "finish_op m s0 s1 = (s', Some e) \<Longrightarrow> s' = s0"
  by (auto simp: finish_op_def split: option.splits)

lemma finish_op_wf:
  assumes "db_wf s0" and "\<forall>r\<in>set rs. row_wf m r" and "s1 = s0\<lparr>tables := (tables s0)(m := rs)\<rparr>"
  shows "db_wf (fst (finish_op m s0 s1))"
proof (cases "finish_op m s0 s1")
  case (Pair s' r)
  show ?thesis
  proof (cases r)
    case None
    with Pair have "s' = s1 \<and> unique_ok m (tables s1 m) \<and> fk_ok s1" by (simp add: finish_op_None)
    with assms Pair None show ?thesis by (simp add: db_wf_set_table)
  next
    case (Some e)
    with Pair have "s' = s0" by (auto dest: finish_op_Some)
    with Pair assms(1) show ?thesis by simp
  qed
qed

lemma bind_value_ok: "engine_ok eng \<Longrightarrow> bind_value eng c v = Inr d \<Longrightarrow> cell_ok c d"
  by (auto simp: bind_value_def engine_ok_def cell_ok_def split: option.splits if_splits)

lemma bind_all_wf: "engine_ok eng \<Longrightarrow> bind_all eng o' cs = Inr r \<Longrightarrow> list_all2 cell_wf cs r"
proof (induction cs arbitrary: r)
  case Nil
  then show ?case by simp
next
  case (Cons c cs)
  then show ?case
    by (auto simp: cell_wf_def dest: bind_value_ok split: sum.splits)
qed

lemma list_all2_dict_set:
  "list_all2 cell_wf cs r \<Longrightarrow> (\<forall>c\<in>set cs. col_name c = k \<longrightarrow> cell_ok c d) \<Longrightarrow>
   k \<in> set (map col_name cs) \<Longrightarrow> list_all2 cell_wf cs (dict_set k d r)"
proof (induction rule: list_all2_induct)
  case Nil
  then show ?case by simp
next
  case (Cons c cs kv r)
  then show ?case by (cases kv) (auto simp: cell_wf_def)
qed

lemma bind_updates_wf:
  "engine_ok eng \<Longrightarrow> row_wf m r \<Longrightarrow> bind_updates eng m o' r = Inr r' \<Longrightarrow> row_wf m r'"
proof (induction eng m o' r rule: bind_updates.induct)
  case (1 eng m r)
  then show ?case by simp
next
  case (2 eng m k v kvs r)
  show ?case
  proof (cases "find (\<lambda>c. col_name c = k) (columns m)")
    case None
    with 2 show ?thesis by simp
  next
    case (Some c)
    then have c: "c \<in> set (columns m)" "col_name c = k" by (auto simp: find_Some_iff)
    have "inj_on col_name (set (columns m))"
      using distinct_column_names [of m] by (simp add: column_names_def distinct_map)
    with c have uniq: "\<forall>c'\<in>set (columns m). col_name c' = k \<longrightarrow> c' = c"
      by (metis inj_onD)
    show ?thesis
    proof (cases "bind_value eng c v")
      case (Inl e)
      with 2 Some show ?thesis by simp
    next
      case (Inr d)
      with 2(3) have d: "cell_ok c d" by (rule bind_value_ok)
      have "row_wf m (dict_set k d r)"
        unfolding row_wf_def
      proof (rule list_all2_dict_set)
        show "list_all2 cell_wf (columns m) r" using 2(4) by (simp add: row_wf_def)
        show "\<forall>c'\<in>set (columns m). col_name c' = k \<longrightarrow> cell_ok c' d" using uniq d by blast
        show "k \<in> set (map col_name (columns m))" using c by auto
      qed
      with 2(2) [OF Some Inr 2(3)] 2(5) Some Inr show ?thesis by simp
    qed
  qed
qed

lemma alloc_id_wf:
  assumes "engine_ok eng" and "alloc_id eng m o' s = (idr, s1)"
  shows "tables s1 = tables s \<and> (\<forall>idv. idr = Inr idv \<longrightarrow> cell_ok pk_column idv)"
  using assms by (auto simp: alloc_id_def Let_def cell_ok_def int32_min_def dest: bind_value_ok split: if_splits)

lemma db_wf_tables_eq: "tables s1 = tables s \<Longrightarrow> db_wf s1 = db_wf s"
  by (simp add: db_wf_def fk_ok_def)

lemma insert_obj_cases:
  "alloc_id eng m o' s = (Inl e, s1) \<Longrightarrow> insert_obj eng m o' s = (s1, Some e)"
  "alloc_id eng m o' s = (Inr idv, s1) \<Longrightarrow> bind_all eng o' (tl (columns m)) = Inl e \<Longrightarrow>
     insert_obj eng m o' s = (s1, Some e)"
  "alloc_id eng m o' s = (Inr idv, s1) \<Longrightarrow> bind_all eng o' (tl (columns m)) = Inr rest \<Longrightarrow>
     insert_obj eng m o' s = finish_op m s1 (s1\<lparr>tables := (tables s1)(m := tables s1 m @ [(''id'', idv) # rest])\<rparr>)"
  by (simp_all add: insert_obj_def)

lemma new_row_wf:
  assumes "engine_ok eng" and "cell_ok pk_column idv" and "bind_all eng o' (tl (columns m)) = Inr rest"
  shows "row_wf m ((''id'', idv) # rest)"
proof -
  from bind_all_wf [OF assms(1,3)] assms(2)
  have "list_all2 cell_wf (pk_column # tl (columns m)) ((''id'', idv) # rest)"
    by (simp add: cell_wf_def)
  then show ?thesis
    unfolding row_wf_def by (subst id_first_column)
qed

lemma insert_obj_wf:
  assumes eng: "engine_ok eng" and wf: "db_wf s"
  shows "db_wf (fst (insert_obj eng m o' s))"
proof (cases "alloc_id eng m o' s")
  case (Pair idr s1)
  with alloc_id_wf [OF eng] have t: "tables s1 = tables s" and idok: "\<forall>idv. idr = Inr idv \<longrightarrow> cell_ok pk_column idv"
    by blast+
  from db_wf_tables_eq [OF t] wf have wf1: "db_wf s1" by simp
  show ?thesis
  proof (cases idr)
    case (Inl e)
    with Pair wf1 show ?thesis by (simp add: insert_obj_cases(1))
  next
    case (Inr idv)
    show ?thesis
    proof (cases "bind_all eng o' (tl (columns m))")
      case (Inl e)
      with Pair Inr wf1 show ?thesis by (simp add: insert_obj_cases(2))
    next
      case (Inr rest)
      from idok \<open>idr = Inr idv\<close> have "cell_ok pk_column idv" by blast
      from new_row_wf [OF eng this Inr] wf1
      have "\<forall>r\<in>set (tables s1 m @ [(''id'', idv) # rest]). row_wf m r"
        by (auto simp: db_wf_iff)
      from finish_op_wf [OF wf1 this refl] Pair Inr \<open>idr = Inr idv\<close>
      show ?thesis by (simp add: insert_obj_cases(3))
    qed
  qed
qed

lemma get_row_in: "get_row s m i = Some r \<Longrightarrow> r \<in> set (tables s m) \<and> row_get r ''id'' = DInt i"
  by (auto simp: get_row_def find_Some_iff)

lemma update_obj_wf:
  assumes eng: "engine_ok eng" and wf: "db_wf s"
  shows "db_wf (fst (update_obj eng m i o' s))"
proof (cases "get_row s m i")
  case None
  with wf show ?thesis by (simp add: update_obj_def)
next
  case (Some r)
  with wf have r: "row_wf m r" by (auto simp: db_wf_iff dest: get_row_in)
  show ?thesis
  proof (cases "bind_updates eng m o' r")
    case (Inl e)
    with Some wf show ?thesis by (simp add: update_obj_def)
  next
    case (Inr r')
    from bind_updates_wf [OF eng r Inr] have "row_wf m r'" .
    with wf have "\<forall>x\<in>set (map (\<lambda>x. if row_get x ''id'' = DInt i then r' else x) (tables s m)). row_wf m x"
      by (auto simp: db_wf_iff)
    from finish_op_wf [OF wf this refl] Some Inr show ?thesis by (simp add: update_obj_def)
  qed
qed

lemma delete_where_wf: "db_wf s \<Longrightarrow> db_wf (fst (delete_where m c v s))"
  unfolding delete_where_def
  by (rule finish_op_wf) (auto simp: db_wf_iff)

lemma apply_op_wf: "engine_ok eng \<Longrightarrow> db_wf s \<Longrightarrow> db_wf (fst (apply_op eng x s))"
  by (cases x) (simp_all add: insert_obj_wf update_obj_wf delete_where_wf)

lemma flush_wf: "engine_ok eng \<Longrightarrow> db_wf s \<Longrightarrow> db_wf (fst (flush eng ops s))"
proof (induction ops arbitrary: s)
  case Nil
  then show ?case by simp
next
  case (Cons x xs)
  from apply_op_wf [OF Cons.prems] have "db_wf (fst (apply_op eng x s))" .
  with Cons.IH [OF Cons.prems(1)] show ?case
    by (auto split: prod.splits option.splits)
qed

lemma commit_wf: "engine_ok eng \<Longrightarrow> db_wf s \<Longrightarrow> db_wf (fst (commit eng ops s))"
  using flush_wf [of eng s ops] by (auto simp: commit_def split: prod.splits option.splits)

lemma commit_Some_tables: "commit eng ops s = (s', Some e) \<Longrightarrow> tables s' = tables s"
  by (auto simp: commit_def split: prod.splits option.splits)

lemma commit_None_flush: "commit eng ops s = (s', None) \<Longrightarrow> flush eng ops s = (s', None)"
  by (auto simp: commit_def split: prod.splits option.splits)

lemma pg_engine_ok: "engine_ok pg_engine"
  unfolding engine_ok_def
proof (intro conjI allI impI)
  fix t v d
  assume "pg_engine t v = Some d"
  then show "conforms t d"
    by (induction t v rule: pg_engine.induct) (auto split: if_splits)
next
  fix t
  show "pg_engine t JNull = Some DNull" by simp
qed

lemma fk_ok_iff:
  "fk_ok s \<longleftrightarrow> (\<forall>r\<in>set (tables s Construcao). row_get r ''cadastro_id'' = DNull \<or>
     (\<exists>pr\<in>set (tables s CadastroReurb). row_get pr ''id'' = row_get r ''cadastro_id''))"
  by (simp add: fk_ok_def all_models_def list_all_iff)

lemma distinct_non_null_filter:
  "distinct (filter (\<lambda>v. v \<noteq> DNull) (map f rs)) \<Longrightarrow> distinct (filter (\<lambda>v. v \<noteq> DNull) (map f (filter P rs)))"
proof -
  assume d: "distinct (filter (\<lambda>v. v \<noteq> DNull) (map f rs))"
  have "filter (\<lambda>v. v \<noteq> DNull) (map f (filter P rs)) = map f (filter P (filter (\<lambda>x. f x \<noteq> DNull) rs))"
    by (simp add: filter_map comp_def conj_commute)
  moreover from d have "distinct (map f (filter (\<lambda>x. f x \<noteq> DNull) rs))"
    by (simp add: filter_map comp_def)
  ultimately show ?thesis
    using distinct_map_filter [of f "filter (\<lambda>x. f x \<noteq> DNull) rs" P] by simp
qed

lemma unique_ok_filter: "unique_ok m rs \<Longrightarrow> unique_ok m (filter P rs)"
  by (simp add: unique_ok_def list_all_iff distinct_non_null_filter)

lemma get_row_None: "get_row s m i = None \<longleftrightarrow> (\<forall>r\<in>set (tables s m). row_get r ''id'' \<noteq> DInt i)"
  by (auto simp: get_row_def find_None_iff)

text \<open>
  A DELETE on a table no foreign key points to never violates a constraint: on a
  well-formed database it removes exactly the matching rows.
\<close>

lemma delete_where_unreferenced:
  assumes "db_wf s" and "m \<noteq> CadastroReurb"
  shows "delete_where m c v s =
           (s\<lparr>tables := (tables s)(m := filter (\<lambda>r. row_get r c \<noteq> v) (tables s m))\<rparr>, None)"
proof -
  from assms(1) have u: "unique_ok m (tables s m)" and fk: "fk_ok s" by (auto simp: db_wf_iff)
  from u have "unique_ok m (filter (\<lambda>r. row_get r c \<noteq> v) (tables s m))"
    by (rule unique_ok_filter)
  moreover from fk assms(2) have "fk_ok (s\<lparr>tables := (tables s)(m := filter (\<lambda>r. row_get r c \<noteq> v) (tables s m))\<rparr>)"
    by (auto simp: fk_ok_iff)
  ultimately show ?thesis by (simp add: delete_where_def finish_op_def constraint_error_def)
qed

lemma alloc_id_fresh:
  "map_of o' ''id'' = None \<Longrightarrow> fst (alloc_id eng m o' s) = Inr idv \<Longrightarrow> idv = DInt (seqs s m + 1)"
  by (simp add: alloc_id_def split: if_splits)

lemma bind_value_Inr: "bind_value eng c v = Inr d \<Longrightarrow> eng (col_type c) v = Some d"
  by (auto simp: bind_value_def split: option.splits if_splits)


lemma bind_all_value:
  "bind_all eng o' cs = Inr r \<Longrightarrow> c \<in> set cs \<Longrightarrow> distinct (map col_name cs) \<Longrightarrow>
   bind_value eng c (obj_value o' c) = Inr (row_get r (col_name c))"
proof (induction cs arbitrary: r)
  case Nil
  then show ?case by simp
next
  case (Cons c' cs)
  show ?case
  proof (cases "c = c'")
    case True
    with Cons.prems show ?thesis by (auto simp: row_get_def split: sum.splits)
  next
    case False
    with Cons.prems have cs: "c \<in> set cs" by simp
    with Cons.prems(3) have "col_name c \<noteq> col_name c'" by (auto simp: image_iff)
    with cs Cons.prems Cons.IH show ?thesis by (auto simp: row_get_def split: sum.splits)
  qed
qed

lemma commit_insert:
  assumes "commit eng [OpInsert m o'] s = (s', None)"
  shows "\<exists>idv rest. tables s' = (tables s)(m := tables s m @ [(''id'', idv) # rest]) \<and>
           bind_all eng o' (tl (columns m)) = Inr rest \<and> fk_ok s' \<and> unique_ok m (tables s' m) \<and> fst (alloc_id eng m o' s) = Inr idv \<and>
           seqs s' = seqs (snd (alloc_id eng m o' s))"
proof -
  from commit_None_flush [OF assms] have ins: "insert_obj eng m o' s = (s', None)"
    by (simp split: prod.splits option.splits)
  obtain idr s1 where a: "alloc_id eng m o' s = (idr, s1)" by fastforce
  have t1: "tables s1 = tables s"
    using a by (auto simp: alloc_id_def Let_def split: if_splits)
  show ?thesis
  proof (cases idr)
    case (Inl e)
    with ins a show ?thesis by (simp add: insert_obj_def)
  next
    case (Inr idv)
    show ?thesis
    proof (cases "bind_all eng o' (tl (columns m))")
      case (Inl e)
      with ins a Inr show ?thesis by (simp add: insert_obj_def)
    next
      case (Inr rest)
      with ins a \<open>idr = Inr idv\<close> have
        "finish_op m s1 (s1\<lparr>tables := (tables s1)(m := tables s1 m @ [(''id'', idv) # rest])\<rparr>) = (s', None)"
        by (simp add: insert_obj_def)
      then have "s' = s1\<lparr>tables := (tables s1)(m := tables s1 m @ [(''id'', idv) # rest])\<rparr> \<and>
          unique_ok m (tables s' m) \<and> fk_ok s'"
        by (auto dest: finish_op_None)
      with t1 Inr a \<open>idr = Inr idv\<close> show ?thesis by auto
    qed
  qed
qed

lemma find_unique:
  assumes "x \<in> set xs" and "P x" and "\<forall>y\<in>set xs. P y \<longrightarrow> y = x"
  shows "find P xs = Some x"
  using assms
proof (induction xs)
  case Nil
  then show ?case by simp
next
  case (Cons a xs)
  show ?case
  proof (cases "P a")
    case True
    with Cons.prems(3) have "a = x" by simp
    with True show ?thesis by simp
  next
    case False
    with Cons.prems have x: "x \<in> set xs" by auto
    have "\<forall>y\<in>set xs. P y \<longrightarrow> y = x" using Cons.prems(3) by simp
    with Cons.IH x Cons.prems(2) have "find P xs = Some x" by blast
    with False show ?thesis by simp
  qed
qed

lemma find_column: "c \<in> set (columns m) \<Longrightarrow> find (\<lambda>c'. col_name c' = col_name c) (columns m) = Some c"
proof (rule find_unique)
  assume c: "c \<in> set (columns m)"
  have "inj_on col_name (set (columns m))"
    using distinct_column_names [of m] by (simp add: column_names_def distinct_map)
  with c show "\<forall>y\<in>set (columns m). col_name y = col_name c \<longrightarrow> y = c"
    by (metis inj_onD)
qed simp_all

lemma bind_updates_frame:
  "bind_updates eng m o' r = Inr r' \<Longrightarrow> k \<notin> set (map fst o') \<Longrightarrow> map_of r' k = map_of r k"
  by (induction eng m o' r rule: bind_updates.induct) (auto split: option.splits sum.splits)

lemma bind_updates_value:
  "bind_updates eng m o' r = Inr r' \<Longrightarrow> distinct (map fst o') \<Longrightarrow> (col_name c, v) \<in> set o' \<Longrightarrow>
   c \<in> set (columns m) \<Longrightarrow> bind_value eng c v = Inr (row_get r' (col_name c))"
proof (induction eng m o' r rule: bind_updates.induct)
  case (1 eng m r)
  then show ?case by simp
next
  case (2 eng m k v' kvs r)
  show ?case
  proof (cases "k = col_name c")
    case True
    with "2.prems" have v: "v' = v" and nk: "col_name c \<notin> set (map fst kvs)"
      by (auto simp: image_iff)
    from True find_column [OF "2.prems"(4)]
    have f: "find (\<lambda>c'. col_name c' = k) (columns m) = Some c" by simp
    with "2.prems"(1) obtain d where d: "bind_value eng c v' = Inr d"
      and rest: "bind_updates eng m kvs (dict_set k d r) = Inr r'"
      by (auto split: sum.splits)
    from bind_updates_frame [OF rest nk] True have "map_of r' (col_name c) = Some d" by simp
    with d v show ?thesis by (simp add: row_get_def)
  next
    case False
    with "2.prems" have mem: "(col_name c, v) \<in> set kvs" and dk: "distinct (map fst kvs)" by auto
    show ?thesis
    proof (cases "find (\<lambda>c'. col_name c' = k) (columns m)")
      case None
      with "2.IH"(1) "2.prems" mem dk show ?thesis by simp
    next
      case (Some c')
      with "2.prems"(1) obtain d where "bind_value eng c' v' = Inr d"
        and "bind_updates eng m kvs (dict_set k d r) = Inr r'"
        by (auto split: sum.splits)
      with "2.IH"(2) [OF Some] "2.prems" mem dk show ?thesis by simp
    qed
  qed
qed

lemma find_replace:
  "P r' \<Longrightarrow> find P xs \<noteq> None \<Longrightarrow> find P (map (\<lambda>x. if P x then r' else x) xs) = Some r'"
  by (induction xs) auto

lemma update_obj_None:
  assumes "update_obj eng m i o' s = (s', None)"
  shows "\<exists>r r'. get_row s m i = Some r \<and> bind_updates eng m o' r = Inr r' \<and>
           tables s' = (tables s)(m := map (\<lambda>x. if row_get x ''id'' = DInt i then r' else x) (tables s m))"
proof -
  from assms obtain r r' where g: "get_row s m i = Some r" and b: "bind_updates eng m o' r = Inr r'"
    and f: "finish_op m s (s\<lparr>tables := (tables s)(m := map (\<lambda>x. if row_get x ''id'' = DInt i then r' else x) (tables s m))\<rparr>) = (s', None)"
    by (auto simp: update_obj_def split: option.splits sum.splits)
  from finish_op_None [OF f] g b show ?thesis by auto
qed

lemma commit_update:
  assumes "commit eng [OpUpdate m i o'] s = (s', None)"
  shows "\<exists>r r'. get_row s m i = Some r \<and> bind_updates eng m o' r = Inr r' \<and>
           tables s' = (tables s)(m := map (\<lambda>x. if row_get x ''id'' = DInt i then r' else x) (tables s m))"
proof -
  from commit_None_flush [OF assms] have "update_obj eng m i o' s = (s', None)"
    by (simp split: prod.splits option.splits)
  then show ?thesis by (rule update_obj_None)
qed

lemma flush_append:
  "flush eng (xs @ ys) s = (case flush eng xs s of (s1, None) \<Rightarrow> flush eng ys s1 | (s1, Some e) \<Rightarrow> (s1, Some e))"
  by (induction xs arbitrary: s) (auto split: prod.split option.split)

text \<open>Bulk deletes on one table leave every other table as it was.\<close>

lemma flush_deletes_other:
  "list_all (\<lambda>x. \<exists>c v. x = OpDeleteWhere m' c v) pre \<Longrightarrow> flush eng pre s = (s1, None) \<Longrightarrow> m \<noteq> m' \<Longrightarrow>
   tables s1 m = tables s m"
proof (induction pre arbitrary: s)
  case Nil
  then show ?case by simp
next
  case (Cons x pre)
  then obtain c v where x: "x = OpDeleteWhere m' c v" by auto
  obtain s2 r where d: "delete_where m' c v s = (s2, r)" by fastforce
  with Cons.prems x have r: "r = None" and fl: "flush eng pre s2 = (s1, None)" by (auto split: option.splits)
  from d r have "tables s2 m = tables s m" using Cons.prems(3)
    by (auto simp: delete_where_def finish_op_def split: option.splits)
  with Cons.IH [OF _ fl Cons.prems(3)] Cons.prems(1) show ?case by simp
qed

text \<open>In a table that satisfies a unique constraint, a non-NULL value of the column identifies one row.\<close>

lemma unique_ok_col:
  "unique_ok m rs \<Longrightarrow> c \<in> set (columns m) \<Longrightarrow> col_unique c \<Longrightarrow>
   distinct (filter (\<lambda>v. v \<noteq> DNull) (map (\<lambda>r. row_get r (col_name c)) rs))"
  by (auto simp: unique_ok_def list_all_iff)

text \<open>Two rows of a table that agree on a non-NULL unique column are the same row.\<close>

lemma unique_same_row:
  "distinct (filter (\<lambda>v. v \<noteq> DNull) (map f rs)) \<Longrightarrow> x \<in> set rs \<Longrightarrow> y \<in> set rs \<Longrightarrow>
   f x = f y \<Longrightarrow> f x \<noteq> DNull \<Longrightarrow> x = y"
  by (auto simp: filter_map comp_def distinct_map inj_on_def)

lemma unique_last:
  assumes "unique_ok m (rs @ [r])" and "c \<in> set (columns m)" and "col_unique c"
    and "row_get r (col_name c) \<noteq> DNull"
  shows "\<forall>x\<in>set rs. row_get x (col_name c) \<noteq> row_get r (col_name c)"
  using unique_ok_col [OF assms(1-3)] assms(4) by (fastforce simp: filter_map comp_def image_iff)

text \<open>An INSERT whose id is already taken fails, whatever else it carries.\<close>

lemma commit_insert_taken_id:
  assumes "\<And>idv. fst (alloc_id eng m o' s) = Inr idv \<Longrightarrow> idv \<noteq> DNull \<and> (\<exists>r\<in>set (tables s m). row_get r ''id'' = idv)"
  shows "\<exists>s' e. commit eng [OpInsert m o'] s = (s', Some e)"
proof -
  obtain s' res where c: "commit eng [OpInsert m o'] s = (s', res)" by fastforce
  show ?thesis
  proof (cases res)
    case (Some e)
    with c show ?thesis by blast
  next
    case None
    from commit_insert [OF c [unfolded None]] obtain idv rest
      where t: "tables s' = (tables s)(m := tables s m @ [(''id'', idv) # rest])"
        and u: "unique_ok m (tables s' m)" and a: "fst (alloc_id eng m o' s) = Inr idv"
      by blast
    from assms [OF a] obtain r where r: "r \<in> set (tables s m)" "row_get r ''id'' = idv" and nn: "idv \<noteq> DNull"
      by blast
    from u t have u': "unique_ok m (tables s m @ [(''id'', idv) # rest])" by simp
    have pk: "pk_column \<in> set (columns m)" using id_first_column [of m] by (metis list.set_intros(1))
    from unique_last [OF u' pk] nn have "\<forall>x\<in>set (tables s m). row_get x ''id'' \<noteq> idv"
      by (simp add: row_get_def)
    with r show ?thesis by blast
  qed
qed

lemma bind_all_not_unique: "bind_all eng o' cs = Inl e \<Longrightarrow> e \<noteq> UniqueViolation"
  by (induction cs) (auto simp: bind_value_def split: option.splits sum.splits if_splits)

text \<open>A unique violation is raised after \<open>nextval\<close>: the sequence keeps its step, the tables do not.\<close>

lemma commit_insert_unique_violation:
  assumes "map_of o' ''id'' = None" and "commit eng [OpInsert m o'] s = (s', Some UniqueViolation)"
  shows "seqs s' = (seqs s)(m := seqs s m + 1) \<and> tables s' = tables s"
proof -
  from assms(2) obtain s1 where f: "insert_obj eng m o' s = (s1, Some UniqueViolation)"
    and s': "s' = s\<lparr>seqs := seqs s1\<rparr>"
    by (auto simp: commit_def split: prod.splits option.splits)
  from f assms(1) have "seqs s1 = (seqs s)(m := seqs s m + 1)"
    by (auto simp: insert_obj_def alloc_id_def finish_op_def dest: bind_all_not_unique
        split: if_splits sum.splits option.splits)
  with s' show ?thesis by simp
qed

lemma find_last:
  "P r \<Longrightarrow> \<forall>x\<in>set rs. \<not> P x \<Longrightarrow> find P (rs @ [r]) = Some r"
  by (induction rs) auto


lemma insert_obj_None:
  assumes "insert_obj eng m o' s = (s', None)"
  shows "\<exists>row rest. bind_all eng o' (tl (columns m)) = Inr rest \<and> tables s' = (tables s)(m := tables s m @ [row])"
proof -
  obtain idr s1 where a: "alloc_id eng m o' s = (idr, s1)" by fastforce
  have t1: "tables s1 = tables s"
    using a by (auto simp: alloc_id_def Let_def split: if_splits)
  from assms a obtain idv rest where b: "bind_all eng o' (tl (columns m)) = Inr rest"
    and f: "finish_op m s1 (s1\<lparr>tables := (tables s1)(m := tables s1 m @ [(''id'', idv) # rest])\<rparr>) = (s', None)"
    by (auto simp: insert_obj_def split: sum.splits)
  from finish_op_None [OF f] have "tables s' = (tables s1)(m := tables s1 m @ [(''id'', idv) # rest])" by simp
  with t1 b show ?thesis by auto
qed

lemma flush_inserts:
  "flush eng (map (\<lambda>r. OpInsert m (f r)) rs) s = (s', None) \<Longrightarrow>
   \<exists>new. length new = length rs \<and> tables s' = (tables s)(m := tables s m @ new)"
proof (induction rs arbitrary: s)
  case Nil
  then show ?case by (intro exI [of _ "[]"]) simp
next
  case (Cons r rs)
  then obtain s1 where i: "insert_obj eng m (f r) s = (s1, None)"
    and fl: "flush eng (map (\<lambda>r. OpInsert m (f r)) rs) s1 = (s', None)"
    by (auto split: prod.splits option.splits)
  from insert_obj_None [OF i] obtain row where t1: "tables s1 = (tables s)(m := tables s m @ [row])" by blast
  from Cons.IH [OF fl] obtain new where "length new = length rs" "tables s' = (tables s1)(m := tables s1 m @ new)"
    by blast
  with t1 show ?case by (intro exI [of _ "row # new"]) auto
qed

lemma flush_None_insert:
  "flush eng ops s = (s', None) \<Longrightarrow> OpInsert m o' \<in> set ops \<Longrightarrow> \<exists>rest. bind_all eng o' (tl (columns m)) = Inr rest"
proof (induction ops arbitrary: s)
  case Nil
  then show ?case by simp
next
  case (Cons x xs)
  then obtain s1 where a: "apply_op eng x s = (s1, None)" and fl: "flush eng xs s1 = (s', None)"
    by (auto split: prod.splits option.splits)
  show ?case
  proof (cases "x = OpInsert m o'")
    case True
    with a insert_obj_None show ?thesis by fastforce
  next
    case False
    with Cons.prems(2) have "OpInsert m o' \<in> set xs" by simp
    with Cons.IH [OF fl] show ?thesis .
  qed
qed

text \<open>Reading every column of a well-formed row by name gives the row back.\<close>

lemma cells_names: "list_all2 cell_wf cs r \<Longrightarrow> map fst r = map col_name cs"
  by (induction rule: list_all2_induct) (auto simp: cell_wf_def)

lemma read_back_cells:
  "list_all2 cell_wf cs r \<Longrightarrow> distinct (map col_name cs) \<Longrightarrow> map (\<lambda>c. (col_name c, row_get r (col_name c))) cs = r"
proof (induction rule: list_all2_induct)
  case Nil
  then show ?case by simp
next
  case (Cons c cs x r)
  from Cons.hyps(1) obtain v where x: "x = (col_name c, v)" by (cases x) (simp add: cell_wf_def)
  from Cons.prems have nc: "col_name c \<notin> set (map col_name cs)" by simp
  have "map (\<lambda>c'. (col_name c', row_get (x # r) (col_name c'))) cs = map (\<lambda>c'. (col_name c', row_get r (col_name c'))) cs"
  proof (rule map_cong [OF refl])
    fix c' assume "c' \<in> set cs"
    with nc have "col_name c' \<noteq> col_name c" by (metis image_eqI set_map)
    then show "(col_name c', row_get (x # r) (col_name c')) = (col_name c', row_get r (col_name c'))"
      by (simp add: x row_get_def)
  qed
  with Cons.IH Cons.prems x show ?case by (simp add: row_get_def)
qed

lemma row_wf_read_back: "row_wf m r \<Longrightarrow> map (\<lambda>c. (c, row_get r c)) (column_names m) = r"
  using read_back_cells [of "columns m" r] distinct_column_names [of m]
  by (simp add: row_wf_def column_names_def comp_def)

text \<open>An insert that leaves the id to an exhausted sequence fails, and its commit changes nothing.\<close>

lemma commit_sequence_exhausted:
  "seqs s m = int32_max \<Longrightarrow> (case map_of o' ''id'' of Some v \<Rightarrow> v | None \<Rightarrow> JNull) = JNull \<Longrightarrow>
   commit eng [OpInsert m o'] s = (s, Some SequenceExhausted)"
  by (simp add: commit_def insert_obj_def alloc_id_def)

end
