(* ===== verification/Like.thy ===== *)
theory Like
  imports Prelude "HOL-Library.Monad_Syntax"
begin

text \<open>
  Pattern matching with \<open>LIKE\<close> and \<open>ILIKE\<close>, as PostgreSQL evaluates the tax-rate
  lookup of the valuation (\<open>AliquotaIPTU.tipo.ilike(f"%{cad.imovel_uso}%")\<close>, src/app.py
  line 250). \<open>like\<close> is the declarative meaning of a pattern, the one the valuation uses;
  \<open>match_text\<close> is PostgreSQL's matcher (\<open>MatchText\<close> in like_match.c), a loop over
  pattern and text that recurses at each \<open>%\<close> and cuts the search short with
  \<open>LIKE_ABORT\<close>. Its recursion is not structural, so it is a \<open>partial_function\<close> in the
  option monad, \<open>None\<close> standing for a run that does not return; the lemmas show that it
  always returns and that it answers \<open>LIKE_TRUE\<close> exactly when \<open>like\<close> holds.
\<close>

section \<open>The meaning of a pattern\<close>


definition escape_char :: char where
  "escape_char = CHR 0x5C"

text \<open>
  PostgreSQL \<open>LIKE\<close> with the default escape character backslash: \<open>%\<close> matches any
  string, \<open>_\<close> any single character, backslash makes the next character literal.
  A pattern ending in a lone backslash is an error in PostgreSQL; the patterns the
  listing builds end in \<open>%\<close> and never reach that case.
\<close>

fun like :: "string \<Rightarrow> string \<Rightarrow> bool" where
  "like [] s = (s = [])"
| "like (c # p) s =
     (if c = CHR ''%'' then like p s \<or> (case s of [] \<Rightarrow> False | _ # s' \<Rightarrow> like (c # p) s')
      else if c = CHR ''_'' then (case s of [] \<Rightarrow> False | _ # s' \<Rightarrow> like p s')
      else if c = escape_char then
        (case p of
           [] \<Rightarrow> False
         | e # p' \<Rightarrow> (case s of [] \<Rightarrow> False | x # s' \<Rightarrow> x = e \<and> like p' s'))
      else (case s of [] \<Rightarrow> False | x # s' \<Rightarrow> x = c \<and> like p s'))"

text \<open>\<open>ILIKE\<close>: both sides case-folded (ASCII letters).\<close>

definition ilike :: "string \<Rightarrow> string \<Rightarrow> bool" where
  "ilike p s = like (lower p) (lower s)"

text \<open>The pattern of \<open>AliquotaIPTU.tipo.ilike(f"%{cad.imovel_uso}%")\<close>.\<close>

definition uso_pattern :: "string \<Rightarrow> string" where
  "uso_pattern u = CHR ''%'' # u @ [CHR ''%'']"

definition like_meta :: "char \<Rightarrow> bool" where
  "like_meta c \<longleftrightarrow> c = CHR ''%'' \<or> c = CHR ''_'' \<or> c = escape_char"

section \<open>PostgreSQL's matcher\<close>

text \<open>The results of \<open>MatchText\<close>; \<open>LikeError\<close> is the error raised for a pattern ending in the escape character.\<close>

datatype like_res = LikeTrue | LikeFalse | LikeAbort | LikeError

text \<open>
  The three loops of \<open>MatchText\<close>: the entry of a call (with the fast path for the
  pattern \<open>%\<close>), the main loop over pattern and text, and the scan for a text position
  whose character is the first literal of the pattern after a \<open>%\<close>.
\<close>

datatype match_mode = MatchEntry | MatchLoop | MatchScan char

text \<open>
  After a \<open>%\<close>: further \<open>%\<close> are skipped and each \<open>_\<close> consumes one text character;
  \<open>None\<close> is the \<open>LIKE_ABORT\<close> of running out of text.
\<close>

fun skip_wild :: "string \<Rightarrow> string \<Rightarrow> (string \<times> string) option" where
  "skip_wild t [] = Some (t, [])"
| "skip_wild t (c # p) =
     (if c = CHR ''%'' then skip_wild t p
      else if c = CHR ''_'' then (case t of [] \<Rightarrow> None | _ # t' \<Rightarrow> skip_wild t' p)
      else Some (t, c # p))"

text \<open>\<open>firstpat\<close>: the first literal of the rest of the pattern; \<open>None\<close> for a lone escape character.\<close>

definition first_pat :: "string \<Rightarrow> char option" where
  "first_pat p =
     (case p of
        [] \<Rightarrow> None
      | c # p' \<Rightarrow> if c = escape_char then (case p' of [] \<Rightarrow> None | e # _ \<Rightarrow> Some e) else Some c)"

partial_function (option) match_text :: "match_mode \<Rightarrow> string \<Rightarrow> string \<Rightarrow> like_res option" where
  "match_text m t p =
     (case m of
        MatchEntry \<Rightarrow> if p = [CHR ''%''] then Some LikeTrue else match_text MatchLoop t p
      | MatchLoop \<Rightarrow>
          (case t of
             [] \<Rightarrow> if list_all (\<lambda>c. c = CHR ''%'') p then Some LikeTrue else Some LikeAbort
           | x # t' \<Rightarrow>
               (case p of
                  [] \<Rightarrow> Some LikeFalse
                | c # p' \<Rightarrow>
                    if c = escape_char then
                      (case p' of
                         [] \<Rightarrow> Some LikeError
                       | e # p'' \<Rightarrow> if e \<noteq> x then Some LikeFalse else match_text MatchLoop t' p'')
                    else if c = CHR ''%'' then
                      (case skip_wild t p' of
                         None \<Rightarrow> Some LikeAbort
                       | Some (t1, p1) \<Rightarrow>
                           if p1 = [] then Some LikeTrue
                           else (case first_pat p1 of
                                   None \<Rightarrow> Some LikeError
                                 | Some fp \<Rightarrow> match_text (MatchScan fp) t1 p1))
                    else if c = CHR ''_'' then match_text MatchLoop t' p'
                    else if c \<noteq> x then Some LikeFalse
                    else match_text MatchLoop t' p'))
      | MatchScan fp \<Rightarrow>
          (case t of
             [] \<Rightarrow> Some LikeAbort
           | x # t' \<Rightarrow>
               if x = fp then
                 do { r \<leftarrow> match_text MatchEntry t p;
                      if r \<noteq> LikeFalse then Some r else match_text (MatchScan fp) t' p }
               else match_text (MatchScan fp) t' p))"

declare match_text.simps [code]

text \<open>\<open>expr LIKE pattern\<close>: true when the matcher answers \<open>LIKE_TRUE\<close>.\<close>

definition pg_like :: "string \<Rightarrow> string \<Rightarrow> like_res option" where
  "pg_like p t = match_text MatchEntry t p"

text \<open>\<open>expr ILIKE pattern\<close>: both operands lower-cased, then matched.\<close>

definition pg_ilike :: "string \<Rightarrow> string \<Rightarrow> like_res option" where
  "pg_ilike p t = pg_like (lower p) (lower t)"

text \<open>
  Patterns on which the matcher raises no error: every escape character is followed by
  the character it escapes.
\<close>

fun escapes_ok :: "string \<Rightarrow> bool" where
  "escapes_ok [] = True"
| "escapes_ok (c # p) = (if c = escape_char then (case p of [] \<Rightarrow> False | _ # p' \<Rightarrow> escapes_ok p') else escapes_ok p)"

text \<open>A pattern starting with the literal \<open>fp\<close>, as the scan after a \<open>%\<close> expects.\<close>

definition lit_start :: "char \<Rightarrow> string \<Rightarrow> bool" where
  "lit_start fp p \<longleftrightarrow> p \<noteq> [] \<and> hd p \<noteq> CHR ''%'' \<and> hd p \<noteq> CHR ''_'' \<and> first_pat p = Some fp"

text \<open>The order in which the matcher's calls decrease: pattern, then loop, then text.\<close>

fun mode_rank :: "match_mode \<Rightarrow> nat" where
  "mode_rank MatchLoop = 0"
| "mode_rank MatchEntry = 1"
| "mode_rank (MatchScan _) = 2"

definition match_order :: "((match_mode \<times> string \<times> string) \<times> (match_mode \<times> string \<times> string)) set" where
  "match_order = measures [\<lambda>(m, t, p). length p, \<lambda>(m, t, p). mode_rank m, \<lambda>(m, t, p). length t]"

section \<open>Lemmas: the meaning of patterns\<close>

lemma like_literal:
  "\<forall>c\<in>set xs. \<not> like_meta c \<Longrightarrow> like (xs @ p) s \<longleftrightarrow> (\<exists>s'. s = xs @ s' \<and> like p s')"
proof (induction xs arbitrary: s)
  case Nil
  then show ?case by simp
next
  case (Cons x xs)
  then have "\<not> like_meta x" by simp
  then have step: "like (x # xs @ p) s = (case s of [] \<Rightarrow> False | y # s' \<Rightarrow> y = x \<and> like (xs @ p) s')"
    by (simp add: like_meta_def)
  from Cons have IH: "\<And>s. like (xs @ p) s \<longleftrightarrow> (\<exists>s'. s = xs @ s' \<and> like p s')" by simp
  show ?case using step IH by (cases s) (auto simp del: like.simps)
qed

lemma like_percent: "like (CHR ''%'' # p) s \<longleftrightarrow> (\<exists>u v. s = u @ v \<and> like p v)"
proof (induction s)
  case Nil
  then show ?case by simp
next
  case (Cons a s)
  have "like (CHR ''%'' # p) (a # s) = (like p (a # s) \<or> like (CHR ''%'' # p) s)" by simp
  also have "\<dots> = (\<exists>u v. a # s = u @ v \<and> like p v)"
    using Cons.IH by (auto simp: Cons_eq_append_conv)
  finally show ?case .
qed

lemma like_percent_any: "like [CHR ''%''] s"
  by (induction s) simp_all

lemma like_uso_pattern:
  assumes "\<forall>c\<in>set u. \<not> like_meta c"
  shows "like (uso_pattern u) t \<longleftrightarrow> sublist u t"
proof -
  have "like (uso_pattern u) t \<longleftrightarrow> (\<exists>a b. t = a @ b \<and> like (u @ [CHR ''%'']) b)"
    unfolding uso_pattern_def by (rule like_percent)
  also have "\<dots> \<longleftrightarrow> (\<exists>a b'. t = a @ u @ b')"
    using assms by (auto simp: like_literal like_percent_any simp del: like.simps)
  finally show ?thesis by (simp add: sublist_def)
qed

lemma lower_char_not_meta: "\<not> like_meta c \<Longrightarrow> \<not> like_meta (lower_char c)"
proof (cases "65 \<le> (of_char c :: nat) \<and> (of_char c :: nat) \<le> 90")
  case True
  let ?d = "char_of (of_char c + 32 :: nat) :: char"
  from True have d: "(of_char ?d :: nat) = of_char c + 32" by (simp add: of_char_of)
  from True have low: "lower_char c = ?d" by (simp add: lower_char_def)
  have ne: "\<And>x::char. (of_char x :: nat) < 97 \<Longrightarrow> ?d \<noteq> x"
    using d True by auto
  show ?thesis
    using ne [of "CHR ''%''"] ne [of "CHR ''_''"] ne [of escape_char]
    by (simp add: low like_meta_def escape_char_def)
next
  case False
  then show "\<not> like_meta c \<Longrightarrow> ?thesis" by (simp add: lower_char_id)
qed

lemma lower_uso_pattern: "lower (uso_pattern u) = uso_pattern (lower u)"
  by (simp add: uso_pattern_def lower_char_def)

section \<open>Lemmas: the matcher returns and agrees with LIKE\<close>

lemma skip_wild_shorter: "skip_wild t p = Some (t1, p1) \<Longrightarrow> length p1 \<le> length p \<and> length t1 \<le> length t"
  by (induction t p rule: skip_wild.induct) (auto split: if_splits list.splits)

lemma wf_match_order: "wf match_order"
  by (simp add: match_order_def)

lemma match_text_returns: "\<exists>r. match_text m t p = Some r"
proof (induction "(m, t, p)" arbitrary: m t p rule: wf_induct_rule [OF wf_match_order])
  case 1
  note IH = "1.hyps"
  show ?case
  proof (cases m)
    case MatchEntry
    from IH [of MatchLoop t p] MatchEntry obtain r where "match_text MatchLoop t p = Some r"
      by (auto simp: match_order_def)
    with MatchEntry show ?thesis by (subst match_text.simps) auto
  next
    case MatchLoop
    show ?thesis
    proof (cases t)
      case Nil
      with MatchLoop show ?thesis by (subst match_text.simps) auto
    next
      case (Cons x t')
      note tc = this
      have loop: "\<exists>r. match_text MatchLoop t' q = Some r" if "length q < length p" for q
        using IH [of MatchLoop t' q] that MatchLoop by (auto simp: match_order_def)
      show ?thesis
      proof (cases p)
        case Nil
        with MatchLoop Cons show ?thesis by (subst match_text.simps) simp
      next
        case (Cons c p')
        note p = this
        consider (esc) "c = escape_char" | (pct) "c \<noteq> escape_char" "c = CHR ''%''"
          | (other) "c \<noteq> escape_char" "c \<noteq> CHR ''%''" by blast
        then show ?thesis
        proof cases
          case esc
          have "\<exists>r. match_text MatchLoop t' p'' = Some r" if "p' = e # p''" for e p''
            using loop [of p''] that p by simp
          with esc MatchLoop tc p show ?thesis
            by (subst match_text.simps) (simp add: escape_char_def split: list.split)
        next
          case pct
          have "\<exists>r. match_text (MatchScan fp) t1 p1 = Some r" if "skip_wild t p' = Some (t1, p1)" for fp t1 p1
            using IH [of "MatchScan fp" t1 p1] skip_wild_shorter [OF that] p MatchLoop by (auto simp: match_order_def)
          with pct MatchLoop tc p show ?thesis
            by (subst match_text.simps) (simp add: escape_char_def split: option.split)
        next
          case other
          from loop [of p'] p have "\<exists>r. match_text MatchLoop t' p' = Some r" by simp
          with other MatchLoop tc p show ?thesis
            by (subst match_text.simps) simp
        qed
      qed
    qed
  next
    case (MatchScan fp)
    show ?thesis
    proof (cases t)
      case Nil
      with MatchScan show ?thesis by (subst match_text.simps) auto
    next
      case (Cons x t')
      from IH [of MatchEntry t p] MatchScan obtain r where e: "match_text MatchEntry t p = Some r"
        by (auto simp: match_order_def)
      from IH [of "MatchScan fp" t' p] MatchScan Cons obtain r' where s: "match_text (MatchScan fp) t' p = Some r'"
        by (auto simp: match_order_def)
      from MatchScan Cons e s show ?thesis by (subst match_text.simps) auto
    qed
  qed
qed

lemma suffix_Cons_iff: "suffix s (x # t) \<longleftrightarrow> s = x # t \<or> suffix s t"
  by (auto simp: suffix_def Cons_eq_append_conv)

lemma like_percent_suffix: "like (CHR ''%'' # p) s \<longleftrightarrow> (\<exists>v. suffix v s \<and> like p v)"
  by (auto simp: like_percent suffix_def simp del: like.simps(2))

lemma like_underscore: "like (CHR ''_'' # q) s \<longleftrightarrow> (\<exists>y s'. s = y # s' \<and> like q s')"
  by (cases s) simp_all

lemma suffix_extend: "suffix v t' \<Longrightarrow> \<exists>z. suffix (z # v) (y # t')"
proof -
  assume "suffix v t'"
  then obtain zs where "t' = zs @ v" by (auto simp: suffix_def)
  then have "y # t' = butlast (y # zs) @ last (y # zs) # v"
    by (metis append_butlast_last_id append_Cons append_assoc append_self_conv2 list.distinct(1))
  then show ?thesis by (auto simp: suffix_def)
qed

lemma like_percent_mono: "suffix s t \<Longrightarrow> like (CHR ''%'' # p) s \<Longrightarrow> like (CHR ''%'' # p) t"
  by (auto simp: like_percent_suffix simp del: like.simps(2) intro: suffix_order.order_trans)

lemma like_Nil_text: "like p [] \<longleftrightarrow> list_all (\<lambda>c. c = CHR ''%'') p"
  by (induction p) (auto simp: escape_char_def split: list.split)

lemma lit_start_like:
  "lit_start fp p \<Longrightarrow> \<not> like p [] \<and> (like p (x # t) \<longrightarrow> x = fp)"
  by (cases p) (auto simp: lit_start_def first_pat_def like_Nil_text split: if_splits list.splits)

lemma skip_wild_like:
  "skip_wild t q = Some (t1, p1) \<Longrightarrow> like (CHR ''%'' # q) t \<longleftrightarrow> (\<exists>s. suffix s t1 \<and> like p1 s)"
proof (induction t q rule: skip_wild.induct)
  case (1 t)
  then show ?case by (auto simp: like_percent_any simp del: like.simps(2))
next
  case (2 t c q)
  show ?case
  proof (cases "c = CHR ''%''")
    case True
    with "2.prems" have "skip_wild t q = Some (t1, p1)" by simp
    with "2.IH"(1) True have "like (CHR ''%'' # q) t \<longleftrightarrow> (\<exists>s. suffix s t1 \<and> like p1 s)" by simp
    moreover have "like (CHR ''%'' # CHR ''%'' # q) t \<longleftrightarrow> like (CHR ''%'' # q) t"
      by (auto simp: like_percent_suffix simp del: like.simps(2) intro: suffix_order.order_trans)
    ultimately show ?thesis using True by simp
  next
    case False
    show ?thesis
    proof (cases "c = CHR ''_''")
      case True
      with "2.prems" obtain y t' where t: "t = y # t'" and sk: "skip_wild t' q = Some (t1, p1)"
        by (auto split: list.splits)
      with "2.IH"(2) True False have ih: "like (CHR ''%'' # q) t' \<longleftrightarrow> (\<exists>s. suffix s t1 \<and> like p1 s)" by simp
      have "like (CHR ''%'' # CHR ''_'' # q) t \<longleftrightarrow> like (CHR ''%'' # q) t'"
      proof
        assume "like (CHR ''%'' # CHR ''_'' # q) t"
        then obtain v y' s' where v: "suffix v t" "v = y' # s'" and l: "like q s'"
          by (auto simp: like_percent_suffix like_underscore simp del: like.simps)
        from v t have "suffix s' t'" by (auto simp: suffix_Cons_iff dest: suffix_ConsD)
        with l show "like (CHR ''%'' # q) t'" by (auto simp: like_percent_suffix simp del: like.simps)
      next
        assume "like (CHR ''%'' # q) t'"
        then obtain v where v: "suffix v t'" and l: "like q v"
          by (auto simp: like_percent_suffix simp del: like.simps)
        from suffix_extend [OF v, of y] obtain z where "suffix (z # v) (y # t')" ..
        with l t show "like (CHR ''%'' # CHR ''_'' # q) t"
          by (auto simp: like_percent_suffix like_underscore simp del: like.simps)
      qed
      with ih True show ?thesis by simp
    next
      case c: False
      with False "2.prems" have "t1 = t" "p1 = c # q" by auto
      then show ?thesis by (simp add: like_percent_suffix del: like.simps(2))
    qed
  qed
qed

lemma like_percent_percent: "like (CHR ''%'' # CHR ''%'' # q) t \<longleftrightarrow> like (CHR ''%'' # q) t"
  by (auto simp: like_percent_suffix simp del: like.simps(2) intro: suffix_order.order_trans)

lemma skip_wild_None: "skip_wild t q = None \<Longrightarrow> \<not> like (CHR ''%'' # q) t"
proof (induction t q rule: skip_wild.induct)
  case (1 t)
  then show ?case by simp
next
  case (2 t c q)
  show ?case
  proof (cases "c = CHR ''%''")
    case True
    with "2.prems" "2.IH"(1) show ?thesis by (simp add: like_percent_percent del: like.simps(2))
  next
    case False
    with "2.prems" have u: "c = CHR ''_''" by (auto split: if_splits)
    show ?thesis
    proof (cases t)
      case Nil
      with u show ?thesis by (simp add: like_percent_suffix like_underscore del: like.simps)
    next
      case (Cons y t')
      with "2.prems" u False have "skip_wild t' q = None" by simp
      with "2.IH"(2) [OF False u Cons] have "\<not> like (CHR ''%'' # q) t'" by simp
      then show ?thesis using Cons u
        by (auto simp: like_percent_suffix like_underscore suffix_Cons_iff simp del: like.simps dest: suffix_ConsD)
    qed
  qed
qed

lemma skip_wild_rest:
  "skip_wild t q = Some (t1, p1) \<Longrightarrow> escapes_ok q \<Longrightarrow> p1 \<noteq> [] \<Longrightarrow>
   escapes_ok p1 \<and> length p1 \<le> length q \<and> (\<exists>fp. lit_start fp p1)"
proof (induction t q rule: skip_wild.induct)
  case (1 t)
  then show ?case by simp
next
  case (2 t c q)
  have ne: "CHR ''%'' \<noteq> escape_char" "CHR ''_'' \<noteq> escape_char" by (simp_all add: escape_char_def)
  consider (pct) "c = CHR ''%''" | (und) "c \<noteq> CHR ''%''" "c = CHR ''_''"
    | (lit) "c \<noteq> CHR ''%''" "c \<noteq> CHR ''_''" by blast
  then show ?case
  proof cases
    case pct
    with "2.prems" ne have "skip_wild t q = Some (t1, p1)" "escapes_ok q" by simp_all
    with "2.IH"(1) [OF pct] "2.prems"(3) show ?thesis by simp
  next
    case und
    with "2.prems" obtain y t' where t: "t = y # t'" and sk: "skip_wild t' q = Some (t1, p1)"
      by (auto split: list.splits)
    from "2.prems"(2) und ne have "escapes_ok q" by simp
    with "2.IH"(2) [OF und t] sk "2.prems"(3) show ?thesis by simp
  next
    case lit
    with "2.prems"(1) have p1: "t1 = t" "p1 = c # q" by simp_all
    have "\<exists>fp. first_pat (c # q) = Some fp"
      using "2.prems"(2) by (auto simp: first_pat_def split: list.splits if_splits)
    with lit "2.prems"(2) p1 show ?thesis by (auto simp: lit_start_def)
  qed
qed

text \<open>A pattern whose head consumes exactly one character.\<close>

lemma like_head_one:
  "like (escape_char # e # q) s \<longleftrightarrow> (\<exists>y s'. s = y # s' \<and> y = e \<and> like q s')"
  "c \<noteq> CHR ''%'' \<Longrightarrow> c \<noteq> CHR ''_'' \<Longrightarrow> c \<noteq> escape_char \<Longrightarrow>
     like (c # q) s \<longleftrightarrow> (\<exists>y s'. s = y # s' \<and> y = c \<and> like q s')"
  by (cases s; simp add: escape_char_def)+

lemma step_abort:
  assumes "\<And>s. like P s \<Longrightarrow> \<exists>y s'. s = y # s' \<and> like q s'"
    and "\<forall>s. suffix s t' \<longrightarrow> \<not> like q s"
  shows "\<forall>s. suffix s (x # t') \<longrightarrow> \<not> like P s"
proof (intro allI impI notI)
  fix s assume sx: "suffix s (x # t')" and "like P s"
  with assms(1) obtain y s' where s: "s = y # s'" and l: "like q s'" by blast
  from sx s have "suffix s' t'" by (auto dest: suffix_ConsD2)
  with assms(2) l show False by blast
qed

lemma match_text_sound:
  assumes "escapes_ok p" and "match_text m t p = Some r"
  shows "case m of
           MatchScan fp \<Rightarrow> lit_start fp p \<longrightarrow>
             (r = LikeTrue \<or> r = LikeAbort) \<and> (r = LikeTrue \<longleftrightarrow> (\<exists>s. suffix s t \<and> like p s))
         | _ \<Rightarrow> r \<noteq> LikeError \<and> (r = LikeTrue \<longleftrightarrow> like p t) \<and> (r = LikeAbort \<longrightarrow> (\<forall>s. suffix s t \<longrightarrow> \<not> like p s))"
  using assms
proof (induction "(m, t, p)" arbitrary: m t p r rule: wf_induct_rule [OF wf_match_order])
  case 1
  note IH = "1.hyps"
  have loopIH: "r' \<noteq> LikeError \<and> (r' = LikeTrue \<longleftrightarrow> like q u) \<and> (r' = LikeAbort \<longrightarrow> (\<forall>s. suffix s u \<longrightarrow> \<not> like q s))"
    if "((MatchLoop, u, q), (m, t, p)) \<in> match_order" "escapes_ok q" "match_text MatchLoop u q = Some r'" for u q r'
    using IH [OF that] by simp
  show ?case
  proof (cases m)
    case MatchEntry
    show ?thesis
    proof (cases "p = [CHR ''%'']")
      case True
      with MatchEntry "1.prems"(2) have "r = LikeTrue" by (subst (asm) match_text.simps) simp
      with True MatchEntry show ?thesis by (simp add: like_percent_any del: like.simps)
    next
      case False
      with MatchEntry "1.prems"(2) have "match_text MatchLoop t p = Some r" by (subst (asm) match_text.simps) simp
      from loopIH [OF _ "1.prems"(1) this] MatchEntry show ?thesis by (simp add: match_order_def)
    qed
  next
    case MatchLoop
    note run = "1.prems"(2) [unfolded MatchLoop]
    show ?thesis
    proof (cases t)
      case Nil
      with run have "r = (if list_all (\<lambda>c. c = CHR ''%'') p then LikeTrue else LikeAbort)"
        by (subst (asm) match_text.simps) (simp split: if_splits)
      with Nil MatchLoop show ?thesis by (auto simp: like_Nil_text)
    next
      case (Cons x t')
      note tc = this
      have lIH: "r' \<noteq> LikeError \<and> (r' = LikeTrue \<longleftrightarrow> like q t') \<and> (r' = LikeAbort \<longrightarrow> (\<forall>s. suffix s t' \<longrightarrow> \<not> like q s))"
        if "length q < length p" "escapes_ok q" "match_text MatchLoop t' q = Some r'" for q r'
        using loopIH [OF _ that(2,3)] that(1) MatchLoop by (simp add: match_order_def)
      show ?thesis
      proof (cases p)
        case Nil
        with run tc MatchLoop show ?thesis by (subst (asm) match_text.simps) simp
      next
        case (Cons c p')
        note pc = this
        consider (esc) "c = escape_char" | (pct) "c = CHR ''%''" | (und) "c = CHR ''_''"
          | (lit) "c \<noteq> escape_char" "c \<noteq> CHR ''%''" "c \<noteq> CHR ''_''" by blast
        then show ?thesis
        proof cases
          case esc
          with pc "1.prems"(1) obtain e p'' where p': "p' = e # p''" and ok: "escapes_ok p''"
            by (auto split: list.splits)
          show ?thesis
          proof (cases "e = x")
            case False
            with run tc pc esc p' have "r = LikeFalse" by (subst (asm) match_text.simps) simp
            with False tc pc esc p' MatchLoop show ?thesis by (simp add: like_head_one(1) del: like.simps)
          next
            case True
            with run tc pc esc p' have "match_text MatchLoop t' p'' = Some r" by (subst (asm) match_text.simps) simp
            from lIH [OF _ ok this] pc p' have r: "r \<noteq> LikeError" "r = LikeTrue \<longleftrightarrow> like p'' t'"
              "r = LikeAbort \<longrightarrow> (\<forall>s. suffix s t' \<longrightarrow> \<not> like p'' s)" by simp_all
            have h: "\<exists>y s'. s = y # s' \<and> like p'' s'" if "like p s" for s
              using that esc pc p' by (auto simp: like_head_one(1) simp del: like.simps)
            have "r = LikeAbort \<longrightarrow> (\<forall>s. suffix s t \<longrightarrow> \<not> like p s)"
              using step_abort [OF h, where t'=t' and x=x] r(3) tc by simp
            with r True tc pc esc p' MatchLoop show ?thesis by (simp add: like_head_one(1) del: like.simps)
          qed
        next
          case pct
          have ne: "CHR ''%'' \<noteq> escape_char" by (simp add: escape_char_def)
          with pct pc "1.prems"(1) have ok': "escapes_ok p'" by simp
          have mono: "\<not> like p t \<Longrightarrow> \<forall>s. suffix s t \<longrightarrow> \<not> like p s"
            using like_percent_mono [of _ t p'] pct pc by blast
          show ?thesis
          proof (cases "skip_wild t p'")
            case None
            with run tc pc pct ne have "r = LikeAbort" by (subst (asm) match_text.simps) simp
            with skip_wild_None [OF None] mono pct pc MatchLoop show ?thesis by simp
          next
            case (Some tp)
            then obtain t1 p1 where sk: "skip_wild t p' = Some (t1, p1)" by (cases tp) auto
            note lk = skip_wild_like [OF sk]
            show ?thesis
            proof (cases "p1 = []")
              case True
              with run tc pc pct ne sk have "r = LikeTrue" by (subst (asm) match_text.simps) simp
              with lk True pc pct MatchLoop show ?thesis by (auto simp del: like.simps(2))
            next
              case False
              from skip_wild_rest [OF sk ok' False] obtain fp where ok1: "escapes_ok p1"
                and len: "length p1 \<le> length p'" and ls: "lit_start fp p1" by blast
              from ls have fp: "first_pat p1 = Some fp" by (simp add: lit_start_def)
              with run tc pc pct ne sk False have sc: "match_text (MatchScan fp) t1 p1 = Some r"
                by (subst (asm) match_text.simps) simp
              have "((MatchScan fp, t1, p1), (m, t, p)) \<in> match_order"
                using len pc by (simp add: match_order_def)
              from IH [OF this ok1 sc] ls have "(r = LikeTrue \<or> r = LikeAbort) \<and>
                (r = LikeTrue \<longleftrightarrow> (\<exists>s. suffix s t1 \<and> like p1 s))" by (simp only: match_mode.case) blast
              then have r: "r = LikeTrue \<or> r = LikeAbort" "r = LikeTrue \<longleftrightarrow> (\<exists>s. suffix s t1 \<and> like p1 s)"
                by blast+
              show ?thesis
              proof -
                have "r \<noteq> LikeError" using r(1) by auto
                moreover have "r = LikeTrue \<longleftrightarrow> like p t" using r(2) lk pc pct by (simp del: like.simps)
                moreover have "r = LikeAbort \<longrightarrow> (\<forall>s. suffix s t \<longrightarrow> \<not> like p s)"
                  using calculation(2) mono by auto
                ultimately show ?thesis using MatchLoop by simp
              qed
            qed
          qed
        next
          case und
          have ne: "CHR ''_'' \<noteq> escape_char" "CHR ''_'' \<noteq> CHR ''%''" by (simp_all add: escape_char_def)
          with und pc "1.prems"(1) have ok': "escapes_ok p'" by simp
          from run tc pc und ne have "match_text MatchLoop t' p' = Some r" by (subst (asm) match_text.simps) simp
          from lIH [OF _ ok' this] pc have r: "r \<noteq> LikeError" "r = LikeTrue \<longleftrightarrow> like p' t'"
            "r = LikeAbort \<longrightarrow> (\<forall>s. suffix s t' \<longrightarrow> \<not> like p' s)" by simp_all
          have h: "\<exists>y s'. s = y # s' \<and> like p' s'" if "like p s" for s
            using that und pc by (simp add: like_underscore del: like.simps)
          have "r = LikeAbort \<longrightarrow> (\<forall>s. suffix s t \<longrightarrow> \<not> like p s)"
            using step_abort [OF h, where t'=t' and x=x] r(3) tc by simp
          with r und tc pc MatchLoop show ?thesis by (simp add: like_underscore del: like.simps)
        next
          case lit
          with pc "1.prems"(1) have ok': "escapes_ok p'" by simp
          show ?thesis
          proof (cases "c = x")
            case False
            with run tc pc lit have "r = LikeFalse" by (subst (asm) match_text.simps) simp
            with False tc pc lit MatchLoop show ?thesis by (simp add: like_head_one(2) del: like.simps)
          next
            case True
            with run tc pc lit have "match_text MatchLoop t' p' = Some r" by (subst (asm) match_text.simps) simp
            from lIH [OF _ ok' this] pc have r: "r \<noteq> LikeError" "r = LikeTrue \<longleftrightarrow> like p' t'"
              "r = LikeAbort \<longrightarrow> (\<forall>s. suffix s t' \<longrightarrow> \<not> like p' s)" by simp_all
            have h: "\<exists>y s'. s = y # s' \<and> like p' s'" if "like p s" for s
              using that lit pc by (auto simp: like_head_one(2) simp del: like.simps)
            have "r = LikeAbort \<longrightarrow> (\<forall>s. suffix s t \<longrightarrow> \<not> like p s)"
              using step_abort [OF h, where t'=t' and x=x] r(3) tc by simp
            with r True tc pc lit MatchLoop show ?thesis by (simp add: like_head_one(2) del: like.simps)
          qed
        qed
      qed
    qed
  next
    case (MatchScan fp)
    note run = "1.prems"(2) [unfolded MatchScan]
    show ?thesis
    proof (cases "lit_start fp p")
      case False
      with MatchScan show ?thesis by simp
    next
      case True
      note ls = lit_start_like [OF True]
      show ?thesis
      proof (cases t)
        case Nil
        with run have "r = LikeAbort" by (subst (asm) match_text.simps) simp
        with Nil ls MatchScan show ?thesis by auto
      next
        case (Cons x t')
        note tc = this
        obtain r1 where s1: "match_text (MatchScan fp) t' p = Some r1" using match_text_returns by blast
        have "((MatchScan fp, t', p), (m, t, p)) \<in> match_order" using tc MatchScan by (simp add: match_order_def)
        from IH [OF this "1.prems"(1) s1] True have "(r1 = LikeTrue \<or> r1 = LikeAbort) \<and>
          (r1 = LikeTrue \<longleftrightarrow> (\<exists>s. suffix s t' \<and> like p s))" by (simp only: match_mode.case) blast
        then have r1: "r1 = LikeTrue \<or> r1 = LikeAbort" "r1 = LikeTrue \<longleftrightarrow> (\<exists>s. suffix s t' \<and> like p s)"
          by blast+
        have rest: ?thesis if rr: "r = r1" and nl: "\<not> like p t"
        proof -
          have "(\<exists>s. suffix s t \<and> like p s) \<longleftrightarrow> (\<exists>s. suffix s t' \<and> like p s)"
            using nl tc by (auto simp: suffix_Cons_iff simp del: like.simps)
          with r1 rr MatchScan show ?thesis by (simp del: like.simps)
        qed
        show ?thesis
        proof (cases "x = fp")
          case False
          with run tc s1 have "r = r1" by (subst (asm) match_text.simps) simp
          with rest ls tc False show ?thesis by blast
        next
          case True
          obtain r0 where s0: "match_text MatchEntry t p = Some r0" using match_text_returns by blast
          have "((MatchEntry, t, p), (m, t, p)) \<in> match_order" using MatchScan by (simp add: match_order_def)
          from IH [OF this "1.prems"(1) s0] have r0: "r0 \<noteq> LikeError" "r0 = LikeTrue \<longleftrightarrow> like p t"
            "r0 = LikeAbort \<longrightarrow> (\<forall>s. suffix s t \<longrightarrow> \<not> like p s)" by simp_all
          from run tc True s0 s1 have r: "r = (if r0 \<noteq> LikeFalse then r0 else r1)"
            by (subst (asm) match_text.simps) (simp split: if_splits)
          show ?thesis
          proof (cases "r0 = LikeFalse")
            case True
            with r r0(2) rest show ?thesis by simp
          next
            case False
            show ?thesis
            proof (cases r0)
              case LikeTrue
              with r0(2) have "like p t" by simp
              with LikeTrue r False MatchScan suffix_order.refl [of t] show ?thesis by (auto simp del: like.simps)
            next
              case LikeAbort
              with r0(3) have "\<not> (\<exists>s. suffix s t \<and> like p s)" by (simp del: like.simps)
              with LikeAbort r False MatchScan show ?thesis by (simp del: like.simps)
            qed (use r0(1) False in simp_all)
          qed
        qed
      qed
    qed
  qed
qed

lemma escapes_ok_snoc: "c \<noteq> escape_char \<Longrightarrow> escapes_ok (xs @ [c])"
proof (induction "length xs" arbitrary: xs rule: less_induct)
  case less
  show ?case
  proof (cases xs)
    case Nil
    with less.prems show ?thesis by simp
  next
    case (Cons a xs')
    show ?thesis
    proof (cases "a = escape_char")
      case True
      show ?thesis
      proof (cases xs')
        case Nil
        with Cons True show ?thesis by simp
      next
        case (Cons b xs'')
        with less.hyps [of xs''] less.prems \<open>xs = a # xs'\<close> True show ?thesis by simp
      qed
    next
      case False
      with less.hyps [of xs'] less.prems Cons show ?thesis by simp
    qed
  qed
qed

lemma escapes_ok_uso_pattern: "escapes_ok (uso_pattern u)"
  using escapes_ok_snoc [of "CHR ''%''" "CHR ''%'' # u"] by (simp add: uso_pattern_def escape_char_def)

text \<open>On a pattern without a dangling escape, PostgreSQL's matcher answers \<open>LIKE_TRUE\<close> exactly when \<open>like\<close> holds.\<close>

lemma pg_like_iff: "escapes_ok p \<Longrightarrow> pg_like p t = Some LikeTrue \<longleftrightarrow> like p t"
proof -
  assume ok: "escapes_ok p"
  obtain r where r: "match_text MatchEntry t p = Some r" using match_text_returns by blast
  from match_text_sound [OF ok r] have "r = LikeTrue \<longleftrightarrow> like p t" by simp
  with r show ?thesis by (simp add: pg_like_def)
qed

end
