(* ===== verification/Valuation.thy ===== *)
theory Valuation
  imports Storage Like
begin

text \<open>
  The valuation of \<open>listar_cadastros_reurb\<close> (src/app.py lines 234 to 268). For each
  registration it looks up the land value per square metre of its street
  (\<open>ValorLogradouro\<close>, exact match), the construction value of its construction
  standard (\<open>PadraoConstrutivo\<close>, exact match) and the tax rate of its use
  (\<open>AliquotaIPTU\<close>, \<open>tipo ILIKE '%uso%'\<close>), and computes \<open>vvt\<close>, \<open>vvc\<close>,
  \<open>vvi = vvt + vvc\<close> and \<open>iptu\<close>. Each lookup is a query that can fail; a failure is
  caught per record (the values computed so far are kept), but the session is never
  rolled back, so PostgreSQL rejects every later query of the request
  (\<open>current transaction is aborted\<close>). Query failures come from an oracle
  \<open>flt :: fault\<close> indexed by the number of queries issued in the request. The
  ILIKE of the tax lookup is the \<open>ilike\<close> of the Like theory.
\<close>

section \<open>Queries in one request\<close>

type_synonym fault = "nat \<Rightarrow> bool"

record qstate =
  qcount :: nat
  aborted :: bool

definition q0 :: qstate where
  "q0 = \<lparr>qcount = 0, aborted = False\<rparr>"

text \<open>\<open>Model.query.filter(...).first()\<close>: the first row in storage order that satisfies the filter.\<close>

definition query_first :: "fault \<Rightarrow> db \<Rightarrow> model \<Rightarrow> (row \<Rightarrow> bool) \<Rightarrow> qstate \<Rightarrow> (dberr + row option) \<times> qstate" where
  "query_first flt s m P q =
     (let q' = q\<lparr>qcount := Suc (qcount q)\<rparr>
      in if aborted q then (Inl TxnAborted, q')
         else if flt (qcount q) then (Inl QueryFault, q'\<lparr>aborted := True\<rparr>)
         else (Inr (find P (tables s m)), q'))"

text \<open>
  One term of the valuation: \<open>if guard: x = query...first(); if x: value = f(x)\<close>,
  the value staying 0.0 when the guard is false or nothing matches.
\<close>

definition term_value :: "fault \<Rightarrow> db \<Rightarrow> bool \<Rightarrow> model \<Rightarrow> (row \<Rightarrow> bool) \<Rightarrow> (row \<Rightarrow> real) \<Rightarrow> qstate \<Rightarrow> (dberr + real) \<times> qstate" where
  "term_value flt s guard m P f q =
     (if guard then
        (case query_first flt s m P q of
           (Inl e, q') \<Rightarrow> (Inl e, q')
         | (Inr None, q') \<Rightarrow> (Inr 0, q')
         | (Inr (Some x), q') \<Rightarrow> (Inr (f x), q'))
      else (Inr 0, q))"

section \<open>The valuation of one registration\<close>

record valores =
  vvt :: real
  vvc :: real
  vvi :: real
  iptu :: real

definition zero_valores :: valores where
  "zero_valores = \<lparr>vvt = 0, vvc = 0, vvi = 0, iptu = 0\<rparr>"

definition land_term :: "fault \<Rightarrow> db \<Rightarrow> row \<Rightarrow> qstate \<Rightarrow> (dberr + real) \<times> qstate" where
  "land_term flt s cad =
     (let l = row_get cad ''imovel_logradouro''; a = row_get cad ''imovel_area_total''
      in term_value flt s (db_truthy l \<and> db_truthy a) ValorLogradouro
           (\<lambda>p. row_get p ''logradouro'' = l) (\<lambda>p. db_num a * db_num (row_get p ''valor_m2'')))"

definition construction_term :: "fault \<Rightarrow> db \<Rightarrow> row \<Rightarrow> qstate \<Rightarrow> (dberr + real) \<times> qstate" where
  "construction_term flt s cad =
     (let t = row_get cad ''imovel_tipo_construcao''; a = row_get cad ''imovel_area_construida''
      in term_value flt s (db_truthy t \<and> db_truthy a) PadraoConstrutivo
           (\<lambda>p. row_get p ''descricao'' = t) (\<lambda>p. db_num a * db_num (row_get p ''valor_m2'')))"

definition tax_term :: "fault \<Rightarrow> db \<Rightarrow> row \<Rightarrow> real \<Rightarrow> qstate \<Rightarrow> (dberr + real) \<times> qstate" where
  "tax_term flt s cad vi =
     (let u = row_get cad ''imovel_uso''
      in term_value flt s (db_truthy u \<and> vi > 0) AliquotaIPTU
           (\<lambda>p. ilike (uso_pattern (db_str u)) (db_str (row_get p ''tipo'')))
           (\<lambda>p. vi * (db_num (row_get p ''aliquota'') / 100)))"

text \<open>
  The \<open>try\<close> block of lines 241 to 253: the assignments made before an exception stay,
  the rest keep their initial 0.0.
\<close>

definition valuation :: "fault \<Rightarrow> db \<Rightarrow> row \<Rightarrow> qstate \<Rightarrow> valores \<times> qstate" where
  "valuation flt s cad q =
     (case land_term flt s cad q of
        (Inl _, q1) \<Rightarrow> (zero_valores, q1)
      | (Inr t, q1) \<Rightarrow>
          (case construction_term flt s cad q1 of
             (Inl _, q2) \<Rightarrow> (zero_valores\<lparr>vvt := t\<rparr>, q2)
           | (Inr c, q2) \<Rightarrow>
               (case tax_term flt s cad (t + c) q2 of
                  (Inl _, q3) \<Rightarrow> (\<lparr>vvt = t, vvc = c, vvi = t + c, iptu = 0\<rparr>, q3)
                | (Inr i, q3) \<Rightarrow> (\<lparr>vvt = t, vvc = c, vvi = t + c, iptu = i\<rparr>, q3))))"

section \<open>The listing\<close>

text \<open>\<open>"REURB-S" if cad.reurb_renda_familiar and cad.reurb_renda_familiar <= 4000 else "REURB-E"\<close>.\<close>

definition tipo_reurb :: "dbval \<Rightarrow> string" where
  "tipo_reurb renda = (if db_truthy renda \<and> db_num renda \<le> 4000 then ''REURB-S'' else ''REURB-E'')"

text \<open>\<open>f"{cad.imovel_logradouro or ''}, {cad.imovel_numero or ''}"\<close>.\<close>

definition endereco :: "row \<Rightarrow> string" where
  "endereco cad =
     (let l = row_get cad ''imovel_logradouro''; n = row_get cad ''imovel_numero''
      in (if db_truthy l then db_str l else []) @ '', '' @ (if db_truthy n then db_str n else []))"

record item =
  it_id :: dbval
  it_nome :: dbval
  it_cpf :: dbval
  it_rg :: dbval
  it_telefone :: dbval
  it_email :: dbval
  it_endereco :: string
  it_inscricao :: dbval
  it_area_total :: dbval
  it_area_construida :: dbval
  it_renda :: dbval
  it_valores :: valores
  it_tipo_reurb :: string

definition mk_item :: "row \<Rightarrow> valores \<Rightarrow> item" where
  "mk_item cad v =
     \<lparr>it_id = row_get cad ''id'', it_nome = row_get cad ''req_nome'', it_cpf = row_get cad ''req_cpf'',
      it_rg = row_get cad ''req_rg'', it_telefone = row_get cad ''req_telefone'',
      it_email = row_get cad ''req_email'', it_endereco = endereco cad,
      it_inscricao = row_get cad ''inscricao_imobiliaria'',
      it_area_total = row_get cad ''imovel_area_total'',
      it_area_construida = row_get cad ''imovel_area_construida'',
      it_renda = row_get cad ''reurb_renda_familiar'', it_valores = v,
      it_tipo_reurb = tipo_reurb (row_get cad ''reurb_renda_familiar'')\<rparr>"

fun list_items :: "fault \<Rightarrow> db \<Rightarrow> row list \<Rightarrow> qstate \<Rightarrow> item list \<times> qstate" where
  "list_items flt s [] q = ([], q)"
| "list_items flt s (cad # cads) q =
     (let (v, q1) = valuation flt s cad q; (its, q2) = list_items flt s cads q1
      in (mk_item cad v # its, q2))"

definition listar_cadastros_reurb :: "fault \<Rightarrow> db \<Rightarrow> nat \<times> item list" where
  "listar_cadastros_reurb flt s = (200, fst (list_items flt s (tables s CadastroReurb) q0))"

section \<open>The contract of the valuation\<close>

text \<open>
  What the valuation promises when its queries succeed (spec.md section 4.1): each term is
  the rate of the first matching reference row times the area, and 0 when an input is
  missing or nothing matches.
\<close>

definition land_value :: "db \<Rightarrow> row \<Rightarrow> real" where
  "land_value s cad =
     (let l = row_get cad ''imovel_logradouro''; a = row_get cad ''imovel_area_total''
      in if db_truthy l \<and> db_truthy a
         then (case find (\<lambda>p. row_get p ''logradouro'' = l) (tables s ValorLogradouro) of
                 None \<Rightarrow> 0 | Some p \<Rightarrow> db_num a * db_num (row_get p ''valor_m2''))
         else 0)"

definition construction_value :: "db \<Rightarrow> row \<Rightarrow> real" where
  "construction_value s cad =
     (let t = row_get cad ''imovel_tipo_construcao''; a = row_get cad ''imovel_area_construida''
      in if db_truthy t \<and> db_truthy a
         then (case find (\<lambda>p. row_get p ''descricao'' = t) (tables s PadraoConstrutivo) of
                 None \<Rightarrow> 0 | Some p \<Rightarrow> db_num a * db_num (row_get p ''valor_m2''))
         else 0)"

definition tax_value :: "db \<Rightarrow> row \<Rightarrow> real \<Rightarrow> real" where
  "tax_value s cad vi =
     (let u = row_get cad ''imovel_uso''
      in if db_truthy u \<and> vi > 0
         then (case find (\<lambda>p. ilike (uso_pattern (db_str u)) (db_str (row_get p ''tipo''))) (tables s AliquotaIPTU) of
                 None \<Rightarrow> 0 | Some p \<Rightarrow> vi * (db_num (row_get p ''aliquota'') / 100))
         else 0)"

definition valuation_spec :: "db \<Rightarrow> row \<Rightarrow> valores" where
  "valuation_spec s cad =
     (let t = land_value s cad; c = construction_value s cad
      in \<lparr>vvt = t, vvc = c, vvi = t + c, iptu = tax_value s cad (t + c)\<rparr>)"

text \<open>No query fails from this point of the request on.\<close>

definition fault_free :: "fault \<Rightarrow> qstate \<Rightarrow> bool" where
  "fault_free flt q \<longleftrightarrow> \<not> aborted q \<and> (\<forall>n\<ge>qcount q. \<not> flt n)"

section \<open>Example data for the witnesses\<close>

text \<open>
  Reference tables with one street (50 per square metre), one construction standard
  (800) and one tax rate (1 percent for \<open>Residencial\<close>), and two registrations on
  that street: Ana's with every input of the valuation, Bruno's with land only.
\<close>

definition ex_ana :: row where
  "ex_ana = [(''id'', DInt 1), (''req_nome'', DStr ''Ana''), (''imovel_logradouro'', DStr ''Rua A''),
     (''imovel_numero'', DStr ''10''), (''imovel_area_total'', DFloat 100), (''imovel_area_construida'', DFloat 50),
     (''imovel_uso'', DStr ''residencial''), (''imovel_tipo_construcao'', DStr ''Alvenaria''),
     (''reurb_renda_familiar'', DFloat 4000)]"

definition ex_bruno :: row where
  "ex_bruno = [(''id'', DInt 2), (''req_nome'', DStr ''Bruno''), (''imovel_logradouro'', DStr ''Rua A''),
     (''imovel_area_total'', DFloat 200)]"

definition ex_ref_db :: db where
  "ex_ref_db = \<lparr>tables = (\<lambda>m. case m of
       ValorLogradouro \<Rightarrow> [[(''id'', DInt 1), (''logradouro'', DStr ''Rua A''), (''valor_m2'', DFloat 50)]]
     | PadraoConstrutivo \<Rightarrow> [[(''id'', DInt 1), (''descricao'', DStr ''Alvenaria''), (''valor_m2'', DFloat 800)]]
     | AliquotaIPTU \<Rightarrow> [[(''id'', DInt 1), (''tipo'', DStr ''Residencial''), (''aliquota'', DFloat 1)]]
     | CadastroReurb \<Rightarrow> [ex_ana, ex_bruno]
     | _ \<Rightarrow> []),
     seqs = (\<lambda>_. 2)\<rparr>"

section \<open>Lemmas: queries under faults\<close>

lemma query_first_aborted:
  "aborted q \<Longrightarrow> query_first flt s m P q = (Inl TxnAborted, q\<lparr>qcount := Suc (qcount q)\<rparr>)"
  by (simp add: query_first_def)

lemma term_value_aborted:
  "aborted q \<Longrightarrow> \<exists>r q'. term_value flt s g m P f q = (r, q') \<and> (r = Inl TxnAborted \<or> r = Inr 0) \<and> aborted q'"
  by (simp add: term_value_def query_first_aborted)

lemma term_value_fault_free:
  "fault_free flt q \<Longrightarrow> \<exists>q'. term_value flt s g m P f q =
     (Inr (if g then (case find P (tables s m) of None \<Rightarrow> 0 | Some x \<Rightarrow> f x) else 0), q') \<and> fault_free flt q'"
  by (auto simp: term_value_def query_first_def fault_free_def split: option.split)

lemma land_term_aborted:
  "aborted q \<Longrightarrow> \<exists>r q'. land_term flt s cad q = (r, q') \<and> (r = Inl TxnAborted \<or> r = Inr 0) \<and> aborted q'"
  unfolding land_term_def Let_def by (rule term_value_aborted)

lemma construction_term_aborted:
  "aborted q \<Longrightarrow> \<exists>r q'. construction_term flt s cad q = (r, q') \<and> (r = Inl TxnAborted \<or> r = Inr 0) \<and> aborted q'"
  unfolding construction_term_def Let_def by (rule term_value_aborted)

lemma tax_term_aborted:
  "aborted q \<Longrightarrow> \<exists>r q'. tax_term flt s cad vi q = (r, q') \<and> (r = Inl TxnAborted \<or> r = Inr 0) \<and> aborted q'"
  unfolding tax_term_def Let_def by (rule term_value_aborted)

lemma valuation_aborted:
  assumes "aborted q"
  shows "fst (valuation flt s cad q) = zero_valores \<and> aborted (snd (valuation flt s cad q))"
proof -
  obtain r1 q1 where L: "land_term flt s cad q = (r1, q1)" "r1 = Inl TxnAborted \<or> r1 = Inr 0" "aborted q1"
    using land_term_aborted [OF assms] by blast
  obtain r2 q2 where C: "construction_term flt s cad q1 = (r2, q2)" "r2 = Inl TxnAborted \<or> r2 = Inr 0" "aborted q2"
    using construction_term_aborted [OF L(3)] by blast
  obtain r3 q3 where T: "tax_term flt s cad 0 q2 = (r3, q3)" "r3 = Inl TxnAborted \<or> r3 = Inr 0" "aborted q3"
    using tax_term_aborted [OF C(3)] by blast
  from L C T show ?thesis
    by (auto simp: valuation_def zero_valores_def)
qed

lemma land_term_fault_free:
  "fault_free flt q \<Longrightarrow> \<exists>q'. land_term flt s cad q = (Inr (land_value s cad), q') \<and> fault_free flt q'"
  unfolding land_term_def land_value_def Let_def by (rule term_value_fault_free)

lemma construction_term_fault_free:
  "fault_free flt q \<Longrightarrow> \<exists>q'. construction_term flt s cad q = (Inr (construction_value s cad), q') \<and> fault_free flt q'"
  unfolding construction_term_def construction_value_def Let_def by (rule term_value_fault_free)

lemma tax_term_fault_free:
  "fault_free flt q \<Longrightarrow> \<exists>q'. tax_term flt s cad vi q = (Inr (tax_value s cad vi), q') \<and> fault_free flt q'"
  unfolding tax_term_def tax_value_def Let_def by (rule term_value_fault_free)

lemma valuation_fault_free:
  assumes "fault_free flt q"
  shows "fst (valuation flt s cad q) = valuation_spec s cad \<and> fault_free flt (snd (valuation flt s cad q))"
proof -
  obtain q1 where L: "land_term flt s cad q = (Inr (land_value s cad), q1)" "fault_free flt q1"
    using land_term_fault_free [OF assms] by blast
  obtain q2 where C: "construction_term flt s cad q1 = (Inr (construction_value s cad), q2)" "fault_free flt q2"
    using construction_term_fault_free [OF L(2)] by blast
  obtain q3 where T: "tax_term flt s cad (land_value s cad + construction_value s cad) q2
      = (Inr (tax_value s cad (land_value s cad + construction_value s cad)), q3)" "fault_free flt q3"
    using tax_term_fault_free [OF C(2)] by blast
  from L C T show ?thesis
    by (simp add: valuation_def valuation_spec_def Let_def)
qed

text \<open>A lookup that answers gives the contract's value, whatever failed before it.\<close>

lemma term_value_Inr:
  "term_value flt s g m P f q = (Inr x, q') \<Longrightarrow> x = (if g then (case find P (tables s m) of None \<Rightarrow> 0 | Some p \<Rightarrow> f p) else 0)"
  by (auto simp: term_value_def query_first_def Let_def split: if_splits option.splits)

lemma land_term_Inr: "land_term flt s cad q = (Inr x, q') \<Longrightarrow> x = land_value s cad"
  unfolding land_term_def land_value_def Let_def by (rule term_value_Inr)

lemma construction_term_Inr: "construction_term flt s cad q = (Inr x, q') \<Longrightarrow> x = construction_value s cad"
  unfolding construction_term_def construction_value_def Let_def by (rule term_value_Inr)

lemma tax_term_Inr: "tax_term flt s cad vi q = (Inr x, q') \<Longrightarrow> x = tax_value s cad vi"
  unfolding tax_term_def tax_value_def Let_def by (rule term_value_Inr)

lemma list_items_ids:
  "map it_id (fst (list_items flt s cads q)) = map (\<lambda>r. row_get r ''id'') cads"
  by (induction cads arbitrary: q) (simp_all add: mk_item_def split_def Let_def)

lemma list_items_aborted:
  "aborted q \<Longrightarrow> \<forall>it\<in>set (fst (list_items flt s cads q)). it_valores it = zero_valores"
proof (induction cads arbitrary: q)
  case Nil
  then show ?case by simp
next
  case (Cons cad cads)
  from valuation_aborted [OF Cons.prems] obtain q1
    where "valuation flt s cad q = (zero_valores, q1)" "aborted q1"
    by (metis prod.collapse)
  with Cons.IH [of q1] show ?case by (auto simp: mk_item_def split: prod.split)
qed

lemma list_items_fault_free:
  "fault_free flt q \<Longrightarrow> map it_valores (fst (list_items flt s cads q)) = map (valuation_spec s) cads"
proof (induction cads arbitrary: q)
  case Nil
  then show ?case by simp
next
  case (Cons cad cads)
  from valuation_fault_free [OF Cons.prems] obtain q1
    where "valuation flt s cad q = (valuation_spec s cad, q1)" "fault_free flt q1"
    by (metis prod.collapse)
  with Cons.IH [of q1] show ?case by (auto simp: mk_item_def split: prod.split)
qed

lemma list_items_append:
  "list_items flt s (xs @ ys) q =
     (let (a, q1) = list_items flt s xs q; (b, q2) = list_items flt s ys q1 in (a @ b, q2))"
  by (induction xs arbitrary: q) (simp_all add: split_def Let_def)

lemma length_list_items: "length (fst (list_items flt s cads q)) = length cads"
  using list_items_ids [of flt s cads q] by (metis length_map)

lemma query_first_qcount: "qcount (snd (query_first flt s m P q)) = Suc (qcount q)"
  by (simp add: query_first_def Let_def)

lemma term_value_qcount: "qcount (snd (term_value flt s g m P f q)) \<le> Suc (qcount q)"
  using query_first_qcount [of flt s m P q]
  by (auto simp: term_value_def split: prod.split sum.split option.split)

lemma terms_qcount:
  "qcount (snd (land_term flt s cad q)) \<le> Suc (qcount q)"
  "qcount (snd (construction_term flt s cad q)) \<le> Suc (qcount q)"
  "qcount (snd (tax_term flt s cad v q)) \<le> Suc (qcount q)"
  by (simp_all add: land_term_def construction_term_def tax_term_def Let_def term_value_qcount)

text \<open>Each registration costs at most three queries: street, construction standard, tax rate.\<close>

lemma valuation_qcount: "qcount (snd (valuation flt s cad q)) \<le> qcount q + 3"
proof -
  obtain r1 q1 where l: "land_term flt s cad q = (r1, q1)" by fastforce
  obtain r2 q2 where c: "construction_term flt s cad q1 = (r2, q2)" by fastforce
  from l terms_qcount(1) [of flt s cad q] have b1: "qcount q1 \<le> Suc (qcount q)" by simp
  from c terms_qcount(2) [of flt s cad q1] have b2: "qcount q2 \<le> Suc (qcount q1)" by simp
  have b3: "qcount q3 \<le> Suc (qcount q2)" if "tax_term flt s cad v q2 = (r3, q3)" for v r3 q3
    using that terms_qcount(3) [of flt s cad v q2] by simp
  show ?thesis
    using l c b1 b2 by (cases r1; cases r2) (auto simp: valuation_def split: prod.split sum.split dest!: b3)
qed

lemmas valuation_eval = valuation_def land_term_def construction_term_def tax_term_def term_value_def
  query_first_def row_get_def zero_valores_def ilike_def uso_pattern_def escape_char_def lower_eval

lemmas contract_eval = valuation_spec_def land_value_def construction_value_def tax_value_def
  row_get_def ilike_def uso_pattern_def escape_char_def lower_eval

section \<open>Properties of the valuation\<close>

text \<open>
  C1. When none of its queries fails, the valuation of a registration is the contract:
  land value is the area times the rate of the first row for its street (0 without street,
  area or row), likewise the construction value, \<open>vvi\<close> their sum, and \<open>iptu\<close> \<open>vvi\<close>
  times the first matching tax rate over 100 when \<open>vvi > 0\<close> and a use is given.
\<close>

theorem valuation_refines_contract:
  "fault_free flt q \<Longrightarrow> fst (valuation flt s cad q) = valuation_spec s cad"
  using valuation_fault_free by blast

theorem valuation_refines_contract_witness:
  "fault_free (\<lambda>_. False) q0 \<and>
   fst (valuation (\<lambda>_. False) ex_ref_db ex_ana q0) = \<lparr>vvt = 5000, vvc = 40000, vvi = 45000, iptu = 450\<rparr>"
proof -
  have ff: "fault_free (\<lambda>_. False) q0" by (simp add: fault_free_def q0_def)
  have "valuation_spec ex_ref_db ex_ana = \<lparr>vvt = 5000, vvc = 40000, vvi = 45000, iptu = 450\<rparr>"
    by (simp add: contract_eval ex_ref_db_def ex_ana_def)
  with valuation_refines_contract [OF ff] ff show ?thesis by simp
qed

text \<open>
  C20. The listing never aborts: whatever queries fail, it returns one item per
  registration, in storage order, with the registration's id.
\<close>

theorem listing_one_item_per_row:
  "map it_id (snd (listar_cadastros_reurb flt s)) = map (\<lambda>r. row_get r ''id'') (tables s CadastroReurb)"
  by (simp add: listar_cadastros_reurb_def list_items_ids)

text \<open>
  C13. The listing issues at most three queries per registration (one per valuation term),
  whatever queries fail: valuing \<open>n\<close> registrations costs at most \<open>3 n\<close> round trips after
  the initial \<open>query.all()\<close>.
\<close>

theorem listing_query_bound: "qcount (snd (list_items flt s cads q)) \<le> qcount q + 3 * length cads"
proof (induction cads arbitrary: q)
  case Nil
  then show ?case by simp
next
  case (Cons cad cads)
  from Cons.IH [of "snd (valuation flt s cad q)"] valuation_qcount [of flt s cad q] show ?case
    by (simp add: split_def Let_def)
qed

text \<open>
  C9. After one failed query the listing values every later registration at zero: the
  exception is caught per record but the session is not rolled back, so the aborted
  transaction rejects every later lookup of the request.
\<close>

theorem listing_fault_poisons_rest:
  "tables s CadastroReurb = pre @ post \<Longrightarrow> aborted (snd (list_items flt s pre q0)) \<Longrightarrow>
   \<forall>it\<in>set (drop (length pre) (snd (listar_cadastros_reurb flt s))). it_valores it = zero_valores"
  by (simp add: listar_cadastros_reurb_def list_items_append split_def Let_def length_list_items
      list_items_aborted)

theorem listing_fault_poisons_rest_witness:
  "tables ex_ref_db CadastroReurb = [ex_ana] @ [ex_bruno] \<and>
   aborted (snd (list_items (\<lambda>n. n = 0) ex_ref_db [ex_ana] q0)) \<and>
   it_valores (snd (listar_cadastros_reurb (\<lambda>n. n = 0) ex_ref_db) ! 1) = zero_valores"
proof -
  have t: "tables ex_ref_db CadastroReurb = [ex_ana] @ [ex_bruno]" by (simp add: ex_ref_db_def)
  have a: "aborted (snd (list_items (\<lambda>n. n = 0) ex_ref_db [ex_ana] q0))"
    by (simp add: valuation_eval ex_ana_def q0_def split_def)
  have len: "length (snd (listar_cadastros_reurb (\<lambda>n. n = 0) ex_ref_db)) = 2"
    unfolding listar_cadastros_reurb_def snd_conv length_list_items t by simp
  let ?L = "snd (listar_cadastros_reurb (\<lambda>n. n = 0) ex_ref_db)"
  have "drop 1 ?L ! 0 = ?L ! 1" and "0 < length (drop 1 ?L)" using len by simp_all
  then have mem: "?L ! 1 \<in> set (drop (length [ex_ana]) ?L)" by (metis nth_mem length_Cons list.size(3) One_nat_def)
  from listing_fault_poisons_rest [OF t a] mem
  have "it_valores (?L ! 1) = zero_valores" by blast
  with t a len show ?thesis by simp
qed


text \<open>
  C18. The listing classifies a registration as REURB-S exactly when its stored income
  is a non-zero number of at most 4000: an income of 0 is REURB-E and a negative one
  REURB-S, where the spec asks for REURB-S whenever an income is present and at most 4000.
\<close>

theorem tipo_reurb_classification:
  assumes "conforms TFloat v"
  shows "tipo_reurb v = ''REURB-S'' \<longleftrightarrow> (\<exists>r. v = DFloat r \<and> r \<noteq> 0 \<and> r \<le> 4000)"
  using assms by (cases v) (auto simp: tipo_reurb_def)

theorem tipo_reurb_classification_witness:
  "conforms TFloat (DFloat 0) \<and> tipo_reurb (DFloat 0) \<noteq> ''REURB-S'' \<and>
   conforms TFloat (DFloat 4000) \<and> tipo_reurb (DFloat 4000) = ''REURB-S''"
proof -
  have c: "conforms TFloat (DFloat 0)" "conforms TFloat (DFloat 4000)" by simp_all
  from tipo_reurb_classification [OF c(1)] tipo_reurb_classification [OF c(2)] c show ?thesis by simp
qed

text \<open>
  C22. When the usage holds no LIKE metacharacter, the IPTU lookup matches exactly the
  rates whose label contains the usage as a substring, ignoring ASCII case (label
  contains usage, the direction the spec asks to keep).
\<close>

theorem ilike_uso_substring:
  assumes "list_all (\<lambda>c. \<not> like_meta c) u"
  shows "ilike (uso_pattern u) t \<longleftrightarrow> sublist (lower u) (lower t)"
proof -
  have "\<forall>c\<in>set (lower u). \<not> like_meta c"
    using assms by (auto simp: lower_def list_all_iff lower_char_not_meta)
  then show ?thesis by (simp add: ilike_def lower_uso_pattern like_uso_pattern)
qed

theorem ilike_uso_substring_witness:
  "list_all (\<lambda>c. \<not> like_meta c) ''Casa'' \<and>
   ilike (uso_pattern ''Casa'') ''Residencial CASA'' = sublist (lower ''Casa'') (lower ''Residencial CASA'')"
proof -
  have h: "list_all (\<lambda>c. \<not> like_meta c) ''Casa''" by (simp add: like_meta_def escape_char_def)
  from ilike_uso_substring [OF h] h show ?thesis by simp
qed

text \<open>
  C23. The usage is put into the LIKE pattern unescaped: a usage of \<open>_\<close> matches every
  non-empty label, so such a registration is taxed at the first rate stored.
\<close>

theorem ilike_uso_wildcard: "ilike (uso_pattern ''_'') t \<longleftrightarrow> t \<noteq> []"
proof -
  have l: "lower_char (CHR ''_'') = CHR ''_''" by (simp add: lower_eval)
  have tail: "like [CHR ''_'', CHR ''%''] b \<longleftrightarrow> b \<noteq> []" for b
    by (cases b) (simp_all add: like.simps(2) [of "CHR ''_''"] like_percent_any del: like.simps)
  have "like (uso_pattern ''_'') s \<longleftrightarrow> s \<noteq> []" for s
    using like_percent [of "[CHR ''_'', CHR ''%'']" s] tail by (auto simp: uso_pattern_def)
  then have "ilike (uso_pattern ''_'') t \<longleftrightarrow> lower t \<noteq> []" by (simp add: ilike_def lower_uso_pattern l)
  then show ?thesis by (simp add: lower_def)
qed



text \<open>
  C21. Whatever lookups fail, the valuation of a registration is a prefix of the
  contract's: nothing, the land value alone, the three values without the tax, or the
  whole contract; a value once computed is never replaced by another, and \<open>vvi\<close> is
  only ever set together with \<open>vvc\<close>.
\<close>

theorem valuation_prefix_of_contract:
  "fst (valuation flt s cad q) \<in>
     {zero_valores, zero_valores\<lparr>vvt := vvt (valuation_spec s cad)\<rparr>,
      (valuation_spec s cad)\<lparr>iptu := 0\<rparr>, valuation_spec s cad}"
proof -
  have V: "valuation_spec s cad = \<lparr>vvt = land_value s cad, vvc = construction_value s cad,
      vvi = land_value s cad + construction_value s cad,
      iptu = tax_value s cad (land_value s cad + construction_value s cad)\<rparr>"
    by (simp add: valuation_spec_def Let_def)
  obtain r1 q1 where L: "land_term flt s cad q = (r1, q1)" by fastforce
  obtain r2 q2 where C: "construction_term flt s cad q1 = (r2, q2)" by fastforce
  show ?thesis
  proof (cases r1)
    case (Inl e1)
    with L show ?thesis by (simp add: valuation_def)
  next
    case (Inr t)
    with L have t: "t = land_value s cad" by (simp add: land_term_Inr)
    show ?thesis
    proof (cases r2)
      case (Inl e2)
      with L C Inr t V show ?thesis by (simp add: valuation_def)
    next
      case (Inr c)
      with C have c: "c = construction_value s cad" by (simp add: construction_term_Inr)
      obtain r3 q3 where T: "tax_term flt s cad (t + c) q2 = (r3, q3)" by fastforce
      show ?thesis
      proof (cases r3)
        case (Inl e3)
        with L C T \<open>r1 = Inr t\<close> Inr t c V show ?thesis by (simp add: valuation_def)
      next
        case (Inr i)
        with T have "i = tax_value s cad (t + c)" by (simp add: tax_term_Inr)
        with L C T \<open>r1 = Inr t\<close> \<open>r2 = Inr c\<close> Inr t c V show ?thesis by (simp add: valuation_def)
      qed
    qed
  qed
qed

end
