(* ===== verification/Registry.thy ===== *)
theory Registry
  imports Storage
begin

text \<open>
  The handlers of REURB registrations and their construction sub-records
  (src/app.py lines 211 to 349). Each takes the request's JSON body and the database
  state and returns the HTTP status with a success or failure value, and the new state.
  Every write goes through \<open>commit\<close>, so a failing statement leaves the tables as they
  were; a handler without \<open>try\<close> answers 500 through Flask, and the request teardown
  discards its session with the same effect.
\<close>

datatype failure =
    NotFound
  | DbFailure dberr
  | PyError string
  | BadRequest string

type_synonym 'a reply = "nat \<times> (failure + 'a)"

section \<open>Numeric coercion\<close>

text \<open>
  Lines 218 to 224 and 290 to 296: an empty string or \<open>None\<close> becomes \<open>None\<close>; anything
  else goes through \<open>float()\<close>, and what \<open>float()\<close> rejects becomes \<open>None\<close> as well.
\<close>

definition coerce_numeric :: "jval \<Rightarrow> jval" where
  "coerce_numeric v =
     (if v = JStr [] \<or> v = JNull then JNull
      else (case py_float v of Some r \<Rightarrow> JNum r | None \<Rightarrow> JNull))"

text \<open>\<open>{key: value for key, value in dados.items() if key in modelo_columns}\<close>.\<close>

definition filter_columns :: "model \<Rightarrow> pydict \<Rightarrow> pydict" where
  "filter_columns m d = filter (\<lambda>(k, v). k \<in> set (column_names m)) d"

text \<open>\<open>for campo in [...]: dados_filtrados[campo] = ...\<close>: each field is written, present or not.\<close>

fun coerce_fields :: "string list \<Rightarrow> pydict \<Rightarrow> pydict" where
  "coerce_fields [] d = d"
| "coerce_fields (f # fs) d = coerce_fields fs (dict_set f (coerce_numeric (dict_get d f)) d)"

section \<open>Registrations\<close>

text \<open>\<open>POST /api/novo_cadastro_reurb\<close> (lines 211 to 232).\<close>

definition novo_cadastro_reurb :: "engine \<Rightarrow> jval \<Rightarrow> db \<Rightarrow> unit reply \<times> db" where
  "novo_cadastro_reurb eng body s =
     (case body of
        JObj dados \<Rightarrow>
          (let d = coerce_fields numeric_fields (filter_columns CadastroReurb dados)
           in case commit eng [OpInsert CadastroReurb d] s of
                (s', None) \<Rightarrow> ((201, Inr ()), s')
              | (s', Some e) \<Rightarrow> ((500, Inl (DbFailure e)), s'))
      | _ \<Rightarrow> ((500, Inl (PyError ''AttributeError'')), s))"

text \<open>\<open>GET /api/novo_cadastro_reurb/<id>\<close> (lines 270 to 279): every column of the row.\<close>

definition obter_cadastro_reurb :: "db \<Rightarrow> int \<Rightarrow> row reply" where
  "obter_cadastro_reurb s i =
     (case get_row s CadastroReurb i of
        None \<Rightarrow> (404, Inl NotFound)
      | Some r \<Rightarrow> (200, Inr (map (\<lambda>c. (c, row_get r c)) (column_names CadastroReurb))))"

text \<open>
  \<open>PUT /api/novo_cadastro_reurb/<id>\<close> (lines 281 to 303): the three numeric fields are
  coerced, every key is assigned with \<open>setattr\<close> when \<open>hasattr\<close> holds, and the columns
  among them are written by one UPDATE at commit. Besides the columns, \<open>hasattr\<close> holds
  for the relationship \<open>construcoes\<close> (the backref of line 103) and for the class
  attributes \<open>ca\<close>. \<open>update_attrs\<close> runs the loop over the keys that are not columns:
  \<open>construcoes = []\<close> empties the collection, whose children the \<open>delete-orphan\<close>
  cascade deletes at commit (the result \<open>True\<close>); any other value of \<open>construcoes\<close>, or
  a class attribute whose assignment raises, ends the loop with the exception.
\<close>

definition update_values :: "pydict \<Rightarrow> obj" where
  "update_values dados = map (\<lambda>(k, v). (k, if k \<in> set numeric_fields then coerce_numeric v else v)) dados"

fun update_attrs :: "class_attrs \<Rightarrow> pydict \<Rightarrow> failure + bool" where
  "update_attrs ca [] = Inr False"
| "update_attrs ca ((k, v) # kvs) =
     (if k \<in> set (column_names CadastroReurb) then update_attrs ca kvs
      else if k = ''construcoes'' then
        (case v of
           JArr [] \<Rightarrow> (case update_attrs ca kvs of Inl e \<Rightarrow> Inl e | Inr _ \<Rightarrow> Inr True)
         | JArr _ \<Rightarrow> Inl (PyError ''AttributeError'')
         | _ \<Rightarrow> Inl (PyError ''TypeError''))
      else (case ca CadastroReurb k v of
              AttrRaises e \<Rightarrow> Inl (PyError e)
            | _ \<Rightarrow> update_attrs ca kvs))"

definition atualizar_cadastro_reurb :: "engine \<Rightarrow> class_attrs \<Rightarrow> int \<Rightarrow> jval \<Rightarrow> db \<Rightarrow> unit reply \<times> db" where
  "atualizar_cadastro_reurb eng ca i body s =
     (case get_row s CadastroReurb i of
        None \<Rightarrow> ((404, Inl NotFound), s)
      | Some _ \<Rightarrow>
          (case body of
             JObj dados \<Rightarrow>
               (case update_attrs ca dados of
                  Inl e \<Rightarrow> ((500, Inl e), s)
                | Inr clear \<Rightarrow>
                    (case commit eng ((if clear then [OpDeleteWhere Construcao ''cadastro_id'' (DInt i)] else [])
                                      @ [OpUpdate CadastroReurb i (update_values dados)]) s of
                       (s', None) \<Rightarrow> ((200, Inr ()), s')
                     | (s', Some e) \<Rightarrow> ((500, Inl (DbFailure e)), s')))
           | _ \<Rightarrow> ((500, Inl (PyError ''AttributeError'')), s)))"

text \<open>
  \<open>DELETE /api/novo_cadastro_reurb/<id>\<close> (lines 305 to 317): the registration's
  constructions by one bulk DELETE, then the registration, in one transaction.
\<close>

definition excluir_cadastro_reurb :: "engine \<Rightarrow> int \<Rightarrow> db \<Rightarrow> unit reply \<times> db" where
  "excluir_cadastro_reurb eng i s =
     (case get_row s CadastroReurb i of
        None \<Rightarrow> ((404, Inl NotFound), s)
      | Some _ \<Rightarrow>
          (case commit eng [OpDeleteWhere Construcao ''cadastro_id'' (DInt i), OpDelete CadastroReurb i] s of
             (s', None) \<Rightarrow> ((200, Inr ()), s')
           | (s', Some e) \<Rightarrow> ((500, Inl (DbFailure e)), s')))"

section \<open>Construction sub-records\<close>

text \<open>
  \<open>POST /api/construcoes/<cadastro_id>\<close> (lines 319 to 329): the five fields are taken
  with \<open>dados.get\<close>, uncoerced; there is no \<open>try\<close>, so a failing commit is a 500.
\<close>

definition construcao_values :: "int \<Rightarrow> pydict \<Rightarrow> obj" where
  "construcao_values cid dados =
     [(''cadastro_id'', JNum (of_int cid)), (''area_total'', dict_get dados ''area_total''),
      (''area_construida'', dict_get dados ''area_construida''), (''uso'', dict_get dados ''uso''),
      (''padrao'', dict_get dados ''padrao''), (''tipo'', dict_get dados ''tipo'')]"

definition adicionar_construcao :: "engine \<Rightarrow> int \<Rightarrow> jval \<Rightarrow> db \<Rightarrow> unit reply \<times> db" where
  "adicionar_construcao eng cid body s =
     (case body of
        JObj dados \<Rightarrow>
          (case commit eng [OpInsert Construcao (construcao_values cid dados)] s of
             (s', None) \<Rightarrow> ((201, Inr ()), s')
           | (s', Some e) \<Rightarrow> ((500, Inl (DbFailure e)), s'))
      | _ \<Rightarrow> ((500, Inl (PyError ''AttributeError'')), s))"

text \<open>\<open>GET /api/construcoes/<cadastro_id>\<close> (lines 331 to 337).\<close>

definition listar_construcoes :: "db \<Rightarrow> int \<Rightarrow> nat \<times> row list" where
  "listar_construcoes s cid =
     (200, map (\<lambda>r. map (\<lambda>c. (c, row_get r c)) [''id'', ''area_total'', ''area_construida'', ''uso'', ''padrao'', ''tipo''])
             (filter (\<lambda>r. row_get r ''cadastro_id'' = DInt cid) (tables s Construcao)))"

text \<open>\<open>DELETE /api/construcoes/<id>\<close> (lines 339 to 349).\<close>

definition excluir_construcao :: "engine \<Rightarrow> int \<Rightarrow> db \<Rightarrow> unit reply \<times> db" where
  "excluir_construcao eng i s =
     (case get_row s Construcao i of
        None \<Rightarrow> ((404, Inl NotFound), s)
      | Some _ \<Rightarrow>
          (case commit eng [OpDelete Construcao i] s of
             (s', None) \<Rightarrow> ((200, Inr ()), s')
           | (s', Some e) \<Rightarrow> ((500, Inl (DbFailure e)), s')))"

section \<open>Example requests for the witnesses\<close>

definition ex_ana_fields :: pydict where
  "ex_ana_fields = [(''req_nome'', JStr ''Ana''), (''imovel_logradouro'', JStr ''Rua A''),
     (''imovel_area_total'', JStr ''100''), (''reurb_renda_familiar'', JStr []), (''origem'', JStr ''web'')]"

section \<open>Lemmas\<close>

text \<open>An engine that stores a number bound to a \<open>Float\<close> column as that number.\<close>

definition float_engine :: "engine \<Rightarrow> bool" where
  "float_engine eng \<longleftrightarrow> (\<forall>x. eng TFloat (JNum x) = Some (DFloat x))"

text \<open>
  An engine that stores an integral number bound to an \<open>Integer\<close> column as that
  integer when it is within the range of \<open>integer\<close>, and refuses it otherwise.
\<close>

definition int_engine :: "engine \<Rightarrow> bool" where
  "int_engine eng \<longleftrightarrow>
     (\<forall>i. eng TInteger (JNum (of_int i)) = (if int32_min \<le> i \<and> i \<le> int32_max then Some (DInt i) else None))"

lemma coerce_numeric_idem [simp]: "coerce_numeric (coerce_numeric v) = coerce_numeric v"
  by (simp add: coerce_numeric_def split: option.split)

lemma coerce_numeric_cases: "coerce_numeric v = JNull \<or> (\<exists>x. coerce_numeric v = JNum x)"
  by (simp add: coerce_numeric_def split: option.split)

lemma map_of_coerce_fields:
  "map_of (coerce_fields fs d) k = (if k \<in> set fs then Some (coerce_numeric (dict_get d k)) else map_of d k)"
  by (induction fs arbitrary: d) auto

lemma map_of_filter_keys:
  "map_of (filter (\<lambda>(k', v). P k') d) k = (if P k then map_of d k else None)"
  by (induction d) auto

lemma dict_get_filter_columns:
  "k \<in> set (column_names m) \<Longrightarrow> dict_get (filter_columns m d) k = dict_get d k"
  by (simp add: filter_columns_def dict_get_def map_of_filter_keys)

lemma novo_success:
  "novo_cadastro_reurb eng (JObj dados) s = ((201, Inr ()), s') \<Longrightarrow>
   commit eng [OpInsert CadastroReurb (coerce_fields numeric_fields (filter_columns CadastroReurb dados))] s = (s', None)"
  by (auto simp: novo_cadastro_reurb_def split: prod.splits option.splits)

lemma numeric_column_in_tl:
  "f \<in> set numeric_fields \<Longrightarrow> opt_column f TFloat \<in> set (tl (columns CadastroReurb)) \<and> f \<noteq> ''id''"
  by (auto simp: numeric_fields_def cadastro_columns_def)

lemma distinct_tl_column_names: "distinct (map col_name (tl (columns m)))"
  using distinct_column_names [of m] by (simp add: column_names_def map_tl distinct_tl)

lemma bind_coerced_numeric:
  "engine_ok eng \<Longrightarrow> float_engine eng \<Longrightarrow>
   bind_value eng (opt_column f TFloat) (coerce_numeric v) =
     Inr (case coerce_numeric v of JNum x \<Rightarrow> DFloat x | _ \<Rightarrow> DNull)"
  using coerce_numeric_cases [of v]
  by (auto simp: bind_value_def engine_ok_def float_engine_def)

lemma atualizar_success:
  assumes "atualizar_cadastro_reurb eng ca i (JObj dados) s = ((200, Inr ()), s')"
  shows "\<exists>r r'. get_row s CadastroReurb i = Some r \<and>
           bind_updates eng CadastroReurb (update_values dados) r = Inr r' \<and>
           tables s' CadastroReurb = map (\<lambda>x. if row_get x ''id'' = DInt i then r' else x) (tables s CadastroReurb)"
proof -
  let ?pre = "if update_attrs ca dados = Inr True then [OpDeleteWhere Construcao ''cadastro_id'' (DInt i)] else []"
  from assms have "commit eng (?pre @ [OpUpdate CadastroReurb i (update_values dados)]) s = (s', None)"
    by (auto simp: atualizar_cadastro_reurb_def split: option.splits prod.splits sum.splits if_splits)
  from commit_None_flush [OF this] obtain s1 where
    f1: "flush eng ?pre s = (s1, None)" and f2: "update_obj eng CadastroReurb i (update_values dados) s1 = (s', None)"
    by (auto simp: flush_append split: prod.splits option.splits)
  have "tables s1 CadastroReurb = tables s CadastroReurb"
    by (rule flush_deletes_other [OF _ f1]) auto
  then have "get_row s1 CadastroReurb i = get_row s CadastroReurb i" by (simp add: get_row_def)
  with update_obj_None [OF f2] \<open>tables s1 CadastroReurb = tables s CadastroReurb\<close> show ?thesis by auto
qed

lemma construcoes_not_column [simp]: "''construcoes'' \<notin> set (column_names CadastroReurb)"
  by (simp add: column_names_def cadastro_columns_def)

text \<open>\<open>construcoes = []\<close> in a body the loop accepts makes the commit delete the children.\<close>

lemma update_attrs_clear: "(''construcoes'', JArr []) \<in> set dados \<Longrightarrow> update_attrs ca dados = Inr b \<Longrightarrow> b"
  by (induction dados arbitrary: b) (auto split: if_splits attr_effect.splits jval.splits list.splits sum.splits)

lemma update_attrs_reject: "update_attrs ca dados = Inr b \<Longrightarrow> (''construcoes'', v) \<in> set dados \<Longrightarrow> v = JArr []"
  by (induction dados arbitrary: b) (auto split: if_splits attr_effect.splits jval.splits list.splits sum.splits)

lemma keys_update_values [simp]: "map fst (update_values dados) = map fst dados"
  by (induction dados) (auto simp: update_values_def)

lemma update_values_mem:
  "(k, v) \<in> set dados \<Longrightarrow> (k, if k \<in> set numeric_fields then coerce_numeric v else v) \<in> set (update_values dados)"
  by (force simp: update_values_def)

lemma commit_wf': "commit eng ops s = (s', r) \<Longrightarrow> engine_ok eng \<Longrightarrow> db_wf s \<Longrightarrow> db_wf s'"
  using commit_wf [of eng s ops] by simp

text \<open>The case splits a handler's definition unfolds to, for the invariant proofs.\<close>

lemmas handler_splits = jval.split prod.split option.split sum.split

lemma novo_wf [handler_wf]: "engine_ok eng \<Longrightarrow> db_wf s \<Longrightarrow> db_wf (snd (novo_cadastro_reurb eng body s))"
  by (auto simp: novo_cadastro_reurb_def Let_def split: handler_splits dest!: commit_wf')

lemma atualizar_wf [handler_wf]: "engine_ok eng \<Longrightarrow> db_wf s \<Longrightarrow> db_wf (snd (atualizar_cadastro_reurb eng ca i body s))"
  by (auto simp: atualizar_cadastro_reurb_def split: handler_splits dest!: commit_wf')

lemma excluir_wf [handler_wf]: "engine_ok eng \<Longrightarrow> db_wf s \<Longrightarrow> db_wf (snd (excluir_cadastro_reurb eng i s))"
  by (auto simp: excluir_cadastro_reurb_def split: handler_splits dest!: commit_wf')

lemma adicionar_wf [handler_wf]: "engine_ok eng \<Longrightarrow> db_wf s \<Longrightarrow> db_wf (snd (adicionar_construcao eng cid body s))"
  by (auto simp: adicionar_construcao_def split: handler_splits dest!: commit_wf')

lemma excluir_construcao_wf [handler_wf]: "engine_ok eng \<Longrightarrow> db_wf s \<Longrightarrow> db_wf (snd (excluir_construcao eng i s))"
  by (auto simp: excluir_construcao_def split: handler_splits dest!: commit_wf')

lemma delete_constructions_ok:
  "db_wf s \<Longrightarrow> delete_where Construcao ''cadastro_id'' v s =
     (s\<lparr>tables := (tables s)(Construcao := filter (\<lambda>r. row_get r ''cadastro_id'' \<noteq> v) (tables s Construcao))\<rparr>, None)"
  by (rule delete_where_unreferenced) simp_all

lemma delete_registration_ok:
  assumes "db_wf s" and "\<forall>r\<in>set (tables s Construcao). row_get r ''cadastro_id'' \<noteq> DInt i"
  shows "delete_where CadastroReurb ''id'' (DInt i) s =
           (s\<lparr>tables := (tables s)(CadastroReurb := filter (\<lambda>r. row_get r ''id'' \<noteq> DInt i) (tables s CadastroReurb))\<rparr>, None)"
proof -
  from assms(1) have u: "unique_ok CadastroReurb (tables s CadastroReurb)" and fk: "fk_ok s" by (auto simp: db_wf_iff)
  from u have "unique_ok CadastroReurb (filter (\<lambda>r. row_get r ''id'' \<noteq> DInt i) (tables s CadastroReurb))"
    by (rule unique_ok_filter)
  moreover have "fk_ok (s\<lparr>tables := (tables s)(CadastroReurb := filter (\<lambda>r. row_get r ''id'' \<noteq> DInt i) (tables s CadastroReurb))\<rparr>)"
    unfolding fk_ok_iff
  proof
    fix r assume r: "r \<in> set (tables (s\<lparr>tables := (tables s)(CadastroReurb := filter (\<lambda>r. row_get r ''id'' \<noteq> DInt i) (tables s CadastroReurb))\<rparr>) Construcao)"
    then have rs: "r \<in> set (tables s Construcao)" by simp
    with fk have "row_get r ''cadastro_id'' = DNull \<or> (\<exists>pr\<in>set (tables s CadastroReurb). row_get pr ''id'' = row_get r ''cadastro_id'')"
      by (simp add: fk_ok_iff)
    with assms(2) rs show "row_get r ''cadastro_id'' = DNull \<or>
      (\<exists>pr\<in>set (tables (s\<lparr>tables := (tables s)(CadastroReurb := filter (\<lambda>r. row_get r ''id'' \<noteq> DInt i) (tables s CadastroReurb))\<rparr>) CadastroReurb).
         row_get pr ''id'' = row_get r ''cadastro_id'')"
      by fastforce
  qed
  ultimately show ?thesis by (simp add: delete_where_def finish_op_def constraint_error_def)
qed

lemma excluir_cascade_state:
  assumes wf: "db_wf s" and ex: "get_row s CadastroReurb i \<noteq> None"
  shows "excluir_cadastro_reurb eng i s =
           ((200, Inr ()), s\<lparr>tables := (tables s)(
              Construcao := filter (\<lambda>r. row_get r ''cadastro_id'' \<noteq> DInt i) (tables s Construcao),
              CadastroReurb := filter (\<lambda>r. row_get r ''id'' \<noteq> DInt i) (tables s CadastroReurb))\<rparr>)"
proof -
  let ?s1 = "s\<lparr>tables := (tables s)(Construcao := filter (\<lambda>r. row_get r ''cadastro_id'' \<noteq> DInt i) (tables s Construcao))\<rparr>"
  have d1: "delete_where Construcao ''cadastro_id'' (DInt i) s = (?s1, None)"
    by (rule delete_constructions_ok [OF wf])
  from delete_where_wf [OF wf, of Construcao "''cadastro_id''" "DInt i"] d1 have wf1: "db_wf ?s1" by simp
  have "\<forall>r\<in>set (tables ?s1 Construcao). row_get r ''cadastro_id'' \<noteq> DInt i" by simp
  from delete_registration_ok [OF wf1 this]
  have d2: "delete_where CadastroReurb ''id'' (DInt i) ?s1 =
      (?s1\<lparr>tables := (tables ?s1)(CadastroReurb := filter (\<lambda>r. row_get r ''id'' \<noteq> DInt i) (tables ?s1 CadastroReurb))\<rparr>, None)" .
  from ex d1 d2 show ?thesis
    by (auto simp: excluir_cadastro_reurb_def commit_def fun_upd_twist)
qed


section \<open>Properties of the registration handlers\<close>

text \<open>
  C4. A successful create appends one row, and each of the three numeric fields holds
  \<open>float()\<close> of the value sent, or NULL when the value is missing, empty or not a
  number: never the string that was sent.
\<close>

theorem novo_stores_coerced_numeric:
  assumes "engine_ok eng" and "float_engine eng"
    and "novo_cadastro_reurb eng (JObj dados) s = ((201, Inr ()), s')"
    and "f \<in> set numeric_fields"
  shows "\<exists>r. tables s' CadastroReurb = tables s CadastroReurb @ [r] \<and>
           row_get r f = (case coerce_numeric (dict_get dados f) of JNum x \<Rightarrow> DFloat x | _ \<Rightarrow> DNull)"
proof -
  let ?d = "coerce_fields numeric_fields (filter_columns CadastroReurb dados)"
  from commit_insert [OF novo_success [OF assms(3)]] obtain idv rest
    where t: "tables s' = (tables s)(CadastroReurb := tables s CadastroReurb @ [(''id'', idv) # rest])"
      and b: "bind_all eng ?d (tl (columns CadastroReurb)) = Inr rest"
    by blast
  from numeric_column_in_tl [OF assms(4)]
  have c: "opt_column f TFloat \<in> set (tl (columns CadastroReurb))" and nid: "f \<noteq> ''id''" by simp_all
  from bind_all_value [OF b c distinct_tl_column_names]
  have "bind_value eng (opt_column f TFloat) (obj_value ?d (opt_column f TFloat)) = Inr (row_get rest f)"
    by simp
  moreover have "obj_value ?d (opt_column f TFloat) = coerce_numeric (dict_get dados f)"
    using assms(4) numeric_fields_columns
    by (auto simp: obj_value_def map_of_coerce_fields dict_get_filter_columns)
  ultimately have "row_get rest f = (case coerce_numeric (dict_get dados f) of JNum x \<Rightarrow> DFloat x | _ \<Rightarrow> DNull)"
    using bind_coerced_numeric [OF assms(1,2)] by simp
  with t nid show ?thesis by (auto simp: row_get_def)
qed

theorem novo_stores_coerced_numeric_witness:
  "engine_ok pg_engine \<and> float_engine pg_engine \<and> ''reurb_renda_familiar'' \<in> set numeric_fields \<and>
   novo_cadastro_reurb pg_engine (JObj ex_ana_fields) empty_db = ((201, Inr ()), snd (novo_cadastro_reurb pg_engine (JObj ex_ana_fields) empty_db)) \<and>
   row_get (last (tables (snd (novo_cadastro_reurb pg_engine (JObj ex_ana_fields) empty_db)) CadastroReurb)) ''reurb_renda_familiar'' = DNull"
proof -
  let ?s' = "snd (novo_cadastro_reurb pg_engine (JObj ex_ana_fields) empty_db)"
  have ok: "fst (novo_cadastro_reurb pg_engine (JObj ex_ana_fields) empty_db) = (201, Inr ())" by code_simp
  then have run: "novo_cadastro_reurb pg_engine (JObj ex_ana_fields) empty_db = ((201, Inr ()), ?s')"
    by (metis prod.collapse)
  have fe: "float_engine pg_engine" by (simp add: float_engine_def)
  have f: "''reurb_renda_familiar'' \<in> set numeric_fields" by (simp add: numeric_fields_def)
  from novo_stores_coerced_numeric [OF pg_engine_ok fe run f]
  obtain r where "tables ?s' CadastroReurb = tables empty_db CadastroReurb @ [r]"
    and "row_get r ''reurb_renda_familiar'' = DNull"
    by (auto simp: coerce_numeric_def dict_get_def ex_ana_fields_def)
  with pg_engine_ok fe f run show ?thesis by (simp add: empty_db_def)
qed

text \<open>
  C5. An update writes the keys it is sent and nothing else: on success the row keeps its
  id and every column the request does not name, and a numeric field sent as the empty
  string is stored as NULL.
\<close>

theorem atualizar_partial_update:
  assumes eng: "engine_ok eng"
    and run: "atualizar_cadastro_reurb eng ca i (JObj dados) s = ((200, Inr ()), s')"
    and dist: "distinct (map fst dados)" and nid: "''id'' \<notin> set (map fst dados)"
  shows "\<exists>r r'. get_row s CadastroReurb i = Some r \<and> get_row s' CadastroReurb i = Some r' \<and>
           (\<forall>k. k \<notin> set (map fst dados) \<longrightarrow> row_get r' k = row_get r k) \<and>
           (\<forall>f\<in>set numeric_fields. dict_get dados f = JStr [] \<longrightarrow> row_get r' f = DNull)"
proof -
  from atualizar_success [OF run] obtain r r' where g: "get_row s CadastroReurb i = Some r"
    and b: "bind_updates eng CadastroReurb (update_values dados) r = Inr r'"
    and t: "tables s' CadastroReurb = map (\<lambda>x. if row_get x ''id'' = DInt i then r' else x) (tables s CadastroReurb)"
    by blast
  have frame: "\<forall>k. k \<notin> set (map fst dados) \<longrightarrow> row_get r' k = row_get r k"
    using bind_updates_frame [OF b] by (simp add: row_get_def)
  with nid get_row_in [OF g] have "row_get r' ''id'' = DInt i" by simp
  with g t have g': "get_row s' CadastroReurb i = Some r'"
    by (simp add: get_row_def find_replace)
  have "\<forall>f\<in>set numeric_fields. dict_get dados f = JStr [] \<longrightarrow> row_get r' f = DNull"
  proof (intro ballI impI)
    fix f assume f: "f \<in> set numeric_fields" and e: "dict_get dados f = JStr []"
    from e have "(f, JStr []) \<in> set dados"
      by (auto simp: dict_get_def split: option.splits dest: map_of_SomeD)
    with f have "(col_name (opt_column f TFloat), JNull) \<in> set (update_values dados)"
      using update_values_mem [of f "JStr []" dados] by (simp add: coerce_numeric_def)
    moreover have "opt_column f TFloat \<in> set (columns CadastroReurb)"
      using numeric_column_in_tl [OF f] id_first_column [of CadastroReurb] by (metis list.set_intros(2))
    moreover have "distinct (map fst (update_values dados))" using dist by simp
    ultimately have "bind_value eng (opt_column f TFloat) JNull = Inr (row_get r' f)"
      using bind_updates_value [OF b] by simp
    with eng show "row_get r' f = DNull" by (simp add: bind_value_def engine_ok_def)
  qed
  with g g' frame show ?thesis by blast
qed

theorem atualizar_partial_update_witness:
  "engine_ok pg_engine \<and>
   atualizar_cadastro_reurb pg_engine ex_attrs 1 (JObj [(''imovel_area_total'', JStr [])]) (snd (novo_cadastro_reurb pg_engine (JObj ex_ana_fields) empty_db))
     = ((200, Inr ()), snd (atualizar_cadastro_reurb pg_engine ex_attrs 1 (JObj [(''imovel_area_total'', JStr [])]) (snd (novo_cadastro_reurb pg_engine (JObj ex_ana_fields) empty_db)))) \<and>
   distinct (map fst [(''imovel_area_total'', JStr [])]) \<and> ''id'' \<notin> set (map fst [(''imovel_area_total'', JStr [])]) \<and>
   (\<exists>r r'. get_row (snd (novo_cadastro_reurb pg_engine (JObj ex_ana_fields) empty_db)) CadastroReurb 1 = Some r \<and>
      get_row (snd (atualizar_cadastro_reurb pg_engine ex_attrs 1 (JObj [(''imovel_area_total'', JStr [])]) (snd (novo_cadastro_reurb pg_engine (JObj ex_ana_fields) empty_db)))) CadastroReurb 1 = Some r' \<and>
      row_get r' ''req_nome'' = row_get r ''req_nome'' \<and> row_get r' ''imovel_area_total'' = DNull)"
proof -
  let ?s1 = "snd (novo_cadastro_reurb pg_engine (JObj ex_ana_fields) empty_db)"
  let ?d = "[(''imovel_area_total'', JStr [])]"
  let ?s2 = "snd (atualizar_cadastro_reurb pg_engine ex_attrs 1 (JObj ?d) ?s1)"
  have "fst (atualizar_cadastro_reurb pg_engine ex_attrs 1 (JObj ?d) ?s1) = (200, Inr ())" by code_simp
  then have run: "atualizar_cadastro_reurb pg_engine ex_attrs 1 (JObj ?d) ?s1 = ((200, Inr ()), ?s2)"
    by (metis prod.collapse)
  from atualizar_partial_update [OF pg_engine_ok run] obtain r r'
    where "get_row ?s1 CadastroReurb 1 = Some r" "get_row ?s2 CadastroReurb 1 = Some r'"
      "\<forall>k. k \<notin> set (map fst ?d) \<longrightarrow> row_get r' k = row_get r k"
      "\<forall>f\<in>set numeric_fields. dict_get ?d f = JStr [] \<longrightarrow> row_get r' f = DNull"
    by auto
  moreover have "''imovel_area_total'' \<in> set numeric_fields" by (simp add: numeric_fields_def)
  ultimately show ?thesis using pg_engine_ok run by (auto simp: dict_get_def)
qed

text \<open>
  C12. Assigning the relationship empties it: a successful update whose body holds
  \<open>construcoes: []\<close> deletes every construction of that registration (the
  \<open>delete-orphan\<close> cascade) and keeps every other construction, although the handler
  is documented as an update of the registration's fields.
\<close>

theorem atualizar_clears_construcoes:
  assumes run: "atualizar_cadastro_reurb eng ca i (JObj dados) s = ((200, Inr ()), s')"
    and c: "(''construcoes'', JArr []) \<in> set dados"
  shows "tables s' Construcao = filter (\<lambda>r. row_get r ''cadastro_id'' \<noteq> DInt i) (tables s Construcao)"
proof -
  from run obtain b where ua: "update_attrs ca dados = Inr b"
    by (auto simp: atualizar_cadastro_reurb_def split: option.splits sum.splits)
  with c have b by (rule update_attrs_clear)
  with run ua have "commit eng [OpDeleteWhere Construcao ''cadastro_id'' (DInt i), OpUpdate CadastroReurb i (update_values dados)] s = (s', None)"
    by (auto simp: atualizar_cadastro_reurb_def split: option.splits prod.splits)
  from commit_None_flush [OF this] obtain s1 where
    d: "delete_where Construcao ''cadastro_id'' (DInt i) s = (s1, None)" and
    u: "update_obj eng CadastroReurb i (update_values dados) s1 = (s', None)"
    by (auto split: prod.splits option.splits)
  from d have "tables s1 Construcao = filter (\<lambda>r. row_get r ''cadastro_id'' \<noteq> DInt i) (tables s Construcao)"
    by (auto simp: delete_where_def dest: finish_op_None)
  with update_obj_None [OF u] show ?thesis by auto
qed

theorem atualizar_clears_construcoes_witness:
  "atualizar_cadastro_reurb pg_engine ex_attrs 1 (JObj [(''construcoes'', JArr [])])
      (snd (adicionar_construcao pg_engine 1 (JObj []) (snd (novo_cadastro_reurb pg_engine (JObj ex_ana_fields) empty_db)))) =
     ((200, Inr ()), snd (atualizar_cadastro_reurb pg_engine ex_attrs 1 (JObj [(''construcoes'', JArr [])])
      (snd (adicionar_construcao pg_engine 1 (JObj []) (snd (novo_cadastro_reurb pg_engine (JObj ex_ana_fields) empty_db)))))) \<and>
   (''construcoes'', JArr []) \<in> set [(''construcoes'', JArr [])] \<and>
   tables (snd (adicionar_construcao pg_engine 1 (JObj []) (snd (novo_cadastro_reurb pg_engine (JObj ex_ana_fields) empty_db)))) Construcao \<noteq> [] \<and>
   tables (snd (atualizar_cadastro_reurb pg_engine ex_attrs 1 (JObj [(''construcoes'', JArr [])])
      (snd (adicionar_construcao pg_engine 1 (JObj []) (snd (novo_cadastro_reurb pg_engine (JObj ex_ana_fields) empty_db)))))) Construcao = []"
proof -
  let ?s = "snd (adicionar_construcao pg_engine 1 (JObj []) (snd (novo_cadastro_reurb pg_engine (JObj ex_ana_fields) empty_db)))"
  let ?d = "[(''construcoes'', JArr [])]"
  have "fst (atualizar_cadastro_reurb pg_engine ex_attrs 1 (JObj ?d) ?s) = (200, Inr ())" by code_simp
  then have run: "atualizar_cadastro_reurb pg_engine ex_attrs 1 (JObj ?d) ?s = ((200, Inr ()), snd (atualizar_cadastro_reurb pg_engine ex_attrs 1 (JObj ?d) ?s))"
    by (metis prod.collapse)
  have c: "(''construcoes'', JArr []) \<in> set ?d" by simp
  have ne: "tables ?s Construcao \<noteq> []" by code_simp
  have "filter (\<lambda>r. row_get r ''cadastro_id'' \<noteq> DInt 1) (tables ?s Construcao) = []" by code_simp
  with atualizar_clears_construcoes [OF run c] run c ne show ?thesis by simp
qed

text \<open>
  C17. Any other value of the relationship fails the update: a body whose
  \<open>construcoes\<close> is not the empty list answers 500 (the assignment raises inside
  the loop) and leaves the database as it was.
\<close>

theorem atualizar_construcoes_value_rejected:
  assumes "get_row s CadastroReurb i \<noteq> None" and "(''construcoes'', v) \<in> set dados" and "v \<noteq> JArr []"
  shows "fst (fst (atualizar_cadastro_reurb eng ca i (JObj dados) s)) = 500 \<and>
         snd (atualizar_cadastro_reurb eng ca i (JObj dados) s) = s"
proof -
  from assms(2,3) obtain e where "update_attrs ca dados = Inl e"
    by (cases "update_attrs ca dados") (auto dest: update_attrs_reject)
  with assms(1) show ?thesis by (auto simp: atualizar_cadastro_reurb_def)
qed

theorem atualizar_construcoes_value_rejected_witness:
  "get_row (snd (novo_cadastro_reurb pg_engine (JObj ex_ana_fields) empty_db)) CadastroReurb 1 \<noteq> None \<and>
   (''construcoes'', JArr [JObj []]) \<in> set [(''req_nome'', JStr ''Bia''), (''construcoes'', JArr [JObj []])] \<and>
   JArr [JObj []] \<noteq> JArr [] \<and>
   snd (atualizar_cadastro_reurb pg_engine ex_attrs 1 (JObj [(''req_nome'', JStr ''Bia''), (''construcoes'', JArr [JObj []])])
     (snd (novo_cadastro_reurb pg_engine (JObj ex_ana_fields) empty_db))) = snd (novo_cadastro_reurb pg_engine (JObj ex_ana_fields) empty_db)"
proof -
  let ?s = "snd (novo_cadastro_reurb pg_engine (JObj ex_ana_fields) empty_db)"
  have g: "get_row ?s CadastroReurb 1 \<noteq> None" by code_simp
  have c: "(''construcoes'', JArr [JObj []]) \<in> set [(''req_nome'', JStr ''Bia''), (''construcoes'', JArr [JObj []])]" by simp
  have n: "JArr [JObj []] \<noteq> JArr []" by simp
  from atualizar_construcoes_value_rejected [OF g c n, of pg_engine ex_attrs] g c n show ?thesis by simp
qed

text \<open>
  C3. Deleting an existing registration always succeeds on a well-formed database and
  removes exactly that registration and every construction attached to it, leaving all
  other rows as they were.
\<close>

theorem excluir_cascade:
  assumes wf: "db_wf s" and ex: "get_row s CadastroReurb i \<noteq> None"
  shows "excluir_cadastro_reurb eng i s =
           ((200, Inr ()), s\<lparr>tables := (tables s)(
              Construcao := filter (\<lambda>r. row_get r ''cadastro_id'' \<noteq> DInt i) (tables s Construcao),
              CadastroReurb := filter (\<lambda>r. row_get r ''id'' \<noteq> DInt i) (tables s CadastroReurb))\<rparr>)"
  using excluir_cascade_state [OF wf ex] .

theorem excluir_cascade_witness:
  "db_wf (snd (adicionar_construcao pg_engine 1 (JObj []) (snd (novo_cadastro_reurb pg_engine (JObj ex_ana_fields) empty_db)))) \<and>
   get_row (snd (adicionar_construcao pg_engine 1 (JObj []) (snd (novo_cadastro_reurb pg_engine (JObj ex_ana_fields) empty_db)))) CadastroReurb 1 \<noteq> None \<and>
   fst (excluir_cadastro_reurb pg_engine 1 (snd (adicionar_construcao pg_engine 1 (JObj []) (snd (novo_cadastro_reurb pg_engine (JObj ex_ana_fields) empty_db))))) = (200, Inr ()) \<and>
   tables (snd (excluir_cadastro_reurb pg_engine 1 (snd (adicionar_construcao pg_engine 1 (JObj []) (snd (novo_cadastro_reurb pg_engine (JObj ex_ana_fields) empty_db)))))) Construcao = []"
proof -
  let ?s1 = "snd (novo_cadastro_reurb pg_engine (JObj ex_ana_fields) empty_db)"
  let ?s2 = "snd (adicionar_construcao pg_engine 1 (JObj []) ?s1)"
  have wf: "db_wf ?s2"
    by (rule adicionar_wf [OF pg_engine_ok novo_wf [OF pg_engine_ok db_wf_empty]])
  have ex: "get_row ?s2 CadastroReurb 1 \<noteq> None" by code_simp
  have one: "length (tables ?s2 Construcao) = 1" by code_simp
  have cid: "\<forall>r\<in>set (tables ?s2 Construcao). row_get r ''cadastro_id'' = DInt 1" by code_simp
  from excluir_cascade [OF wf ex, of pg_engine] cid wf ex show ?thesis by simp
qed

text \<open>
  C24. A construction can only be attached to an existing registration: the foreign key of
  \<open>construcoes.cadastro_id\<close> makes the insert fail when no registration has that id
  (and the column's type when the id is outside the range of \<open>integer\<close>), so the request
  answers 500 and no row is written.
\<close>


theorem adicionar_orphan_rejected:
  assumes ie: "int_engine eng" and none: "get_row s CadastroReurb cid = None"
  shows "fst (fst (adicionar_construcao eng cid body s)) = 500 \<and>
         tables (snd (adicionar_construcao eng cid body s)) = tables s"
proof (cases body)
  case (JObj dados)
  let ?o = "construcao_values cid dados"
  obtain s' r where c: "commit eng [OpInsert Construcao ?o] s = (s', r)" by fastforce
  have "r \<noteq> None"
  proof
    assume "r = None"
    with c commit_insert obtain idv rest
      where t: "tables s' = (tables s)(Construcao := tables s Construcao @ [(''id'', idv) # rest])"
        and b: "bind_all eng ?o (tl (columns Construcao)) = Inr rest" and fk: "fk_ok s'"
      by blast
    have col: "opt_column ''cadastro_id'' TInteger \<in> set (tl (columns Construcao))" by simp
    from bind_all_value [OF b col distinct_tl_column_names]
    have "bind_value eng (opt_column ''cadastro_id'' TInteger) (JNum (of_int cid)) = Inr (row_get rest ''cadastro_id'')"
      by (simp add: obj_value_def construcao_values_def)
    with ie have "row_get rest ''cadastro_id'' = DInt cid"
      by (auto simp: bind_value_def int_engine_def split: if_splits)
    then have "row_get ((''id'', idv) # rest) ''cadastro_id'' = DInt cid" by (simp add: row_get_def)
    moreover have "(''id'', idv) # rest \<in> set (tables s' Construcao)" using t by simp
    ultimately obtain pr where "pr \<in> set (tables s CadastroReurb)" and "row_get pr ''id'' = DInt cid"
      using fk t by (fastforce simp: fk_ok_iff)
    with none show False by (simp add: get_row_None)
  qed
  then obtain e where "r = Some e" by blast
  with c commit_Some_tables [of eng "[OpInsert Construcao ?o]" s s' e] JObj show ?thesis
    by (simp add: adicionar_construcao_def)
qed (simp_all add: adicionar_construcao_def)

theorem adicionar_orphan_rejected_witness:
  "int_engine pg_engine \<and> get_row empty_db CadastroReurb 7 = None \<and>
   fst (fst (adicionar_construcao pg_engine 7 (JObj [(''uso'', JStr ''casa'')]) empty_db)) = 500 \<and>
   tables (snd (adicionar_construcao pg_engine 7 (JObj [(''uso'', JStr ''casa'')]) empty_db)) = tables empty_db"
proof -
  have ie: "int_engine pg_engine" by (simp add: int_engine_def)
  have none: "get_row empty_db CadastroReurb 7 = None" by (simp add: get_row_def empty_db_def)
  from adicionar_orphan_rejected [OF ie none] ie none show ?thesis by blast
qed

text \<open>
  C11. The sequence of \<open>cadastros_reurb.id\<close> is a PostgreSQL \<open>integer\<close> sequence: once it
  has handed out 2147483647, a create that leaves the id to the sequence fails with a
  500 and changes nothing, neither the tables nor the sequence.
\<close>

theorem novo_sequence_exhausted:
  assumes "seqs s CadastroReurb = int32_max" and "dict_get dados ''id'' = JNull"
  shows "novo_cadastro_reurb eng (JObj dados) s = ((500, Inl (DbFailure SequenceExhausted)), s)"
proof -
  have "map_of (coerce_fields numeric_fields (filter_columns CadastroReurb dados)) ''id'' = map_of dados ''id''"
    by (simp add: map_of_coerce_fields filter_columns_def map_of_filter_keys numeric_fields_def column_names_tl)
  with assms(2) have "(case map_of (coerce_fields numeric_fields (filter_columns CadastroReurb dados)) ''id'' of
      Some v \<Rightarrow> v | None \<Rightarrow> JNull) = JNull"
    by (simp add: dict_get_def)
  from commit_sequence_exhausted [OF assms(1) this, of eng] show ?thesis
    by (simp add: novo_cadastro_reurb_def)
qed

theorem novo_sequence_exhausted_witness:
  "seqs (empty_db\<lparr>seqs := \<lambda>_. int32_max\<rparr>) CadastroReurb = int32_max \<and> dict_get ex_ana_fields ''id'' = JNull \<and>
   novo_cadastro_reurb pg_engine (JObj ex_ana_fields) (empty_db\<lparr>seqs := \<lambda>_. int32_max\<rparr>) =
     ((500, Inl (DbFailure SequenceExhausted)), empty_db\<lparr>seqs := \<lambda>_. int32_max\<rparr>)"
  using novo_sequence_exhausted [of "empty_db\<lparr>seqs := \<lambda>_. int32_max\<rparr>" ex_ana_fields pg_engine]
  by (simp add: dict_get_def ex_ana_fields_def)

text \<open>
  C25. The create handler lets a client choose the id (\<open>id\<close> is a column, so it passes
  the filter), and an explicit id does not advance the sequence: after a create that
  takes the sequence's next value explicitly, the sequence is where it was, and the next
  create that leaves the id to the sequence fails and writes nothing.
\<close>

theorem explicit_id_breaks_next_create:
  assumes ie: "int_engine eng"
    and run: "novo_cadastro_reurb eng (JObj d1) s = ((201, Inr ()), s1)"
    and id1: "dict_get d1 ''id'' = JNum (of_int (seqs s CadastroReurb + 1))"
    and id2: "dict_get d2 ''id'' = JNull"
  shows "seqs s1 = seqs s \<and> fst (fst (novo_cadastro_reurb eng (JObj d2) s1)) = 500 \<and>
         tables (snd (novo_cadastro_reurb eng (JObj d2) s1)) = tables s1"
proof -
  let ?n = "seqs s CadastroReurb + 1"
  let ?o1 = "coerce_fields numeric_fields (filter_columns CadastroReurb d1)"
  let ?o2 = "coerce_fields numeric_fields (filter_columns CadastroReurb d2)"
  have mo: "map_of (coerce_fields numeric_fields (filter_columns CadastroReurb d)) ''id'' = map_of d ''id''" for d
    by (simp add: map_of_coerce_fields filter_columns_def map_of_filter_keys numeric_fields_def column_names_tl)
  from novo_success [OF run] have c: "commit eng [OpInsert CadastroReurb ?o1] s = (s1, None)" .
  from commit_insert [OF c] obtain idv rest
    where t: "tables s1 = (tables s)(CadastroReurb := tables s CadastroReurb @ [(''id'', idv) # rest])"
      and a: "fst (alloc_id eng CadastroReurb ?o1 s) = Inr idv"
      and sq: "seqs s1 = seqs (snd (alloc_id eng CadastroReurb ?o1 s))"
    by blast
  from id1 mo [of d1] have "map_of ?o1 ''id'' = Some (JNum (of_int ?n))"
    by (auto simp: dict_get_def split: option.splits)
  then have alloc1: "alloc_id eng CadastroReurb ?o1 s = (bind_value eng pk_column (JNum (of_int ?n)), s)"
    by (simp add: alloc_id_def)
  moreover from ie have "eng TInteger (JNum (of_int ?n)) = (if int32_min \<le> ?n \<and> ?n \<le> int32_max then Some (DInt ?n) else None)"
    unfolding int_engine_def by blast
  ultimately have idv: "idv = DInt ?n" using a by (auto simp: bind_value_def split: if_splits)
  from sq alloc1 have seq: "seqs s1 = seqs s" by simp
  from id2 mo [of d2] have g2: "(case map_of ?o2 ''id'' of Some v \<Rightarrow> v | None \<Rightarrow> JNull) = JNull"
    by (auto simp: dict_get_def split: option.splits)
  have "\<exists>s' e. commit eng [OpInsert CadastroReurb ?o2] s1 = (s', Some e)"
  proof (rule commit_insert_taken_id)
    fix idv' assume "fst (alloc_id eng CadastroReurb ?o2 s1) = Inr idv'"
    with g2 seq have "idv' = DInt ?n" by (simp add: alloc_id_def split: if_splits)
    moreover have "(''id'', DInt ?n) # rest \<in> set (tables s1 CadastroReurb)" using t idv by simp
    ultimately show "idv' \<noteq> DNull \<and> (\<exists>r\<in>set (tables s1 CadastroReurb). row_get r ''id'' = idv')"
      by (force simp: row_get_def)
  qed
  then obtain s' e where c2: "commit eng [OpInsert CadastroReurb ?o2] s1 = (s', Some e)" by blast
  with commit_Some_tables [OF c2] seq show ?thesis by (simp add: novo_cadastro_reurb_def)
qed

theorem explicit_id_breaks_next_create_witness:
  "int_engine pg_engine \<and>
   novo_cadastro_reurb pg_engine (JObj [(''id'', JNum 1), (''req_nome'', JStr ''Ana'')]) empty_db =
     ((201, Inr ()), snd (novo_cadastro_reurb pg_engine (JObj [(''id'', JNum 1), (''req_nome'', JStr ''Ana'')]) empty_db)) \<and>
   dict_get [(''id'', JNum 1), (''req_nome'', JStr ''Ana'')] ''id'' = JNum (of_int (seqs empty_db CadastroReurb + 1)) \<and>
   dict_get [(''req_nome'', JStr ''Bia'')] ''id'' = JNull \<and>
   fst (fst (novo_cadastro_reurb pg_engine (JObj [(''req_nome'', JStr ''Bia'')])
     (snd (novo_cadastro_reurb pg_engine (JObj [(''id'', JNum 1), (''req_nome'', JStr ''Ana'')]) empty_db)))) = 500"
proof -
  let ?d1 = "[(''id'', JNum 1), (''req_nome'', JStr ''Ana'')]"
  have ie: "int_engine pg_engine" by (simp add: int_engine_def)
  have "fst (novo_cadastro_reurb pg_engine (JObj ?d1) empty_db) = (201, Inr ())" by code_simp
  then have run: "novo_cadastro_reurb pg_engine (JObj ?d1) empty_db = ((201, Inr ()), snd (novo_cadastro_reurb pg_engine (JObj ?d1) empty_db))"
    by (metis prod.collapse)
  have i1: "dict_get ?d1 ''id'' = JNum (of_int (seqs empty_db CadastroReurb + 1))" by (simp add: dict_get_def empty_db_def)
  have i2: "dict_get [(''req_nome'', JStr ''Bia'')] ''id'' = JNull" by (simp add: dict_get_def)
  from explicit_id_breaks_next_create [OF ie run i1 i2] ie run i1 i2 show ?thesis by simp
qed

end
