(* ===== verification/Reference.thy ===== *)
theory Reference
  imports Registry
begin

text \<open>
  The reference tables (src/app.py lines 351 to 391): \<open>planta_generica_crud\<close> lists and
  creates rows of the four pricing tables, \<open>excluir_planta_generica_item\<close> deletes one.
  Both dispatch on the URL segment \<open>tipo\<close> through a dictionary; an unknown \<open>tipo\<close>
  answers 400. A new row is built with \<open>model(**dados)\<close>, whose declarative
  constructor raises \<open>TypeError\<close> for a key that is not an attribute of the class:
  a field that is neither a column nor a class attribute is refused (500), while a
  class attribute such as \<open>query\<close> is accepted and set on the instance without
  being stored.
\<close>

section \<open>Dispatch tables and serialisation\<close>

text \<open>\<open>model_map\<close> of \<open>planta_generica_crud\<close>: the model and the keys its \<open>serialize\<close> lambda emits.\<close>

definition planta_model_map :: "(string \<times> model \<times> string list) list" where
  "planta_model_map =
     [(''pgv'', PGV, [''id'', ''descricao'', ''valor_m2'']),
      (''padroes'', PadraoConstrutivo, [''id'', ''descricao'', ''valor_m2'']),
      (''logradouros'', ValorLogradouro, [''id'', ''logradouro'', ''valor_m2'']),
      (''aliquotas'', AliquotaIPTU, [''id'', ''tipo'', ''aliquota''])]"

text \<open>\<open>model_map\<close> of \<open>excluir_planta_generica_item\<close>.\<close>

definition planta_delete_map :: "(string \<times> model) list" where
  "planta_delete_map =
     [(''pgv'', PGV), (''padroes'', PadraoConstrutivo), (''logradouros'', ValorLogradouro),
      (''aliquotas'', AliquotaIPTU)]"

text \<open>A loaded attribute as the Python value \<open>jsonify\<close> receives: \<open>int\<close>, \<open>float\<close>, \<open>str\<close> or \<open>None\<close>.\<close>

fun jval_of_dbval :: "dbval \<Rightarrow> jval" where
  "jval_of_dbval DNull = JNull"
| "jval_of_dbval (DInt i) = JNum (of_int i)"
| "jval_of_dbval (DStr s) = JStr s"
| "jval_of_dbval (DFloat x) = JNum x"

text \<open>\<open>serialize(item)\<close>: a dictionary of the listed attributes, in the lambda's order.\<close>

definition serialize :: "string list \<Rightarrow> row \<Rightarrow> pydict" where
  "serialize fs r = map (\<lambda>f. (f, jval_of_dbval (row_get r f))) fs"

text \<open>
  The loop of SQLAlchemy's declarative constructor over the keyword arguments: a key
  \<open>k\<close> for which \<open>hasattr(cls, k)\<close> fails raises \<open>TypeError\<close>; otherwise
  \<open>setattr(self, k, v)\<close> runs, which for a column only records the value and for a
  class attribute has the effect \<open>ca\<close> gives.
\<close>

fun construct_attrs :: "class_attrs \<Rightarrow> model \<Rightarrow> pydict \<Rightarrow> failure + unit" where
  "construct_attrs ca m [] = Inr ()"
| "construct_attrs ca m ((k, v) # kvs) =
     (if k \<in> set (column_names m) then construct_attrs ca m kvs
      else (case ca m k v of
              NoAttr \<Rightarrow> Inl (PyError ''TypeError'')
            | AttrRaises e \<Rightarrow> Inl (PyError e)
            | AttrSet \<Rightarrow> construct_attrs ca m kvs))"

text \<open>
  \<open>model(**dados)\<close>: the body must be a dictionary (\<open>**\<close> of anything else raises
  \<open>TypeError\<close>); the object holds the values of all its keys, of which the INSERT
  writes the columns.
\<close>

definition construct :: "class_attrs \<Rightarrow> model \<Rightarrow> jval \<Rightarrow> failure + obj" where
  "construct ca m body =
     (case body of
        JObj dados \<Rightarrow> (case construct_attrs ca m dados of Inl e \<Rightarrow> Inl e | Inr _ \<Rightarrow> Inr dados)
      | _ \<Rightarrow> Inl (PyError ''TypeError''))"

section \<open>Handlers\<close>

datatype planta_req = PlantaGet | PlantaPost jval

datatype planta_out = Saved | Listed "pydict list"

text \<open>\<open>GET/POST /api/planta_generica/<tipo>\<close> (lines 351 to 374).\<close>

definition planta_generica_crud :: "engine \<Rightarrow> class_attrs \<Rightarrow> string \<Rightarrow> planta_req \<Rightarrow> db \<Rightarrow> planta_out reply \<times> db" where
  "planta_generica_crud eng ca tipo req s =
     (case map_of planta_model_map tipo of
        None \<Rightarrow> ((400, Inl (BadRequest ''invalid_tipo'')), s)
      | Some (m, fs) \<Rightarrow>
          (case req of
             PlantaPost body \<Rightarrow>
               (case construct ca m body of
                  Inl e \<Rightarrow> ((500, Inl e), s)
                | Inr dados \<Rightarrow>
                    (case commit eng [OpInsert m dados] s of
                       (s', None) \<Rightarrow> ((201, Inr Saved), s')
                     | (s', Some e) \<Rightarrow> ((500, Inl (DbFailure e)), s')))
           | PlantaGet \<Rightarrow> ((200, Inr (Listed (map (serialize fs) (tables s m)))), s)))"

text \<open>\<open>DELETE /api/planta_generica/<tipo>/<item_id>\<close> (lines 376 to 391).\<close>

definition excluir_planta_generica_item :: "engine \<Rightarrow> string \<Rightarrow> int \<Rightarrow> db \<Rightarrow> unit reply \<times> db" where
  "excluir_planta_generica_item eng tipo i s =
     (case map_of planta_delete_map tipo of
        None \<Rightarrow> ((400, Inl (BadRequest ''invalid_tipo'')), s)
      | Some m \<Rightarrow>
          (case get_row s m i of
             None \<Rightarrow> ((404, Inl NotFound), s)
           | Some _ \<Rightarrow>
               (case commit eng [OpDelete m i] s of
                  (s', None) \<Rightarrow> ((200, Inr ()), s')
                | (s', Some e) \<Rightarrow> ((500, Inl (DbFailure e)), s'))))"

text \<open>
  The JSON values that read back unchanged from a column of the given type: numbers
  for \<open>Float\<close>, integral numbers for \<open>Integer\<close>, strings for \<open>String\<close> and \<open>Text\<close>.
\<close>

fun json_typed :: "coltype \<Rightarrow> jval \<Rightarrow> bool" where
  "json_typed _ JNull = True"
| "json_typed TFloat (JNum r) = True"
| "json_typed TInteger (JNum r) = (of_int \<lfloor>r\<rfloor> = r)"
| "json_typed (TString n) (JStr s) = True"
| "json_typed TText (JStr s) = True"
| "json_typed _ _ = False"


text \<open>
  The engine contract of the round trip: a value of the column's JSON type is stored
  as a value that reads back as the same JSON value.
\<close>

definition engine_faithful :: "engine \<Rightarrow> bool" where
  "engine_faithful eng \<longleftrightarrow> (\<forall>t v d. eng t v = Some d \<longrightarrow> json_typed t v \<longrightarrow> jval_of_dbval d = v)"

section \<open>Example request for the witnesses\<close>

definition ex_pgv :: pydict where
  "ex_pgv = [(''descricao'', JStr ''Centro''), (''valor_m2'', JNum 120)]"

section \<open>Lemmas\<close>

lemma planta_model_map_Some:
  "map_of planta_model_map tipo = Some (m, fs) \<Longrightarrow> fs = column_names m \<and> m \<noteq> CadastroReurb"
  by (auto simp: planta_model_map_def column_names_def split: if_splits)

lemma planta_delete_map_Some:
  "map_of planta_delete_map tipo = Some m \<Longrightarrow> m \<noteq> CadastroReurb"
  by (auto simp: planta_delete_map_def split: if_splits)

lemma construct_attrs_Inr_iff:
  "construct_attrs ca m dados = Inr u \<longleftrightarrow> (\<forall>(k, v)\<in>set dados. k \<in> set (column_names m) \<or> ca m k v = AttrSet)"
  by (induction dados) (auto split: attr_effect.splits if_splits)

lemma construct_Inr:
  "construct ca m body = Inr d \<Longrightarrow> body = JObj d \<and> (\<forall>(k, v)\<in>set d. k \<in> set (column_names m) \<or> ca m k v = AttrSet)"
  by (auto simp: construct_def construct_attrs_Inr_iff split: jval.splits sum.splits)

lemma dict_get_serialize:
  "f \<in> set fs \<Longrightarrow> dict_get (serialize fs r) f = jval_of_dbval (row_get r f)"
  by (induction fs) (auto simp: serialize_def dict_get_def)

lemma pg_engine_faithful: "engine_faithful pg_engine"
  unfolding engine_faithful_def
proof (intro allI impI)
  fix t v d
  assume "pg_engine t v = Some d" "json_typed t v"
  then show "jval_of_dbval d = v"
    by (induction t v rule: pg_engine.induct) (auto split: if_splits)
qed

lemma jval_of_dbval_JStr [simp]: "jval_of_dbval d = JStr u \<longleftrightarrow> d = DStr u"
  by (cases d) simp_all

text \<open>A field of an inserted row reads back as the value bound for it.\<close>

lemma insert_field_roundtrip:
  assumes "engine_faithful eng" and "bind_all eng o' (tl (columns m)) = Inr rest"
    and "c \<in> set (tl (columns m))" and "json_typed (col_type c) (obj_value o' c)"
  shows "jval_of_dbval (row_get rest (col_name c)) = obj_value o' c"
proof -
  from bind_all_value [OF assms(2,3) distinct_tl_column_names]
  have "eng (col_type c) (obj_value o' c) = Some (row_get rest (col_name c))"
    by (blast dest: bind_value_Inr)
  with assms(1,4) show ?thesis by (auto simp: engine_faithful_def)
qed

lemma engine_faithful_str:
  assumes f: "engine_faithful eng" and e: "eng (TString n) (JStr v) = Some d"
  shows "d = DStr v"
proof -
  have "json_typed (TString n) (JStr v)" by simp
  with f e have "jval_of_dbval d = JStr v" unfolding engine_faithful_def by blast
  then show ?thesis by simp
qed

lemma insert_string_field:
  assumes "engine_faithful eng" and "bind_all eng o' (tl (columns m)) = Inr rest"
    and "c \<in> set (tl (columns m))" and "col_type c = TString n" and "obj_value o' c = JStr v"
  shows "row_get rest (col_name c) = DStr v"
  using insert_field_roundtrip [OF assms(1-3)] assms(4,5) by simp

lemma planta_post_success:
  assumes "map_of planta_model_map tipo = Some (m, fs)"
    and "planta_generica_crud eng ca tipo (PlantaPost body) s = ((201, Inr Saved), s')"
  shows "\<exists>dados. construct ca m body = Inr dados \<and> commit eng [OpInsert m dados] s = (s', None)"
  using assms by (auto simp: planta_generica_crud_def split: sum.splits prod.splits option.splits)

lemma planta_get: "map_of planta_model_map tipo = Some (m, fs) \<Longrightarrow>
   planta_generica_crud eng ca tipo PlantaGet s = ((200, Inr (Listed (map (serialize fs) (tables s m)))), s)"
  by (simp add: planta_generica_crud_def)

lemma planta_wf [handler_wf]: "engine_ok eng \<Longrightarrow> db_wf s \<Longrightarrow> db_wf (snd (planta_generica_crud eng ca tipo req s))"
  by (auto simp: planta_generica_crud_def split: handler_splits planta_req.split dest!: commit_wf')

lemma excluir_planta_wf [handler_wf]: "engine_ok eng \<Longrightarrow> db_wf s \<Longrightarrow> db_wf (snd (excluir_planta_generica_item eng tipo i s))"
  by (auto simp: excluir_planta_generica_item_def split: handler_splits dest!: commit_wf')

section \<open>Properties of the reference-table handlers\<close>

text \<open>
  C8. A reference row created by POST is listed by the next GET after every row that was
  already there, with exactly the table's serialised fields, the next value of the
  table's sequence as id and every column that was sent read back unchanged, for every
  engine that stores well-typed JSON values faithfully; every other key that was sent
  was a class attribute the constructor accepted, and is not stored.
\<close>

theorem planta_post_get_roundtrip:
  assumes map: "map_of planta_model_map tipo = Some (m, fs)"
    and eng: "engine_faithful eng"
    and run: "planta_generica_crud eng ca tipo (PlantaPost (JObj dados)) s = ((201, Inr Saved), s')"
    and dist: "distinct (map fst dados)" and nid: "''id'' \<notin> set (map fst dados)"
    and typed: "list_all (\<lambda>c. json_typed (col_type c) (dict_get dados (col_name c))) (columns m)"
  shows "\<exists>it. planta_generica_crud eng ca tipo PlantaGet s' = ((200, Inr (Listed (map (serialize fs) (tables s m) @ [it]))), s') \<and>
           map fst it = fs \<and> dict_get it ''id'' = JNum (of_int (seqs s m + 1)) \<and>
           (\<forall>(k, v)\<in>set dados. if k \<in> set fs then dict_get it k = v else ca m k v = AttrSet)"
proof -
  from planta_model_map_Some [OF map] have fs: "fs = column_names m" by simp
  from planta_post_success [OF map run] construct_Inr
  have keys: "\<forall>(k, v)\<in>set dados. k \<in> set (column_names m) \<or> ca m k v = AttrSet"
    and c: "commit eng [OpInsert m dados] s = (s', None)"
    by fastforce+
  from commit_insert [OF c] obtain idv rest
    where t: "tables s' = (tables s)(m := tables s m @ [(''id'', idv) # rest])"
      and b: "bind_all eng dados (tl (columns m)) = Inr rest"
      and a: "fst (alloc_id eng m dados s) = Inr idv"
    by blast
  from nid have "map_of dados ''id'' = None" by (simp add: map_of_eq_None_iff)
  from alloc_id_fresh [OF this a] have idv: "idv = DInt (seqs s m + 1)" .
  let ?it = "serialize fs ((''id'', idv) # rest)"
  have get: "planta_generica_crud eng ca tipo PlantaGet s' = ((200, Inr (Listed (map (serialize fs) (tables s m) @ [?it]))), s')"
  proof -
    have "tables s' m = tables s m @ [(''id'', idv) # rest]" using t by simp
    with planta_get [OF map] show ?thesis by simp
  qed
  have hid: "dict_get ?it ''id'' = JNum (of_int (seqs s m + 1))"
    using fs idv by (simp add: dict_get_serialize column_names_tl row_get_def)
  have ks: "map fst ?it = fs" by (simp add: serialize_def comp_def)
  have "\<forall>(k, v)\<in>set dados. if k \<in> set fs then dict_get ?it k = v else ca m k v = AttrSet"
  proof (clarify)
    fix k v assume kv: "(k, v) \<in> set dados"
    show "if k \<in> set fs then dict_get ?it k = v else ca m k v = AttrSet"
    proof (cases "k \<in> set fs")
      case False
      with kv keys fs show ?thesis by auto
    next
      case True
      then have "k \<in> set (column_names m)" and "k \<noteq> ''id''" using fs kv nid by force+
      then obtain col where col: "col \<in> set (tl (columns m))" "col_name col = k"
        by (auto simp: column_names_tl)
      from kv dist col(2) have ov: "obj_value dados col = v" by (simp add: obj_value_def)
      from col(1) have "col \<in> set (columns m)" using id_first_column [of m] by (metis list.set_intros(2))
      with typed col(2) kv dist have "json_typed (col_type col) (obj_value dados col)"
        by (auto simp: dict_get_def list_all_iff ov)
      from insert_field_roundtrip [OF eng b col(1) this] col(2) ov
      have "jval_of_dbval (row_get rest k) = v" by simp
      with \<open>k \<noteq> ''id''\<close> True show ?thesis
        by (simp add: dict_get_serialize row_get_def)
    qed
  qed
  with get hid ks show ?thesis by blast
qed

theorem planta_post_get_roundtrip_witness:
  "map_of planta_model_map ''pgv'' = Some (PGV, [''id'', ''descricao'', ''valor_m2'']) \<and> engine_faithful pg_engine \<and>
   planta_generica_crud pg_engine ex_attrs ''pgv'' (PlantaPost (JObj (ex_pgv @ [(''query'', JStr ''x'')]))) empty_db =
     ((201, Inr Saved), snd (planta_generica_crud pg_engine ex_attrs ''pgv'' (PlantaPost (JObj (ex_pgv @ [(''query'', JStr ''x'')]))) empty_db)) \<and>
   distinct (map fst (ex_pgv @ [(''query'', JStr ''x'')])) \<and> ''id'' \<notin> set (map fst (ex_pgv @ [(''query'', JStr ''x'')])) \<and>
   list_all (\<lambda>c. json_typed (col_type c) (dict_get (ex_pgv @ [(''query'', JStr ''x'')]) (col_name c))) (columns PGV) \<and>
   (\<exists>it. planta_generica_crud pg_engine ex_attrs ''pgv'' PlantaGet (snd (planta_generica_crud pg_engine ex_attrs ''pgv'' (PlantaPost (JObj (ex_pgv @ [(''query'', JStr ''x'')]))) empty_db))
      = ((200, Inr (Listed [it])), snd (planta_generica_crud pg_engine ex_attrs ''pgv'' (PlantaPost (JObj (ex_pgv @ [(''query'', JStr ''x'')]))) empty_db)) \<and>
      map fst it = [''id'', ''descricao'', ''valor_m2''] \<and> dict_get it ''id'' = JNum 1 \<and> dict_get it ''valor_m2'' = JNum 120)"
proof -
  let ?d = "ex_pgv @ [(''query'', JStr ''x'')]"
  let ?s' = "snd (planta_generica_crud pg_engine ex_attrs ''pgv'' (PlantaPost (JObj ?d)) empty_db)"
  have map: "map_of planta_model_map ''pgv'' = Some (PGV, [''id'', ''descricao'', ''valor_m2''])"
    by (simp add: planta_model_map_def)
  have "fst (planta_generica_crud pg_engine ex_attrs ''pgv'' (PlantaPost (JObj ?d)) empty_db) = (201, Inr Saved)" by code_simp
  then have run: "planta_generica_crud pg_engine ex_attrs ''pgv'' (PlantaPost (JObj ?d)) empty_db = ((201, Inr Saved), ?s')"
    by (metis prod.collapse)
  have d: "distinct (map fst ?d)" "''id'' \<notin> set (map fst ?d)" by (simp_all add: ex_pgv_def)
  have ty: "list_all (\<lambda>c. json_typed (col_type c) (dict_get ?d (col_name c))) (columns PGV)"
    by (simp add: ex_pgv_def dict_get_def)
  from planta_post_get_roundtrip [OF map pg_engine_faithful run d ty] obtain it
    where "planta_generica_crud pg_engine ex_attrs ''pgv'' PlantaGet ?s' = ((200, Inr (Listed (map (serialize [''id'', ''descricao'', ''valor_m2'']) (tables empty_db PGV) @ [it]))), ?s')"
      "map fst it = [''id'', ''descricao'', ''valor_m2'']"
      "dict_get it ''id'' = JNum (of_int (seqs empty_db PGV + 1))"
      "\<forall>(k, v)\<in>set ?d. if k \<in> set [''id'', ''descricao'', ''valor_m2''] then dict_get it k = v else ex_attrs PGV k v = AttrSet"
    by (elim exE conjE) (rule that; assumption)
  with map run d ty pg_engine_faithful show ?thesis by (auto simp: empty_db_def ex_pgv_def)
qed

text \<open>
  C31. A POST whose body names a field that is neither a column of the table nor a
  class attribute the constructor can set is refused with 500 (the exception of the
  model constructor) and writes nothing.
\<close>

theorem planta_post_rejects_unknown_key:
  assumes "map_of planta_model_map tipo = Some (m, fs)"
    and "(k, v) \<in> set dados" and "k \<notin> set (column_names m)" and "ca m k v \<noteq> AttrSet"
  shows "fst (fst (planta_generica_crud eng ca tipo (PlantaPost (JObj dados)) s)) = 500 \<and>
         snd (planta_generica_crud eng ca tipo (PlantaPost (JObj dados)) s) = s"
proof -
  from assms(2-4) obtain e where "construct_attrs ca m dados = Inl e"
    using construct_attrs_Inr_iff [of ca m dados] by (cases "construct_attrs ca m dados") fastforce+
  with assms(1) show ?thesis by (simp add: planta_generica_crud_def construct_def)
qed

theorem planta_post_rejects_unknown_key_witness:
  "map_of planta_model_map ''aliquotas'' = Some (AliquotaIPTU, [''id'', ''tipo'', ''aliquota'']) \<and>
   (''valor_m2'', JNum 1) \<in> set [(''tipo'', JStr ''Residencial''), (''valor_m2'', JNum 1)] \<and>
   ''valor_m2'' \<notin> set (column_names AliquotaIPTU) \<and> ex_attrs AliquotaIPTU ''valor_m2'' (JNum 1) \<noteq> AttrSet \<and>
   planta_generica_crud pg_engine ex_attrs ''aliquotas'' (PlantaPost (JObj [(''tipo'', JStr ''Residencial''), (''valor_m2'', JNum 1)])) empty_db
     = ((500, Inl (PyError ''TypeError'')), empty_db)"
proof -
  let ?d = "[(''tipo'', JStr ''Residencial''), (''valor_m2'', JNum 1)]"
  have h: "map_of planta_model_map ''aliquotas'' = Some (AliquotaIPTU, [''id'', ''tipo'', ''aliquota''])"
    "(''valor_m2'', JNum 1) \<in> set ?d" "''valor_m2'' \<notin> set (column_names AliquotaIPTU)"
    "ex_attrs AliquotaIPTU ''valor_m2'' (JNum 1) \<noteq> AttrSet"
    by (simp_all add: planta_model_map_def column_names_def ex_attrs_def)
  from planta_post_rejects_unknown_key [where ca=ex_attrs and m=AliquotaIPTU and k="''valor_m2''" and v="JNum 1", OF h, of pg_engine empty_db]
  have "snd (planta_generica_crud pg_engine ex_attrs ''aliquotas'' (PlantaPost (JObj ?d)) empty_db) = empty_db" by simp
  moreover have "fst (planta_generica_crud pg_engine ex_attrs ''aliquotas'' (PlantaPost (JObj ?d)) empty_db) = (500, Inl (PyError ''TypeError''))"
    by code_simp
  ultimately show ?thesis using h by (metis prod.collapse)
qed

text \<open>
  C32. Deleting a reference row answers 404 when the id is absent and otherwise always
  succeeds on a well-formed database, removing exactly that row: no foreign key
  points to a reference table.
\<close>

theorem excluir_planta_item:
  assumes wf: "db_wf s" and map: "map_of planta_delete_map tipo = Some m"
  shows "excluir_planta_generica_item eng tipo i s =
           (if get_row s m i = None then ((404, Inl NotFound), s)
            else ((200, Inr ()), s\<lparr>tables := (tables s)(m := filter (\<lambda>r. row_get r ''id'' \<noteq> DInt i) (tables s m))\<rparr>))"
proof -
  from delete_where_unreferenced [OF wf planta_delete_map_Some [OF map]]
  have "commit eng [OpDelete m i] s = (s\<lparr>tables := (tables s)(m := filter (\<lambda>r. row_get r ''id'' \<noteq> DInt i) (tables s m))\<rparr>, None)"
    by (simp add: commit_def)
  with map show ?thesis by (simp add: excluir_planta_generica_item_def split: option.split)
qed

theorem excluir_planta_item_witness:
  "db_wf (snd (planta_generica_crud pg_engine ex_attrs ''pgv'' (PlantaPost (JObj ex_pgv)) empty_db)) \<and>
   map_of planta_delete_map ''pgv'' = Some PGV \<and>
   fst (excluir_planta_generica_item pg_engine ''pgv'' 1 (snd (planta_generica_crud pg_engine ex_attrs ''pgv'' (PlantaPost (JObj ex_pgv)) empty_db))) = (200, Inr ()) \<and>
   tables (snd (excluir_planta_generica_item pg_engine ''pgv'' 1 (snd (planta_generica_crud pg_engine ex_attrs ''pgv'' (PlantaPost (JObj ex_pgv)) empty_db)))) PGV = []"
proof -
  let ?s' = "snd (planta_generica_crud pg_engine ex_attrs ''pgv'' (PlantaPost (JObj ex_pgv)) empty_db)"
  have wf: "db_wf ?s'" by code_simp
  have map: "map_of planta_delete_map ''pgv'' = Some PGV" by (simp add: planta_delete_map_def)
  have "get_row ?s' PGV 1 \<noteq> None" by code_simp
  moreover have "filter (\<lambda>r. row_get r ''id'' \<noteq> DInt 1) (tables ?s' PGV) = []" by code_simp
  ultimately show ?thesis using excluir_planta_item [OF wf map, of pg_engine 1] wf map by simp
qed

end
