(* ===== verification/Users.thy ===== *)
theory Users
  imports Reference
begin

text \<open>
  User accounts and login (src/app.py lines 134 to 199). The password hash of werkzeug
  is a parameter, \<open>hasher\<close>: \<open>generate_password_hash\<close> draws a random salt, which the
  model takes as an explicit argument, and its contract \<open>hash_ok\<close> says that a hash
  verifies exactly the password it was made from (collision resistance idealised as
  injectivity). The response messages are constant strings and are not modelled; the
  login outcome is the \<open>sucesso\<close> flag with the role.
\<close>

section \<open>Password hashing\<close>

record hasher =
  hs_gen :: "nat \<Rightarrow> string \<Rightarrow> string"
  hs_chk :: "string \<Rightarrow> string \<Rightarrow> bool"

definition hash_ok :: "hasher \<Rightarrow> bool" where
  "hash_ok hs \<longleftrightarrow> (\<forall>n p q. hs_chk hs (hs_gen hs n p) q = (q = p))"

text \<open>\<open>generate_password_hash(v)\<close>: \<open>v.encode()\<close> fails on anything but a string.\<close>

definition gen_hash :: "hasher \<Rightarrow> nat \<Rightarrow> jval \<Rightarrow> failure + string" where
  "gen_hash hs salt v = (case v of JStr p \<Rightarrow> Inr (hs_gen hs salt p) | _ \<Rightarrow> Inl (PyError ''AttributeError''))"

text \<open>\<open>check_password_hash(pwhash, v)\<close> against a stored hash.\<close>

definition check_password :: "hasher \<Rightarrow> dbval \<Rightarrow> jval \<Rightarrow> failure + bool" where
  "check_password hs h v = (case v of JStr p \<Rightarrow> Inr (hs_chk hs (db_str h) p) | _ \<Rightarrow> Inl (PyError ''AttributeError''))"

section \<open>Request bodies\<close>

text \<open>\<open>dados[k]\<close>: \<open>KeyError\<close> on a dictionary without \<open>k\<close>, \<open>TypeError\<close> on any other value.\<close>

definition py_index :: "jval \<Rightarrow> string \<Rightarrow> failure + jval" where
  "py_index body k =
     (case body of
        JObj d \<Rightarrow> (case map_of d k of Some v \<Rightarrow> Inr v | None \<Rightarrow> Inl (PyError ''KeyError''))
      | _ \<Rightarrow> Inl (PyError ''TypeError''))"

text \<open>
  \<open>Usuario.query.filter_by(usuario=v).first()\<close>: \<open>None\<close> becomes \<open>IS NULL\<close>, which the
  NOT NULL column never matches; a value that is not a string is refused by PostgreSQL
  (no operator compares \<open>varchar\<close> with it).
\<close>

definition find_usuario :: "db \<Rightarrow> jval \<Rightarrow> failure + row option" where
  "find_usuario s v =
     (case v of
        JNull \<Rightarrow> Inr None
      | JStr u \<Rightarrow> Inr (find (\<lambda>r. row_get r ''usuario'' = DStr u) (tables s Usuario))
      | _ \<Rightarrow> Inl (DbFailure (BindError ''usuario'')))"

section \<open>Handlers\<close>

datatype login_out = LoginOk jval | LoginRejected

text \<open>\<open>POST /api/login\<close> (lines 134 to 144).\<close>

definition login :: "hasher \<Rightarrow> jval \<Rightarrow> db \<Rightarrow> login_out reply" where
  "login hs body s =
     (case body of
        JObj dados \<Rightarrow>
          (case find_usuario s (dict_get dados ''usuario'') of
             Inl e \<Rightarrow> (500, Inl e)
           | Inr None \<Rightarrow> (200, Inr LoginRejected)
           | Inr (Some r) \<Rightarrow>
               (case check_password hs (row_get r ''senha'') (dict_get dados ''senha'') of
                  Inl e \<Rightarrow> (500, Inl e)
                | Inr True \<Rightarrow> (200, Inr (LoginOk (jval_of_dbval (row_get r ''acesso''))))
                | Inr False \<Rightarrow> (200, Inr LoginRejected)))
      | _ \<Rightarrow> (500, Inl (PyError ''AttributeError'')))"

text \<open>The instance \<open>criar_usuario\<close> builds: the hash first, then the keyword arguments in order.\<close>

definition usuario_values :: "hasher \<Rightarrow> nat \<Rightarrow> jval \<Rightarrow> failure + obj" where
  "usuario_values hs salt body =
     bindE (py_index body ''senha'') (\<lambda>pw. bindE (gen_hash hs salt pw) (\<lambda>h.
     bindE (py_index body ''nome'') (\<lambda>n. bindE (py_index body ''usuario'') (\<lambda>u.
     bindE (py_index body ''acesso'') (\<lambda>a.
       Inr [(''nome'', n), (''usuario'', u), (''senha'', JStr h), (''acesso'', a)])))))"

text \<open>\<open>POST /api/usuarios\<close> (lines 147 to 159); there is no \<open>try\<close>: every failure is a 500.\<close>

definition criar_usuario :: "engine \<Rightarrow> hasher \<Rightarrow> nat \<Rightarrow> jval \<Rightarrow> db \<Rightarrow> unit reply \<times> db" where
  "criar_usuario eng hs salt body s =
     (case usuario_values hs salt body of
        Inl e \<Rightarrow> ((500, Inl e), s)
      | Inr o' \<Rightarrow>
          (case commit eng [OpInsert Usuario o'] s of
             (s', None) \<Rightarrow> ((201, Inr ()), s')
           | (s', Some e) \<Rightarrow> ((500, Inl (DbFailure e)), s')))"

definition usuario_fields :: "string list" where
  "usuario_fields = [''id'', ''nome'', ''usuario'', ''acesso'']"

text \<open>\<open>GET /api/usuarios\<close> (lines 161 to 170): every account without its hash.\<close>

definition listar_usuarios :: "db \<Rightarrow> nat \<times> pydict list" where
  "listar_usuarios s = (200, map (serialize usuario_fields) (tables s Usuario))"

text \<open>
  The attribute assignments of \<open>atualizar_usuario\<close>: \<open>nome\<close> and \<open>usuario\<close>, a new hash
  only when \<open>senha\<close> is present and truthy, then \<open>acesso\<close>.
\<close>

definition usuario_updates :: "hasher \<Rightarrow> nat \<Rightarrow> jval \<Rightarrow> failure + obj" where
  "usuario_updates hs salt body =
     bindE (py_index body ''nome'') (\<lambda>n. bindE (py_index body ''usuario'') (\<lambda>u.
     bindE (case body of
              JObj d \<Rightarrow> if ''senha'' \<in> set (map fst d) \<and> py_truthy (dict_get d ''senha'')
                        then bindE (gen_hash hs salt (dict_get d ''senha'')) (\<lambda>h. Inr [(''senha'', JStr h)])
                        else Inr []
            | _ \<Rightarrow> Inr []) (\<lambda>pw.
     bindE (py_index body ''acesso'') (\<lambda>a.
       Inr ([(''nome'', n), (''usuario'', u)] @ pw @ [(''acesso'', a)])))))"

text \<open>\<open>PUT /api/usuarios/<id>\<close> (lines 172 to 182).\<close>

definition atualizar_usuario :: "engine \<Rightarrow> hasher \<Rightarrow> nat \<Rightarrow> int \<Rightarrow> jval \<Rightarrow> db \<Rightarrow> unit reply \<times> db" where
  "atualizar_usuario eng hs salt i body s =
     (case get_row s Usuario i of
        None \<Rightarrow> ((404, Inl NotFound), s)
      | Some _ \<Rightarrow>
          (case usuario_updates hs salt body of
             Inl e \<Rightarrow> ((500, Inl e), s)
           | Inr o' \<Rightarrow>
               (case commit eng [OpUpdate Usuario i o'] s of
                  (s', None) \<Rightarrow> ((200, Inr ()), s')
                | (s', Some e) \<Rightarrow> ((500, Inl (DbFailure e)), s'))))"

text \<open>\<open>DELETE /api/usuarios/<id>\<close> (lines 184 to 189).\<close>

definition excluir_usuario :: "engine \<Rightarrow> int \<Rightarrow> db \<Rightarrow> unit reply \<times> db" where
  "excluir_usuario eng i s =
     (case get_row s Usuario i of
        None \<Rightarrow> ((404, Inl NotFound), s)
      | Some _ \<Rightarrow>
          (case commit eng [OpDelete Usuario i] s of
             (s', None) \<Rightarrow> ((200, Inr ()), s')
           | (s', Some e) \<Rightarrow> ((500, Inl (DbFailure e)), s')))"

text \<open>\<open>GET /api/usuarios/<id>\<close> (lines 191 to 199).\<close>

definition obter_usuario :: "db \<Rightarrow> int \<Rightarrow> pydict reply" where
  "obter_usuario s i =
     (case get_row s Usuario i of
        None \<Rightarrow> (404, Inl NotFound)
      | Some r \<Rightarrow> (200, Inr (serialize usuario_fields r)))"

section \<open>Example data for the witnesses\<close>

text \<open>A hasher meeting the contract (unsalted, for evaluation only).\<close>

definition ex_hasher :: hasher where
  "ex_hasher = \<lparr>hs_gen = (\<lambda>n p. ''pbkdf2:'' @ p), hs_chk = (\<lambda>h q. h = ''pbkdf2:'' @ q)\<rparr>"

definition ex_user :: pydict where
  "ex_user = [(''nome'', JStr ''Ana''), (''usuario'', JStr ''ana''), (''senha'', JStr ''s3nha''),
     (''acesso'', JStr ''Administrador'')]"

section \<open>Lemmas\<close>

text \<open>The columns of \<open>usuarios\<close> the lemmas name.\<close>

abbreviation usuario_col :: column where
  "usuario_col \<equiv> Column ''usuario'' (TString 50) False True None"

abbreviation senha_col :: column where
  "senha_col \<equiv> req_column ''senha'' (TString 255)"

abbreviation acesso_col :: column where
  "acesso_col \<equiv> Column ''acesso'' (TString 20) False False (Some (JStr ''Usuario''))"

lemma usuario_values_Inr:
  "usuario_values hs salt (JObj d) = Inr o' \<Longrightarrow> map_of d ''usuario'' = Some u \<Longrightarrow>
   map_of d ''senha'' = Some (JStr p) \<Longrightarrow> map_of d ''acesso'' = Some a \<Longrightarrow>
   \<exists>n. o' = [(''nome'', n), (''usuario'', u), (''senha'', JStr (hs_gen hs salt p)), (''acesso'', a)]"
  by (auto simp: usuario_values_def py_index_def gen_hash_def bindE_Inr split: option.splits)

lemma usuario_values_usuario:
  "usuario_values hs salt (JObj d) = Inr o' \<Longrightarrow> map_of o' ''usuario'' = map_of d ''usuario''"
  by (auto simp: usuario_values_def py_index_def gen_hash_def bindE_Inr split: option.splits jval.splits)

lemma usuario_updates_Inr:
  assumes "usuario_updates hs salt (JObj d) = Inr o'"
  shows "\<exists>n u a. o' = [(''nome'', n), (''usuario'', u)] @
           (case dict_get d ''senha'' of JStr p \<Rightarrow> if p \<noteq> [] then [(''senha'', JStr (hs_gen hs salt p))] else []
            | _ \<Rightarrow> []) @ [(''acesso'', a)]"
  using assms py_truthy_dict_get [of d "''senha''"]
  by (auto simp: usuario_updates_def py_index_def gen_hash_def bindE_Inr split: option.splits jval.splits if_splits)

lemma ex_hasher_ok: "hash_ok ex_hasher"
  by (auto simp: hash_ok_def ex_hasher_def)

lemma distinct_usuario_updates:
  "usuario_updates hs salt (JObj d) = Inr o' \<Longrightarrow> distinct (map fst o') \<and> ''id'' \<notin> set (map fst o')"
  by (drule usuario_updates_Inr) (auto split: jval.splits)

lemma criar_usuario_wf [handler_wf]: "engine_ok eng \<Longrightarrow> db_wf s \<Longrightarrow> db_wf (snd (criar_usuario eng hs salt b s))"
  by (auto simp: criar_usuario_def split: handler_splits dest!: commit_wf')

lemma atualizar_usuario_wf [handler_wf]: "engine_ok eng \<Longrightarrow> db_wf s \<Longrightarrow> db_wf (snd (atualizar_usuario eng hs salt i b s))"
  by (auto simp: atualizar_usuario_def split: handler_splits dest!: commit_wf')

lemma excluir_usuario_wf [handler_wf]: "engine_ok eng \<Longrightarrow> db_wf s \<Longrightarrow> db_wf (snd (excluir_usuario eng i s))"
  by (auto simp: excluir_usuario_def split: handler_splits dest!: commit_wf')

section \<open>Properties of the account handlers\<close>

text \<open>
  C6. An account created with login name \<open>u\<close>, password \<open>p\<close> and role \<open>x\<close> logs in with
  \<open>(u, p)\<close>, answering the role \<open>x\<close>, and with no other password: the stored hash
  verifies exactly the password it was made from, and the unique login name finds
  the new account and no older one.
\<close>

theorem criar_then_login:
  assumes hash: "hash_ok hs" and eng: "engine_faithful eng"
    and run: "criar_usuario eng hs salt (JObj dados) s = ((201, Inr ()), s')"
    and u: "map_of dados ''usuario'' = Some (JStr u)" and p: "map_of dados ''senha'' = Some (JStr p)"
    and a: "map_of dados ''acesso'' = Some (JStr x)"
  shows "login hs (JObj [(''usuario'', JStr u), (''senha'', JStr q)]) s' =
           (if q = p then (200, Inr (LoginOk (JStr x))) else (200, Inr LoginRejected))"
proof -
  from run obtain o' where v: "usuario_values hs salt (JObj dados) = Inr o'"
    and c: "commit eng [OpInsert Usuario o'] s = (s', None)"
    by (auto simp: criar_usuario_def split: sum.splits prod.splits option.splits)
  from usuario_values_Inr [OF v u p a] obtain n
    where o: "o' = [(''nome'', n), (''usuario'', JStr u), (''senha'', JStr (hs_gen hs salt p)), (''acesso'', JStr x)]" ..
  from commit_insert [OF c] obtain idv rest
    where t: "tables s' = (tables s)(Usuario := tables s Usuario @ [(''id'', idv) # rest])"
      and b: "bind_all eng o' (tl (columns Usuario)) = Inr rest" and uq: "unique_ok Usuario (tables s' Usuario)"
    by blast
  have ru: "row_get rest ''usuario'' = DStr u"
    using insert_string_field [OF eng b, of usuario_col] o by (simp add: obj_value_def)
  have rp: "row_get rest ''senha'' = DStr (hs_gen hs salt p)"
    using insert_string_field [OF eng b, of senha_col] o by (simp add: obj_value_def)
  have ra: "row_get rest ''acesso'' = DStr x"
    using insert_string_field [OF eng b, of acesso_col] o by (simp add: obj_value_def)
  let ?r = "(''id'', idv) # rest"
  from uq t have "unique_ok Usuario (tables s Usuario @ [?r])" by simp
  from unique_last [OF this, of usuario_col] ru
  have "\<forall>y\<in>set (tables s Usuario). row_get y ''usuario'' \<noteq> DStr u" by (simp add: row_get_def)
  with ru have "find (\<lambda>y. row_get y ''usuario'' = DStr u) (tables s' Usuario) = Some ?r"
    using t find_last [of "\<lambda>y. row_get y ''usuario'' = DStr u" ?r] by (simp add: row_get_def)
  with rp ra hash show ?thesis
    by (simp add: login_def find_usuario_def check_password_def dict_get_def hash_ok_def row_get_def)
qed

theorem criar_then_login_witness:
  "hash_ok ex_hasher \<and> engine_faithful pg_engine \<and>
   criar_usuario pg_engine ex_hasher 0 (JObj ex_user) empty_db = ((201, Inr ()), snd (criar_usuario pg_engine ex_hasher 0 (JObj ex_user) empty_db)) \<and>
   map_of ex_user ''usuario'' = Some (JStr ''ana'') \<and> map_of ex_user ''senha'' = Some (JStr ''s3nha'') \<and>
   map_of ex_user ''acesso'' = Some (JStr ''Administrador'') \<and>
   login ex_hasher (JObj [(''usuario'', JStr ''ana''), (''senha'', JStr ''s3nha'')]) (snd (criar_usuario pg_engine ex_hasher 0 (JObj ex_user) empty_db))
     = (200, Inr (LoginOk (JStr ''Administrador''))) \<and>
   login ex_hasher (JObj [(''usuario'', JStr ''ana''), (''senha'', JStr ''senha'')]) (snd (criar_usuario pg_engine ex_hasher 0 (JObj ex_user) empty_db))
     = (200, Inr LoginRejected)"
proof -
  let ?s' = "snd (criar_usuario pg_engine ex_hasher 0 (JObj ex_user) empty_db)"
  have "fst (criar_usuario pg_engine ex_hasher 0 (JObj ex_user) empty_db) = (201, Inr ())" by code_simp
  then have run: "criar_usuario pg_engine ex_hasher 0 (JObj ex_user) empty_db = ((201, Inr ()), ?s')"
    by (metis prod.collapse)
  have f: "map_of ex_user ''usuario'' = Some (JStr ''ana'')" "map_of ex_user ''senha'' = Some (JStr ''s3nha'')"
    "map_of ex_user ''acesso'' = Some (JStr ''Administrador'')" by (simp_all add: ex_user_def)
  note l = criar_then_login [OF ex_hasher_ok pg_engine_faithful run f]
  from l [of "''s3nha''"] l [of "''senha''"] ex_hasher_ok pg_engine_faithful run f show ?thesis by simp
qed

text \<open>
  C28. Creating an account with a login name that is already taken answers 500 and
  leaves every table unchanged (the unique constraint on \<open>usuario\<close>).
\<close>

theorem criar_usuario_duplicate_rejected:
  assumes eng: "engine_faithful eng" and r0: "r0 \<in> set (tables s Usuario)" and u0: "row_get r0 ''usuario'' = DStr u"
    and u: "map_of dados ''usuario'' = Some (JStr u)"
  shows "\<exists>e s''. criar_usuario eng hs salt (JObj dados) s = ((500, Inl e), s'') \<and> tables s'' = tables s"
proof (cases "usuario_values hs salt (JObj dados)")
  case (Inl e)
  then show ?thesis by (simp add: criar_usuario_def)
next
  case (Inr o')
  from usuario_values_usuario [OF Inr] u have ou: "obj_value o' usuario_col = JStr u"
    by (simp add: obj_value_def)
  obtain s'' res where c: "commit eng [OpInsert Usuario o'] s = (s'', res)" by fastforce
  show ?thesis
  proof (cases res)
    case None
    from commit_insert [OF c [unfolded None]] obtain idv rest
      where t: "tables s'' = (tables s)(Usuario := tables s Usuario @ [(''id'', idv) # rest])"
        and b: "bind_all eng o' (tl (columns Usuario)) = Inr rest" and uq: "unique_ok Usuario (tables s'' Usuario)"
      by blast
    have ru: "row_get rest ''usuario'' = DStr u"
      using insert_string_field [OF eng b, of usuario_col] ou by simp
    from uq t have "unique_ok Usuario (tables s Usuario @ [(''id'', idv) # rest])" by simp
    from unique_last [OF this, of usuario_col] ru
    have "\<forall>y\<in>set (tables s Usuario). row_get y ''usuario'' \<noteq> DStr u" by (simp add: row_get_def)
    with r0 u0 show ?thesis by blast
  next
    case (Some e)
    with c Inr commit_Some_tables [of eng _ s s'' e] show ?thesis by (simp add: criar_usuario_def)
  qed
qed

theorem criar_usuario_duplicate_rejected_witness:
  "engine_faithful pg_engine \<and>
   hd (tables (snd (criar_usuario pg_engine ex_hasher 0 (JObj ex_user) empty_db)) Usuario) \<in> set (tables (snd (criar_usuario pg_engine ex_hasher 0 (JObj ex_user) empty_db)) Usuario) \<and>
   row_get (hd (tables (snd (criar_usuario pg_engine ex_hasher 0 (JObj ex_user) empty_db)) Usuario)) ''usuario'' = DStr ''ana'' \<and>
   map_of ex_user ''usuario'' = Some (JStr ''ana'') \<and>
   (\<exists>e s''. criar_usuario pg_engine ex_hasher 1 (JObj ex_user) (snd (criar_usuario pg_engine ex_hasher 0 (JObj ex_user) empty_db)) = ((500, Inl e), s'') \<and>
      tables s'' = tables (snd (criar_usuario pg_engine ex_hasher 0 (JObj ex_user) empty_db)))"
proof -
  let ?s = "snd (criar_usuario pg_engine ex_hasher 0 (JObj ex_user) empty_db)"
  have r0: "hd (tables ?s Usuario) \<in> set (tables ?s Usuario)" by code_simp
  have u0: "row_get (hd (tables ?s Usuario)) ''usuario'' = DStr ''ana''" by code_simp
  have u: "map_of ex_user ''usuario'' = Some (JStr ''ana'')" by (simp add: ex_user_def)
  from criar_usuario_duplicate_rejected [OF pg_engine_faithful r0 u0 u, of ex_hasher 1] pg_engine_faithful r0 u0 u
  show ?thesis by blast
qed

text \<open>
  C29. A login for an existing account whose body carries no password (absent or
  \<open>null\<close>) is answered 500, because \<open>check_password_hash\<close> fails on \<open>None\<close>; the
  spec expects \<open>{success: false}\<close>.
\<close>

theorem login_without_password_fails:
  assumes r0: "r0 \<in> set (tables s Usuario)" and u0: "row_get r0 ''usuario'' = DStr u"
    and u: "dict_get dados ''usuario'' = JStr u" and p: "dict_get dados ''senha'' = JNull"
  shows "login hs (JObj dados) s = (500, Inl (PyError ''AttributeError''))"
proof -
  from r0 u0 have "find (\<lambda>r. row_get r ''usuario'' = DStr u) (tables s Usuario) \<noteq> None"
    by (auto simp: find_None_iff)
  then obtain r where "find (\<lambda>r. row_get r ''usuario'' = DStr u) (tables s Usuario) = Some r" by blast
  with u p show ?thesis by (simp add: login_def find_usuario_def check_password_def)
qed

theorem login_without_password_fails_witness:
  "hd (tables (snd (criar_usuario pg_engine ex_hasher 0 (JObj ex_user) empty_db)) Usuario) \<in> set (tables (snd (criar_usuario pg_engine ex_hasher 0 (JObj ex_user) empty_db)) Usuario) \<and>
   row_get (hd (tables (snd (criar_usuario pg_engine ex_hasher 0 (JObj ex_user) empty_db)) Usuario)) ''usuario'' = DStr ''ana'' \<and>
   dict_get [(''usuario'', JStr ''ana'')] ''usuario'' = JStr ''ana'' \<and> dict_get [(''usuario'', JStr ''ana'')] ''senha'' = JNull \<and>
   login ex_hasher (JObj [(''usuario'', JStr ''ana'')]) (snd (criar_usuario pg_engine ex_hasher 0 (JObj ex_user) empty_db))
     = (500, Inl (PyError ''AttributeError''))"
proof -
  let ?s = "snd (criar_usuario pg_engine ex_hasher 0 (JObj ex_user) empty_db)"
  have r0: "hd (tables ?s Usuario) \<in> set (tables ?s Usuario)" by code_simp
  have u0: "row_get (hd (tables ?s Usuario)) ''usuario'' = DStr ''ana''" by code_simp
  have d: "dict_get [(''usuario'', JStr ''ana'')] ''usuario'' = JStr ''ana''" "dict_get [(''usuario'', JStr ''ana'')] ''senha'' = JNull"
    by (simp_all add: dict_get_def)
  from login_without_password_fails [OF r0 u0 d, of ex_hasher] r0 u0 d show ?thesis by simp
qed

text \<open>
  C27. After a successful account update the stored hash is a fresh hash of the
  password sent when it is a non-empty string, and the old hash when the password
  is absent, \<open>null\<close> or empty: an update never clears a password.
\<close>

theorem atualizar_usuario_password:
  assumes eng: "engine_faithful eng"
    and run: "atualizar_usuario eng hs salt i (JObj dados) s = ((200, Inr ()), s')"
  shows "\<exists>r r'. get_row s Usuario i = Some r \<and> get_row s' Usuario i = Some r' \<and>
           row_get r' ''senha'' = (case dict_get dados ''senha'' of
                                     JStr p \<Rightarrow> if p \<noteq> [] then DStr (hs_gen hs salt p) else row_get r ''senha''
                                   | _ \<Rightarrow> row_get r ''senha'')"
proof -
  from run obtain o' where v: "usuario_updates hs salt (JObj dados) = Inr o'"
    and c: "commit eng [OpUpdate Usuario i o'] s = (s', None)"
    by (auto simp: atualizar_usuario_def split: option.splits sum.splits prod.splits)
  from commit_update [OF c] obtain r r' where g: "get_row s Usuario i = Some r"
    and b: "bind_updates eng Usuario o' r = Inr r'"
    and t: "tables s' = (tables s)(Usuario := map (\<lambda>x. if row_get x ''id'' = DInt i then r' else x) (tables s Usuario))"
    by blast
  from distinct_usuario_updates [OF v] have dist: "distinct (map fst o')" and nid: "''id'' \<notin> set (map fst o')"
    by simp_all
  from bind_updates_frame [OF b nid] get_row_in [OF g] have "row_get r' ''id'' = DInt i" by (simp add: row_get_def)
  with g t have g': "get_row s' Usuario i = Some r'" by (simp add: get_row_def find_replace)
  from usuario_updates_Inr [OF v] obtain n u a where o: "o' = [(''nome'', n), (''usuario'', u)] @
      (case dict_get dados ''senha'' of JStr p \<Rightarrow> if p \<noteq> [] then [(''senha'', JStr (hs_gen hs salt p))] else []
       | _ \<Rightarrow> []) @ [(''acesso'', a)]" by blast
  have "row_get r' ''senha'' = (case dict_get dados ''senha'' of
          JStr p \<Rightarrow> if p \<noteq> [] then DStr (hs_gen hs salt p) else row_get r ''senha'' | _ \<Rightarrow> row_get r ''senha'')"
  proof (cases "\<exists>p. dict_get dados ''senha'' = JStr p \<and> p \<noteq> []")
    case True
    then obtain p where p: "dict_get dados ''senha'' = JStr p" "p \<noteq> []" by blast
    with o have "(col_name senha_col, JStr (hs_gen hs salt p)) \<in> set o'" by simp
    from bind_updates_value [OF b dist this] have "bind_value eng senha_col (JStr (hs_gen hs salt p)) = Inr (row_get r' ''senha'')"
      by simp
    then have "eng (TString 255) (JStr (hs_gen hs salt p)) = Some (row_get r' ''senha'')" by (auto dest: bind_value_Inr)
    with eng have "row_get r' ''senha'' = DStr (hs_gen hs salt p)" by (rule engine_faithful_str)
    with p show ?thesis by simp
  next
    case False
    with o have "''senha'' \<notin> set (map fst o')" by (auto split: jval.splits)
    from bind_updates_frame [OF b this] False show ?thesis by (auto simp: row_get_def split: jval.splits)
  qed
  with g g' show ?thesis by blast
qed

theorem atualizar_usuario_password_witness:
  "engine_faithful pg_engine \<and>
   atualizar_usuario pg_engine ex_hasher 1 1 (JObj [(''nome'', JStr ''Ana''), (''usuario'', JStr ''ana2''), (''senha'', JStr []), (''acesso'', JStr ''Usuario'')])
      (snd (criar_usuario pg_engine ex_hasher 0 (JObj ex_user) empty_db))
    = ((200, Inr ()), snd (atualizar_usuario pg_engine ex_hasher 1 1 (JObj [(''nome'', JStr ''Ana''), (''usuario'', JStr ''ana2''), (''senha'', JStr []), (''acesso'', JStr ''Usuario'')])
      (snd (criar_usuario pg_engine ex_hasher 0 (JObj ex_user) empty_db)))) \<and>
   (\<exists>r r'. get_row (snd (criar_usuario pg_engine ex_hasher 0 (JObj ex_user) empty_db)) Usuario 1 = Some r \<and>
      get_row (snd (atualizar_usuario pg_engine ex_hasher 1 1 (JObj [(''nome'', JStr ''Ana''), (''usuario'', JStr ''ana2''), (''senha'', JStr []), (''acesso'', JStr ''Usuario'')])
      (snd (criar_usuario pg_engine ex_hasher 0 (JObj ex_user) empty_db)))) Usuario 1 = Some r' \<and>
      row_get r' ''senha'' = row_get r ''senha'')"
proof -
  let ?d = "[(''nome'', JStr ''Ana''), (''usuario'', JStr ''ana2''), (''senha'', JStr []), (''acesso'', JStr ''Usuario'')]"
  let ?s = "snd (criar_usuario pg_engine ex_hasher 0 (JObj ex_user) empty_db)"
  have "fst (atualizar_usuario pg_engine ex_hasher 1 1 (JObj ?d) ?s) = (200, Inr ())" by code_simp
  then have run: "atualizar_usuario pg_engine ex_hasher 1 1 (JObj ?d) ?s = ((200, Inr ()), snd (atualizar_usuario pg_engine ex_hasher 1 1 (JObj ?d) ?s))"
    by (metis prod.collapse)
  from atualizar_usuario_password [OF pg_engine_faithful run] pg_engine_faithful run
  show ?thesis by (simp add: dict_get_def)
qed

text \<open>
  C30. The role is required although the column has the default \<open>Usuario\<close>: whatever
  else the body holds, a create without \<open>acesso\<close> answers 500 (\<open>dados['acesso']\<close> raises
  \<open>KeyError\<close>) and changes nothing.
\<close>

theorem criar_usuario_requires_role:
  assumes "map_of dados ''acesso'' = None"
  shows "fst (fst (criar_usuario eng hs salt (JObj dados) s)) = 500 \<and> snd (criar_usuario eng hs salt (JObj dados) s) = s"
proof -
  from assms obtain e where "usuario_values hs salt (JObj dados) = Inl e"
    by (cases "usuario_values hs salt (JObj dados)")
       (auto simp: usuario_values_def py_index_def bindE_Inr split: option.splits)
  then show ?thesis by (simp add: criar_usuario_def)
qed

theorem criar_usuario_requires_role_witness:
  "map_of [(''nome'', JStr ''Ana''), (''usuario'', JStr ''ana''), (''senha'', JStr ''s3nha'')] ''acesso'' = None \<and>
   fst (fst (criar_usuario pg_engine ex_hasher 0 (JObj [(''nome'', JStr ''Ana''), (''usuario'', JStr ''ana''), (''senha'', JStr ''s3nha'')]) empty_db)) = 500"
  using criar_usuario_requires_role [of "[(''nome'', JStr ''Ana''), (''usuario'', JStr ''ana''), (''senha'', JStr ''s3nha'')]"
      pg_engine ex_hasher 0 empty_db]
  by simp

text \<open>
  C33. A create rejected by the unique constraint still consumes an id: the sequence of
  \<open>usuarios\<close> is not rolled back with the transaction, so it has advanced by one while
  every table is as it was, and the next account skips an id.
\<close>

theorem criar_usuario_failure_consumes_id:
  assumes "criar_usuario eng hs salt b s = ((500, Inl (DbFailure UniqueViolation)), s')"
  shows "seqs s' = (seqs s)(Usuario := seqs s Usuario + 1) \<and> tables s' = tables s"
proof (cases "usuario_values hs salt b")
  case (Inl e)
  with assms have "e = DbFailure UniqueViolation" by (simp add: criar_usuario_def)
  moreover from Inl have "\<exists>m. e = PyError m"
    by (auto simp: usuario_values_def py_index_def gen_hash_def bindE_Inr
             split: jval.splits option.splits sum.splits)
  ultimately show ?thesis by simp
next
  case (Inr o')
  then have "map_of o' ''id'' = None"
    by (auto simp: usuario_values_def bindE_Inr)
  moreover from Inr assms have "commit eng [OpInsert Usuario o'] s = (s', Some UniqueViolation)"
    by (auto simp: criar_usuario_def split: prod.splits option.splits)
  ultimately show ?thesis by (rule commit_insert_unique_violation)
qed

theorem criar_usuario_failure_consumes_id_witness:
  "criar_usuario pg_engine ex_hasher 1 (JObj ex_user) (snd (criar_usuario pg_engine ex_hasher 0 (JObj ex_user) empty_db)) =
     ((500, Inl (DbFailure UniqueViolation)), snd (criar_usuario pg_engine ex_hasher 1 (JObj ex_user) (snd (criar_usuario pg_engine ex_hasher 0 (JObj ex_user) empty_db)))) \<and>
   seqs (snd (criar_usuario pg_engine ex_hasher 1 (JObj ex_user) (snd (criar_usuario pg_engine ex_hasher 0 (JObj ex_user) empty_db)))) Usuario = 2"
proof -
  let ?s1 = "snd (criar_usuario pg_engine ex_hasher 0 (JObj ex_user) empty_db)"
  have "fst (criar_usuario pg_engine ex_hasher 1 (JObj ex_user) ?s1) = (500, Inl (DbFailure UniqueViolation))" by code_simp
  then have run: "criar_usuario pg_engine ex_hasher 1 (JObj ex_user) ?s1 =
      ((500, Inl (DbFailure UniqueViolation)), snd (criar_usuario pg_engine ex_hasher 1 (JObj ex_user) ?s1))"
    by (metis prod.collapse)
  have "seqs ?s1 Usuario = 1" by code_simp
  with criar_usuario_failure_consumes_id [OF run] run show ?thesis by simp
qed

text \<open>
  C15. Deleting an account revokes its login: on a well-formed database the delete of an
  existing account succeeds, and afterwards its login name is rejected whatever the
  password, since login names are unique and no other account can carry it.
\<close>

theorem excluir_usuario_then_login:
  assumes wf: "db_wf s" and g: "get_row s Usuario i = Some r" and u: "row_get r ''usuario'' = DStr u"
  shows "excluir_usuario eng i s = ((200, Inr ()), snd (excluir_usuario eng i s)) \<and>
         login hs (JObj [(''usuario'', JStr u), (''senha'', p)]) (snd (excluir_usuario eng i s)) = (200, Inr LoginRejected)"
proof -
  let ?s' = "s\<lparr>tables := (tables s)(Usuario := filter (\<lambda>y. row_get y ''id'' \<noteq> DInt i) (tables s Usuario))\<rparr>"
  have "delete_where Usuario ''id'' (DInt i) s = (?s', None)"
    by (rule delete_where_unreferenced [OF wf]) simp
  with g have ex: "excluir_usuario eng i s = ((200, Inr ()), ?s')"
    by (simp add: excluir_usuario_def commit_def)
  from wf have "unique_ok Usuario (tables s Usuario)" by (simp add: db_wf_iff)
  from unique_ok_col [OF this, of usuario_col]
  have d: "distinct (filter (\<lambda>v. v \<noteq> DNull) (map (\<lambda>y. row_get y ''usuario'') (tables s Usuario)))" by simp
  from get_row_in [OF g] have r: "r \<in> set (tables s Usuario)" and ri: "row_get r ''id'' = DInt i" by simp_all
  have "\<forall>y\<in>set (tables ?s' Usuario). row_get y ''usuario'' \<noteq> DStr u"
  proof
    fix y assume "y \<in> set (tables ?s' Usuario)"
    then have y: "y \<in> set (tables s Usuario)" and yi: "row_get y ''id'' \<noteq> DInt i" by simp_all
    show "row_get y ''usuario'' \<noteq> DStr u"
    proof
      assume "row_get y ''usuario'' = DStr u"
      with unique_same_row [OF d y r] u have "y = r" by simp
      with yi ri show False by simp
    qed
  qed
  then have "find (\<lambda>y. row_get y ''usuario'' = DStr u) (tables ?s' Usuario) = None"
    by (auto simp: find_None_iff)
  with ex show ?thesis by (simp add: login_def find_usuario_def dict_get_def)
qed

theorem excluir_usuario_then_login_witness:
  "db_wf (snd (criar_usuario pg_engine ex_hasher 0 (JObj ex_user) empty_db)) \<and>
   get_row (snd (criar_usuario pg_engine ex_hasher 0 (JObj ex_user) empty_db)) Usuario 1 =
     Some (the (get_row (snd (criar_usuario pg_engine ex_hasher 0 (JObj ex_user) empty_db)) Usuario 1)) \<and>
   row_get (the (get_row (snd (criar_usuario pg_engine ex_hasher 0 (JObj ex_user) empty_db)) Usuario 1)) ''usuario'' = DStr ''ana'' \<and>
   login ex_hasher (JObj [(''usuario'', JStr ''ana''), (''senha'', JStr ''s3nha'')])
     (snd (excluir_usuario pg_engine 1 (snd (criar_usuario pg_engine ex_hasher 0 (JObj ex_user) empty_db)))) =
     (200, Inr LoginRejected)"
proof -
  let ?s = "snd (criar_usuario pg_engine ex_hasher 0 (JObj ex_user) empty_db)"
  have wf: "db_wf ?s" by (rule criar_usuario_wf [OF pg_engine_ok db_wf_empty])
  have "get_row ?s Usuario 1 \<noteq> None" by code_simp
  then have g: "get_row ?s Usuario 1 = Some (the (get_row ?s Usuario 1))" by simp
  have u: "row_get (the (get_row ?s Usuario 1)) ''usuario'' = DStr ''ana''" by code_simp
  from excluir_usuario_then_login [OF wf g u, of pg_engine ex_hasher "JStr ''s3nha''"] wf g u show ?thesis by simp
qed

end
