(* ===== verification/Bulk.thy ===== *)
theory Bulk
  imports Reference
begin

text \<open>
  Bulk import and export of registrations (src/app.py lines 397 to 503). Reading and
  writing spreadsheets is pandas' work and is not modelled: a file is given by what
  each pandas reader makes of it, a \<open>frame\<close> of headers and rows of cells (\<open>JNull\<close> for a
  missing cell, NaN), or \<open>None\<close> when the reader raises. What the handlers do with the
  frame is modelled: the choice of reader from the file name, the fallback between the
  CSV readers, the header translation, the record filter, the nulling of empty numeric
  cells and the single commit of all inserts; on export the column selection, the
  projection of every row and the friendly headers. Non-ASCII header text is written as
  its UTF-8 bytes, which preserves equality and suffixes of Python strings.
\<close>

section \<open>Header text\<close>

abbreviation utf8_aacute :: string where "utf8_aacute \<equiv> [CHR 0xC3, CHR 0xA1]"
abbreviation utf8_Aacute :: string where "utf8_Aacute \<equiv> [CHR 0xC3, CHR 0x81]"
abbreviation utf8_atilde :: string where "utf8_atilde \<equiv> [CHR 0xC3, CHR 0xA3]"
abbreviation utf8_ccedil :: string where "utf8_ccedil \<equiv> [CHR 0xC3, CHR 0xA7]"
abbreviation utf8_iacute :: string where "utf8_iacute \<equiv> [CHR 0xC3, CHR 0xAD]"
abbreviation utf8_oacute :: string where "utf8_oacute \<equiv> [CHR 0xC3, CHR 0xB3]"
abbreviation utf8_uacute :: string where "utf8_uacute \<equiv> [CHR 0xC3, CHR 0xBA]"
abbreviation utf8_sup2 :: string where "utf8_sup2 \<equiv> [CHR 0xC2, CHR 0xB2]"

section \<open>Import\<close>

type_synonym frame = "string list \<times> jval list list"

datatype reader = ReadExcel | ReadCsvSniff | ReadCsvSemicolon | ReadCsvComma

text \<open>An uploaded file: its name, and the frame each reader makes of its content.\<close>

type_synonym upload = "string \<times> (reader \<Rightarrow> frame option)"

datatype read_result = Unsupported | ReadFailed | ReadOk frame

text \<open>
  Lines 408 to 420: \<open>.xlsx\<close> is read as Excel; \<open>.csv\<close> with a sniffed separator, then
  with \<open>;\<close>, then with \<open>,\<close>, each tried when the one before raises; any other name is
  refused. The suffix test is case-sensitive.
\<close>

definition read_upload :: "(reader \<Rightarrow> frame option) \<Rightarrow> string \<Rightarrow> read_result" where
  "read_upload rd fname =
     (if suffix ''.xlsx'' fname then (case rd ReadExcel of Some f \<Rightarrow> ReadOk f | None \<Rightarrow> ReadFailed)
      else if suffix ''.csv'' fname then
        (case rd ReadCsvSniff of
           Some f \<Rightarrow> ReadOk f
         | None \<Rightarrow> (case rd ReadCsvSemicolon of
                     Some f \<Rightarrow> ReadOk f
                   | None \<Rightarrow> (case rd ReadCsvComma of Some f \<Rightarrow> ReadOk f | None \<Rightarrow> ReadFailed)))
      else Unsupported)"

text \<open>\<open>mapa_colunas\<close> (lines 422 to 437).\<close>

definition mapa_colunas :: "(string \<times> string) list" where
  "mapa_colunas =
     [(''Nome Completo'', ''req_nome''),
      (''CPF'', ''req_cpf''),
      (''RG'', ''req_rg''),
      (''Telefone Principal'', ''req_telefone''),
      (''E-mail'', ''req_email''),
      (''Inscri'' @ utf8_ccedil @ utf8_atilde @ ''o Imobili'' @ utf8_aacute @ ''ria'', ''inscricao_imobiliaria''),
      (''Logradouro do Im'' @ utf8_oacute @ ''vel'', ''imovel_logradouro''),
      (''N'' @ utf8_uacute @ ''mero do Im'' @ utf8_oacute @ ''vel'', ''imovel_numero''),
      (''Bairro do Im'' @ utf8_oacute @ ''vel'', ''imovel_bairro''),
      (utf8_Aacute @ ''rea Total do Lote (m'' @ utf8_sup2 @ '')'', ''imovel_area_total''),
      (utf8_Aacute @ ''rea Constru'' @ utf8_iacute @ ''da (m'' @ utf8_sup2 @ '')'', ''imovel_area_construida''),
      (''Uso Principal do Im'' @ utf8_oacute @ ''vel'', ''imovel_uso''),
      (''Padr'' @ utf8_atilde @ ''o Construtivo'', ''imovel_tipo_construcao''),
      (''Renda familiar mensal total (R$)'', ''reurb_renda_familiar'')]"

text \<open>\<open>df.rename(columns=mapa_colunas)\<close> on one header.\<close>

definition import_header :: "string \<Rightarrow> string" where
  "import_header h = (case map_of mapa_colunas h of Some c \<Rightarrow> c | None \<Rightarrow> h)"

text \<open>
  \<open>df.to_dict(orient='records')\<close> after the rename: one dictionary per row, built key
  by key, so a header that occurs twice keeps its first position and its last value.
\<close>

definition frame_records :: "frame \<Rightarrow> pydict list" where
  "frame_records fr =
     map (\<lambda>row. foldl (\<lambda>d (k, v). dict_set k v d) [] (zip (map import_header (fst fr)) row)) (snd fr)"

text \<open>Lines 443 to 448: columns with a value (not NaN), and \<open>''\<close> in a numeric field as \<open>None\<close>.\<close>

definition import_filter :: "pydict \<Rightarrow> pydict" where
  "import_filter r = filter (\<lambda>(k, v). k \<in> set (column_names CadastroReurb) \<and> v \<noteq> JNull) r"

fun null_empty_fields :: "string list \<Rightarrow> pydict \<Rightarrow> pydict" where
  "null_empty_fields [] d = d"
| "null_empty_fields (f # fs) d =
     null_empty_fields fs
       (case map_of d f of
          Some v \<Rightarrow> if v = JStr [] \<or> v = JNull then dict_set f JNull d else d
        | None \<Rightarrow> d)"

definition import_values :: "pydict \<Rightarrow> obj" where
  "import_values r = null_empty_fields numeric_fields (import_filter r)"

text \<open>\<open>POST /api/importar\<close> (lines 397 to 458): every record is added, then one commit.\<close>

definition importar_dados :: "engine \<Rightarrow> upload option \<Rightarrow> db \<Rightarrow> nat reply \<times> db" where
  "importar_dados eng up s =
     (case up of
        None \<Rightarrow> ((400, Inl (BadRequest ''no_file'')), s)
      | Some (fname, rd) \<Rightarrow>
          if fname = [] then ((400, Inl (BadRequest ''empty_filename'')), s)
          else (case read_upload rd fname of
                  Unsupported \<Rightarrow> ((400, Inl (BadRequest ''unsupported_format'')), s)
                | ReadFailed \<Rightarrow> ((500, Inl (PyError ''ParserError'')), s)
                | ReadOk fr \<Rightarrow>
                    (case commit eng (map (\<lambda>r. OpInsert CadastroReurb (import_values r)) (frame_records fr)) s of
                       (s', None) \<Rightarrow> ((201, Inr (length (frame_records fr))), s')
                     | (s', Some e) \<Rightarrow> ((500, Inl (DbFailure e)), s'))))"

section \<open>Export\<close>

text \<open>\<open>mapa_nomes_amigaveis\<close> (lines 480 to 486).\<close>

definition mapa_nomes_amigaveis :: "(string \<times> string) list" where
  "mapa_nomes_amigaveis =
     [(''req_nome'', ''Nome Completo''), (''req_cpf'', ''CPF''), (''req_rg'', ''RG''),
      (''req_telefone'', ''Telefone''), (''req_email'', ''E-mail''),
      (''inscricao_imobiliaria'', ''Inscri'' @ utf8_ccedil @ utf8_atilde @ ''o Imobili'' @ utf8_aacute @ ''ria''),
      (''imovel_logradouro'', ''Logradouro''), (''imovel_numero'', ''N'' @ utf8_uacute @ ''mero''),
      (''imovel_bairro'', ''Bairro''),
      (''imovel_area_total'', utf8_Aacute @ ''rea do Lote (m'' @ utf8_sup2 @ '')''),
      (''imovel_area_construida'', utf8_Aacute @ ''rea Constru'' @ utf8_iacute @ ''da (m'' @ utf8_sup2 @ '')''),
      (''reurb_renda_familiar'', ''Renda Familiar (R$)''), (''imovel_uso'', ''Uso do Im'' @ utf8_oacute @ ''vel'')]"

definition export_header :: "string \<Rightarrow> string" where
  "export_header c = (case map_of mapa_nomes_amigaveis c of Some h \<Rightarrow> h | None \<Rightarrow> c)"

text \<open>
  \<open>request.json.get('colunas', [])\<close> and the fallback of lines 465 to 467: a falsy value
  selects every column; a list of strings is taken as it is; iterating a string gives
  its characters and iterating a dictionary its keys; a list holding anything but
  strings fails in \<open>getattr\<close>, and other values are not iterable. Both failures are
  raised inside the loop over the rows, so with no registration the request answers
  400 before either can occur.
\<close>

definition export_columns :: "jval \<Rightarrow> failure + string list" where
  "export_columns v =
     (if \<not> py_truthy v then Inr (column_names CadastroReurb)
      else (case v of
              JArr xs \<Rightarrow> if list_all (\<lambda>x. case x of JStr _ \<Rightarrow> True | _ \<Rightarrow> False) xs then Inr (map (\<lambda>x. case x of JStr c \<Rightarrow> c | _ \<Rightarrow> []) xs)
                         else Inl (PyError ''TypeError'')
            | JStr cs \<Rightarrow> Inr (map (\<lambda>c. [c]) cs)
            | JObj d \<Rightarrow> Inr (map fst d)
            | _ \<Rightarrow> Inl (PyError ''TypeError'')))"

text \<open>\<open>getattr(cad, col, '')\<close> for the column attributes (other attributes are not modelled).\<close>

definition export_cell :: "row \<Rightarrow> string \<Rightarrow> jval" where
  "export_cell r c = (if c \<in> set (column_names CadastroReurb) then jval_of_dbval (row_get r c) else JStr [])"

text \<open>The keys of \<open>{col: ... for col in colunas}\<close>: each name once, at its first position.\<close>

definition dict_keys :: "string list \<Rightarrow> string list" where
  "dict_keys cols = rev (remdups (rev cols))"

text \<open>
  \<open>POST /api/exportar\<close> (lines 461 to 503): the sheet written, as its header row and
  its rows.
\<close>

definition exportar_dados :: "jval \<Rightarrow> db \<Rightarrow> frame reply" where
  "exportar_dados body s =
     (case body of
        JObj d \<Rightarrow>
          (case export_columns (case map_of d ''colunas'' of Some v \<Rightarrow> v | None \<Rightarrow> JArr []) of
             Inl e \<Rightarrow> if tables s CadastroReurb = [] then (400, Inl (BadRequest ''no_data'')) else (500, Inl e)
           | Inr cols \<Rightarrow>
               if tables s CadastroReurb = [] then (400, Inl (BadRequest ''no_data''))
               else (200, Inr (map export_header (dict_keys cols),
                               map (\<lambda>r. map (export_cell r) (dict_keys cols)) (tables s CadastroReurb))))
      | _ \<Rightarrow> (500, Inl (PyError ''AttributeError'')))"

section \<open>Example files for the witnesses\<close>

text \<open>A CSV whose second record has an area in Brazilian notation, and a clean sheet.\<close>

definition ex_csv :: frame where
  "ex_csv = ([''Nome Completo'', utf8_Aacute @ ''rea Total do Lote (m'' @ utf8_sup2 @ '')''],
             [[JStr ''Ana'', JStr ''100''], [JStr ''Bruno'', JStr ''100,5'']])"

definition ex_sheet :: frame where
  "ex_sheet = ([''Nome Completo'', utf8_Aacute @ ''rea Total do Lote (m'' @ utf8_sup2 @ '')'', ''Telefone Principal''],
               [[JStr ''Ana'', JNum 100, JNull]])"

section \<open>Lemmas\<close>

lemma map_of_null_empty_fields:
  "map_of (null_empty_fields fs d) k =
     (if k \<in> set fs \<and> (map_of d k = Some (JStr []) \<or> map_of d k = Some JNull) then Some JNull else map_of d k)"
  by (induction fs arbitrary: d) (auto split: option.splits)

lemma map_of_filter_distinct:
  "distinct (map fst r) \<Longrightarrow>
   map_of (filter P r) k = (case map_of r k of Some v \<Rightarrow> if P (k, v) then Some v else None | None \<Rightarrow> None)"
proof (induction r)
  case Nil
  then show ?case by simp
next
  case (Cons p r)
  obtain a b where p: "p = (a, b)" by fastforce
  with Cons.prems have "map_of r a = None" by (simp add: map_of_eq_None_iff)
  with Cons p show ?case by (auto split: option.splits)
qed

lemma map_of_import_filter:
  "distinct (map fst r) \<Longrightarrow> map_of (import_filter r) k =
     (if k \<in> set (column_names CadastroReurb) \<and> map_of r k \<noteq> Some JNull then map_of r k else None)"
  by (cases "map_of r k") (auto simp: import_filter_def map_of_filter_distinct)

lemma distinct_foldl_dict_set:
  "distinct (map fst d) \<Longrightarrow> distinct (map fst (foldl (\<lambda>d (k, v). dict_set k v d) d kvs))"
  by (induction kvs arbitrary: d) auto

lemma frame_records_distinct: "r \<in> set (frame_records fr) \<Longrightarrow> distinct (map fst r)"
  by (auto simp: frame_records_def intro: distinct_foldl_dict_set)

lemma dict_keys_distinct: "distinct xs \<Longrightarrow> dict_keys xs = xs"
  by (simp add: dict_keys_def distinct_remdups_id)

lemma export_cells_columns:
  "map (export_cell r) (column_names CadastroReurb) = map (\<lambda>c. jval_of_dbval (row_get r c)) (column_names CadastroReurb)"
  by (rule map_cong) (simp_all add: export_cell_def)

lemma importar_wf [handler_wf]: "engine_ok eng \<Longrightarrow> db_wf s \<Longrightarrow> db_wf (snd (importar_dados eng up s))"
  by (auto simp: importar_dados_def split: handler_splits read_result.split if_split dest!: commit_wf')

section \<open>Properties of import and export\<close>

text \<open>
  C19. One record whose numeric field holds a non-empty string the engine cannot store
  as a float (such as \<open>100,5\<close>) makes the whole import answer 500 with no row written:
  the handler nulls only empty numeric cells, where the spec says an unparsable
  numeric value is stored as null.
\<close>

theorem import_unparsable_numeric_fails_batch:
  assumes rd: "read_upload rd fname = ReadOk fr" and fn: "fname \<noteq> []"
    and r: "r \<in> set (frame_records fr)" and f: "f \<in> set numeric_fields"
    and v: "dict_get r f = JStr x" and x: "x \<noteq> []" and bad: "eng TFloat (JStr x) = None"
  shows "\<exists>e s'. importar_dados eng (Some (fname, rd)) s = ((500, Inl e), s') \<and> tables s' = tables s"
proof -
  have dist: "distinct (map fst r)" using r by (rule frame_records_distinct)
  from v have mr: "map_of r f = Some (JStr x)" by (auto simp: dict_get_def split: option.splits)
  from f numeric_fields_columns have fc: "f \<in> set (column_names CadastroReurb)" by blast
  have iv: "map_of (import_values r) f = Some (JStr x)"
    using mr x fc dist by (simp add: import_values_def map_of_null_empty_fields map_of_import_filter)
  let ?ops = "map (\<lambda>r. OpInsert CadastroReurb (import_values r)) (frame_records fr)"
  obtain s' res where c: "commit eng ?ops s = (s', res)" by fastforce
  show ?thesis
  proof (cases res)
    case None
    from r have "OpInsert CadastroReurb (import_values r) \<in> set ?ops" by simp
    with commit_None_flush [OF c [unfolded None]] obtain rest
      where b: "bind_all eng (import_values r) (tl (columns CadastroReurb)) = Inr rest"
      by (blast dest: flush_None_insert)
    from numeric_column_in_tl [OF f] have col: "opt_column f TFloat \<in> set (tl (columns CadastroReurb))" by simp
    from bind_all_value [OF b col distinct_tl_column_names] iv
    have "bind_value eng (opt_column f TFloat) (JStr x) = Inr (row_get rest f)" by (simp add: obj_value_def)
    with bad have False by (simp add: bind_value_def)
    then show ?thesis ..
  next
    case (Some e)
    with c rd fn commit_Some_tables [of eng ?ops s s' e] show ?thesis by (simp add: importar_dados_def)
  qed
qed

theorem import_unparsable_numeric_fails_batch_witness:
  "read_upload (\<lambda>_. Some ex_csv) ''dados.csv'' = ReadOk ex_csv \<and> ''dados.csv'' \<noteq> [] \<and>
   frame_records ex_csv ! 1 \<in> set (frame_records ex_csv) \<and> ''imovel_area_total'' \<in> set numeric_fields \<and>
   dict_get (frame_records ex_csv ! 1) ''imovel_area_total'' = JStr ''100,5'' \<and> ''100,5'' \<noteq> [] \<and>
   pg_engine TFloat (JStr ''100,5'') = None \<and>
   (\<exists>e s'. importar_dados pg_engine (Some (''dados.csv'', \<lambda>_. Some ex_csv)) empty_db = ((500, Inl e), s') \<and> tables s' = tables empty_db)"
proof -
  have rd: "read_upload (\<lambda>_. Some ex_csv) ''dados.csv'' = ReadOk ex_csv" by (simp add: read_upload_def suffix_def)
  have fn: "''dados.csv'' \<noteq> []" by simp
  have r: "frame_records ex_csv ! 1 \<in> set (frame_records ex_csv)" by (simp add: frame_records_def ex_csv_def)
  have f: "''imovel_area_total'' \<in> set numeric_fields" by (simp add: numeric_fields_def)
  have v: "dict_get (frame_records ex_csv ! 1) ''imovel_area_total'' = JStr ''100,5''"
    by (simp add: frame_records_def ex_csv_def import_header_def mapa_colunas_def dict_get_def)
  have x: "''100,5'' \<noteq> []" by simp
  have bad: "pg_engine TFloat (JStr ''100,5'') = None" by (simp add: py_float_str_eval)
  from import_unparsable_numeric_fails_batch [where rd = "\<lambda>_. Some ex_csv" and fname = "''dados.csv''" and fr = ex_csv
      and r = "frame_records ex_csv ! 1" and f = "''imovel_area_total''" and x = "''100,5''" and eng = pg_engine,
      OF rd fn r f v x bad, of empty_db] rd fn r f v bad
  show ?thesis by simp
qed

text \<open>
  C7. An import is all or nothing: when it reports \<open>n\<close> records imported, exactly \<open>n\<close>
  rows were appended to the registrations and no other table changed; when it fails,
  no table changed.
\<close>

theorem importar_all_or_nothing:
  assumes run: "importar_dados eng up s = ((code, res), s')"
  shows "(\<forall>n. res = Inr n \<longrightarrow> (\<exists>new. length new = n \<and> tables s' = (tables s)(CadastroReurb := tables s CadastroReurb @ new))) \<and>
         (\<forall>e. res = Inl e \<longrightarrow> tables s' = tables s)"
proof (cases "\<exists>fname rd fr. up = Some (fname, rd) \<and> fname \<noteq> [] \<and> read_upload rd fname = ReadOk fr")
  case True
  then obtain fname rd fr where u: "up = Some (fname, rd)" "fname \<noteq> []" "read_upload rd fname = ReadOk fr" by blast
  let ?ops = "map (\<lambda>r. OpInsert CadastroReurb (import_values r)) (frame_records fr)"
  obtain s1 r1 where c: "commit eng ?ops s = (s1, r1)" by fastforce
  show ?thesis
  proof (cases r1)
    case None
    with run u c have "res = Inr (length (frame_records fr))" "s' = s1" by (simp_all add: importar_dados_def)
    with flush_inserts [OF commit_None_flush [OF c [unfolded None]]] show ?thesis by auto
  next
    case (Some e)
    with run u c have "\<exists>e'. res = Inl e'" "s' = s1" by (auto simp: importar_dados_def)
    with commit_Some_tables [OF c [unfolded Some]] show ?thesis by auto
  qed
next
  case False
  with run have "s' = s \<and> (\<exists>e. res = Inl e)"
    by (auto simp: importar_dados_def split: option.splits if_splits read_result.splits)
  then show ?thesis by auto
qed

theorem importar_all_or_nothing_witness:
  "importar_dados pg_engine (Some (''dados.xlsx'', \<lambda>_. Some ex_sheet)) empty_db =
     ((201, Inr 1), snd (importar_dados pg_engine (Some (''dados.xlsx'', \<lambda>_. Some ex_sheet)) empty_db)) \<and>
   (\<exists>new. length new = 1 \<and> tables (snd (importar_dados pg_engine (Some (''dados.xlsx'', \<lambda>_. Some ex_sheet)) empty_db)) =
      (tables empty_db)(CadastroReurb := tables empty_db CadastroReurb @ new))"
proof -
  let ?s' = "snd (importar_dados pg_engine (Some (''dados.xlsx'', \<lambda>_. Some ex_sheet)) empty_db)"
  have "fst (importar_dados pg_engine (Some (''dados.xlsx'', \<lambda>_. Some ex_sheet)) empty_db) = (201, Inr 1)" by code_simp
  then have run: "importar_dados pg_engine (Some (''dados.xlsx'', \<lambda>_. Some ex_sheet)) empty_db = ((201, Inr 1), ?s')"
    by (metis prod.collapse)
  from importar_all_or_nothing [OF run] run show ?thesis by blast
qed

text \<open>
  C26. An export with an empty column list writes every column of the registrations,
  under the friendly header where one is defined, and one line per stored row with
  its values in column order; with no rows it answers 400.
\<close>

theorem exportar_all_columns:
  "exportar_dados (JObj [(''colunas'', JArr [])]) s =
     (if tables s CadastroReurb = [] then (400, Inl (BadRequest ''no_data''))
      else (200, Inr (map export_header (column_names CadastroReurb),
                      map (\<lambda>r. map (\<lambda>c. jval_of_dbval (row_get r c)) (column_names CadastroReurb)) (tables s CadastroReurb))))"
  by (simp add: exportar_dados_def export_columns_def dict_keys_distinct distinct_column_names export_cells_columns)

end
