(* ===== verification/Service.thy ===== *)
theory Service
  imports Valuation
begin

text \<open>
  Start-up configuration and the health probe (src/app.py lines 16 to 22 and 203 to
  209). The connection string is read from \<open>DATABASE_URL\<close>; Render hands out URLs with
  the scheme \<open>postgres://\<close>, which SQLAlchemy no longer accepts, so the first occurrence
  is replaced by \<open>postgresql://\<close>. The probe issues one query, which may fail like every
  query of the model (the fault oracle of the Valuation theory).
\<close>

section \<open>Configuration\<close>

text \<open>\<open>s.replace(old, new, 1)\<close>: the first occurrence of \<open>old\<close> replaced.\<close>

fun replace_first :: "string \<Rightarrow> string \<Rightarrow> string \<Rightarrow> string" where
  "replace_first old new [] = (if old = [] then new else [])"
| "replace_first old new (c # cs) =
     (if prefix old (c # cs) then new @ drop (length old) (c # cs) else c # replace_first old new cs)"

text \<open>Lines 17 to 19: the URI given to SQLAlchemy, from the environment variable (\<open>None\<close> when unset).\<close>

definition database_uri :: "string option \<Rightarrow> string option" where
  "database_uri env =
     (case env of
        None \<Rightarrow> None
      | Some u \<Rightarrow> if u \<noteq> [] \<and> prefix ''postgres://'' u then Some (replace_first ''postgres://'' ''postgresql://'' u)
                  else Some u)"

section \<open>Health check\<close>

datatype health = HealthOk | HealthError

text \<open>\<open>GET /api/health\<close>: \<open>SELECT 1\<close> in the request's fresh session.\<close>

definition health_check :: "fault \<Rightarrow> db \<Rightarrow> nat \<times> health" where
  "health_check flt s =
     (case query_first flt s Usuario (\<lambda>_. True) q0 of
        (Inl _, _) \<Rightarrow> (500, HealthError)
      | (Inr _, _) \<Rightarrow> (200, HealthOk))"

section \<open>Lemmas\<close>

lemma replace_first_prefix: "prefix old u \<Longrightarrow> replace_first old new u = new @ drop (length old) u"
  by (cases u) simp_all

section \<open>Properties\<close>

text \<open>
  C34. The configuration rewrites exactly the scheme: a URL starting with \<open>postgres://\<close>
  gets \<open>postgresql://\<close> in its place and keeps the rest, every other value is passed on
  unchanged, and rewriting a rewritten value changes nothing.
\<close>

theorem database_uri_rewrite:
  "database_uri env =
     (case env of
        None \<Rightarrow> None
      | Some u \<Rightarrow> Some (if prefix ''postgres://'' u then ''postgresql://'' @ drop (length ''postgres://'') u else u)) \<and>
   database_uri (database_uri env) = database_uri env"
proof (cases env)
  case None
  then show ?thesis by (simp add: database_uri_def)
next
  case (Some u)
  show ?thesis
  proof (cases "prefix ''postgres://'' u")
    case True
    then have "u \<noteq> []" by auto
    with True Some show ?thesis
      by (simp add: database_uri_def replace_first_prefix del: prefix_Cons)
  next
    case False
    with Some show ?thesis by (auto simp: database_uri_def)
  qed
qed

end
