(* ===== verification/Spec2Isabelle.thy ===== *)
theory Spec2Isabelle
  imports Valuation Registry Reference Users Bulk Service
begin

text \<open>
  A model of the REURB registry backend (src/app.py, a Flask application over
  PostgreSQL through Flask-SQLAlchemy) and the properties that make it correct.

  \<^bold>\<open>The program.\<close> Every HTTP route is a handler that reads its JSON body, works on
  the database through the ORM session, commits or rolls back, and answers. The parts:
  the configuration (lines 17 to 22); the ORM models and their tables (lines 27 to 131);
  login and user accounts (lines 134 to 199); the health probe (lines 203 to 209); the
  REURB registration handlers (lines 211 to 317) with the valued listing (lines 234 to
  268); construction sub-records (lines 319 to 349); the four reference tables behind
  one generic handler (lines 351 to 391); bulk import and export (lines 397 to 503).
  Handlers interact only through the database state, which the root theory makes
  explicit: a \<open>request\<close> names a route with its path parameters and body, \<open>handle\<close> is
  Flask's URL matching (a negative number in an \<open><int:...>\<close> segment matches no route
  and is a 404) in front of \<open>dispatch\<close>, which calls the route's view function;
  \<open>http_method\<close> records each route's declared method, \<open>run\<close> serves a sequence of
  requests, and \<open>reachable\<close> is the set of states reachable from the empty database.
  A request's body is a \<open>body\<close>: JSON, or one Werkzeug cannot read (\<open>get_json\<close> raises
  415 or 400); each route reads it where the code does, before or inside its \<open>try\<close>.
  What \<open>hasattr\<close> and \<open>setattr\<close> do with a name that is neither a column nor a
  relationship of a model (the class attributes \<open>query\<close>, \<open>metadata\<close>, ... of the
  declarative base, or \<open>__class__\<close>, whose assignment raises) is SQLAlchemy's and
  Python's, not the repository's: it is the parameter \<open>ca :: class_attrs\<close> of
  \<open>dispatch\<close>, \<open>handle\<close>, \<open>run\<close> and \<open>reachable\<close>, passed to the two handlers that
  reach it (\<open>model(**dados)\<close> and the update loop); \<open>ex_attrs\<close> is a concrete one
  for the witnesses.

  \<^bold>\<open>The theories and what they model.\<close>
  \<^item> \<open>Prelude\<close>: JSON/Python values (\<open>jval\<close>), dicts as association lists in insertion
    order (\<open>dict_get\<close> for \<open>d.get\<close>, \<open>dict_set\<close> for item assignment), truthiness,
    exceptions as the left of a sum (\<open>bindE\<close>), ASCII classes, \<open>float()\<close>
    (\<open>py_float\<close>, \<open>py_float_str\<close>).
  \<^item> \<open>Schema\<close>: the eight models (\<open>model\<close>) and their columns with type, nullability,
    uniqueness and default (\<open>columns\<close>), the foreign key of \<open>construcoes\<close>.
  \<^item> \<open>Storage\<close>: the database (\<open>db\<close>: tables in storage order and id sequences), the
    INSERT, UPDATE and DELETE a flush issues (\<open>insert_obj\<close>, \<open>update_obj\<close>,
    \<open>delete_where\<close>), \<open>flush\<close> and \<open>commit\<close> with rollback (sequences are not rolled
    back, as in PostgreSQL), the constraint checks, and the invariant \<open>db_wf\<close> with its
    preservation by every statement and commit. \<open>db.Integer\<close> is PostgreSQL's 32-bit
    \<open>integer\<close> (\<open>int32_min\<close>, \<open>int32_max\<close>): values outside it are refused, and the
    serial sequence of an id raises \<open>SequenceExhausted\<close> past \<open>int32_max\<close>. The conversion of bound values by
    psycopg2 and PostgreSQL is the parameter \<open>eng\<close>; \<open>engine_ok\<close> is all the invariant
    assumes of it, \<open>pg_engine\<close> is a concrete engine for the witnesses.
  \<^item> \<open>Like\<close>: the meaning of a LIKE pattern (\<open>like\<close>, \<open>ilike\<close>), the pattern of the
    tax-rate lookup (\<open>uso_pattern\<close>), and PostgreSQL's matcher \<open>MatchText\<close> of
    like_match.c (\<open>match_text\<close>), with its \<open>LIKE_ABORT\<close> short cut.
  \<^item> \<open>Valuation\<close>: queries that may fail (oracle \<open>flt\<close>, with the
    aborted-transaction state \<open>qstate\<close>), \<open>valuation\<close> of one registration, the listing
    \<open>listar_cadastros_reurb\<close>, and the contract \<open>valuation_spec\<close> of spec.md 4.1.
  \<^item> \<open>Registry\<close>: create, read, update and delete of registrations with the numeric
    coercion (\<open>coerce_numeric\<close>), and the construction handlers. The update's loop
    over the keys (\<open>update_attrs\<close>) reaches, besides the columns, the relationship
    \<open>construcoes\<close> (the backref of line 103 with \<open>delete-orphan\<close>): the empty list
    deletes the registration's constructions at commit, any other value raises.
  \<^item> \<open>Reference\<close>: \<open>planta_generica_crud\<close> and \<open>excluir_planta_generica_item\<close>, with the
    two dispatch dictionaries, the \<open>serialize\<close> lambdas and \<open>model(**dados)\<close>
    (\<open>construct\<close>, with the constructor's loop \<open>construct_attrs\<close>: a key that is no
    attribute of the class raises \<open>TypeError\<close>, a class attribute is set and not stored).
  \<^item> \<open>Users\<close>: login and the account handlers; werkzeug's hash is the parameter
    \<open>hasher\<close> with the contract \<open>hash_ok\<close>, the random salt an explicit argument.
  \<^item> \<open>Bulk\<close>: \<open>importar_dados\<close> and \<open>exportar_dados\<close>; a file is given by what each
    pandas reader makes of it (\<open>frame\<close>), the sheet written as headers and rows.
  \<^item> \<open>Service\<close>: the \<open>DATABASE_URL\<close> rewrite and the health probe.

  \<^bold>\<open>What the lemmas show.\<close> Storage: every statement and commit preserves \<open>db_wf\<close>,
  a failed commit leaves the tables unchanged, a successful insert or update has the
  expected effect (\<open>commit_insert\<close>, \<open>commit_update\<close>). Valuation: refinement of the
  contract when no query fails, the poisoning of the rest of a listing after one failure,
  the classification and the ILIKE match; Like: the matcher always returns
  (\<open>match_text_returns\<close>) and answers TRUE exactly when \<open>like\<close> holds
  (\<open>match_text_sound\<close>, \<open>pg_like_iff\<close>). Registry, Reference, Users, Bulk: the
  functional behaviour of each handler on success and its error paths, round trips
  (create then list or login), atomicity of the import, the exhaustion of the id sequence,
  and the bound of three queries per valued registration (\<open>valuation_qcount\<close>). The root:
  every reachable state satisfies \<open>db_wf\<close> (\<open>reachable_wf\<close>, by rule induction over
  \<open>handle_wf\<close>, which collects the per-handler lemmas tagged \<open>handler_wf\<close>), so a
  registration read back is typed by the schema (\<open>row_wf_read_back\<close>), and a
  construction added is listed back with its fields. Users adds that deleting an
  account revokes its login (\<open>unique_same_row\<close>) and that a create rejected by the
  unique constraint still consumes an id; Registry, that an explicit id leaves the
  sequence behind so that the next create fails, and that an update assigning
  \<open>construcoes\<close> deletes the constructions or fails.

  \<^bold>\<open>Bounds, fuel and termination.\<close> No fuel is needed: every loop of the program is a
  loop over a finite list (rows, columns, records, fields, characters) and is modelled by
  structural recursion (\<open>fun\<close>, \<open>primrec\<close>), so those definitions are total by
  construction and executable; the witnesses evaluate them with \<open>simp\<close> and
  \<open>code_simp\<close>. The one recursion that is not structural is PostgreSQL's LIKE matcher,
  whose scan after a \<open>%\<close> re-enters the matcher on the same pattern: it is a
  \<open>partial_function\<close> in the option monad, and its termination is a theorem, proved by
  well-founded induction on \<open>match_order\<close> (pattern length, then loop, then text
  length). The widths that matter are those of the database: integer columns and id
  sequences are 32-bit (\<open>conforms\<close>, \<open>alloc_id\<close>), string columns have their declared
  length. Python integers and floats are not bounded in the model.

  \<^bold>\<open>Modelling choices.\<close> Python floats are \<open>real\<close> (no rounding, no infinities or
  NaN); \<open>float()\<close> of a string accepts the finite decimal literals. Row order of
  \<open>query.all()\<close> and \<open>first()\<close> is the list order of the table. Responses are reduced
  to the status code and the success or failure value; message texts are not modelled.
  An insert draws its id before its values are bound, so a value the engine refuses
  consumes an id; PostgreSQL refuses a malformed literal while parsing the statement,
  before \<open>nextval\<close>, so there the model's sequence is one ahead (tables agree).
  Case folding of ILIKE covers ASCII letters; non-ASCII header text is kept as UTF-8
  bytes.

  \<^bold>\<open>Not modelled.\<close> Flask's URL matching beyond the integer converter, and what
  Werkzeug does with a body beyond the three outcomes of \<open>get_json\<close>; CORS
  (\<open>CORS(app)\<close>, line 13, only adds \<open>Access-Control-Allow-*\<close> headers to responses,
  which the model reduces to their status, so it has no effect the model could show);
  \<open>app.run\<close>; what pandas reads from the bytes of a file (including the
  position of the upload stream when a CSV reader is retried) and the xlsx encoding of
  an export; werkzeug's hashing beyond its contract; PostgreSQL's assignment casts of
  numbers into string columns (the concrete engine refuses them); \<open>getattr\<close> of a
  non-column attribute in an export (it is written as the empty string); a failure of
  the first \<open>query.all()\<close> of the listing and of the query of
  \<open>GET /api/novo_cadastro_reurb/<id>\<close> (the fault oracle covers the valuation's
  lookups only); a failure while the xlsx file of an export is written; JSON objects
  with a repeated key (the model keeps the first occurrence where Python keeps the
  last); concurrent transactions, since each request is served alone.
\<close>

section \<open>The application: requests and reachable states\<close>

text \<open>
  A request body as Werkzeug sees it: JSON of the declared content type, a body of
  another content type, or malformed JSON.
\<close>

datatype body = JsonBody jval | NonJsonBody | MalformedJsonBody

text \<open>
  \<open>request.get_json()\<close> (and \<open>request.json\<close>): the parsed value, or the
  \<open>HTTPException\<close> Werkzeug raises, by its status: 415 Unsupported Media Type for a body
  that is not declared JSON, 400 Bad Request for malformed JSON.
\<close>

definition get_json :: "body \<Rightarrow> nat + jval" where
  "get_json b = (case b of JsonBody v \<Rightarrow> Inr v | NonJsonBody \<Rightarrow> Inl 415 | MalformedJsonBody \<Rightarrow> Inl 400)"

text \<open>
  A view function whose first statement is \<open>dados = request.get_json()\<close>, outside any
  \<open>try\<close>: the exception becomes the response and nothing else runs.
\<close>

definition json_route :: "body \<Rightarrow> (jval \<Rightarrow> nat \<times> db) \<Rightarrow> db \<Rightarrow> nat \<times> db" where
  "json_route b k s = (case get_json b of Inl c \<Rightarrow> (c, s) | Inr v \<Rightarrow> k v)"

text \<open>The two methods of \<open>/api/planta_generica/<tipo>\<close>: a GET, or a POST with its body.\<close>

datatype planta_call = PlantaList | PlantaCreate body

text \<open>
  One constructor per route of src/app.py, with the request's path parameters and JSON
  body; the salt of a new password hash is part of the request, since
  \<open>generate_password_hash\<close> draws it at random.
\<close>

datatype request =
    Login body
  | CriarUsuario nat body
  | ListarUsuarios
  | AtualizarUsuario nat int body
  | ExcluirUsuario int
  | ObterUsuario int
  | Health
  | NovoCadastro body
  | ListarCadastros
  | ObterCadastro int
  | AtualizarCadastro int body
  | ExcluirCadastro int
  | AdicionarConstrucao int body
  | ListarConstrucoes int
  | ExcluirConstrucao int
  | PlantaGenerica string planta_call
  | ExcluirPlanta string int
  | Importar "upload option"
  | Exportar body

text \<open>
  The view function of each route: its status code and the database state it leaves (its
  own session is committed or discarded when it ends). The fault oracle \<open>flt\<close> decides
  which queries of the read-only handlers fail.
\<close>

fun dispatch :: "engine \<Rightarrow> hasher \<Rightarrow> class_attrs \<Rightarrow> fault \<Rightarrow> request \<Rightarrow> db \<Rightarrow> nat \<times> db" where
  "dispatch eng hs ca flt (Login b) s = json_route b (\<lambda>v. (fst (login hs v s), s)) s"
| "dispatch eng hs ca flt (CriarUsuario salt b) s =
     json_route b (\<lambda>v. (fst (fst (criar_usuario eng hs salt v s)), snd (criar_usuario eng hs salt v s))) s"
| "dispatch eng hs ca flt ListarUsuarios s = (fst (listar_usuarios s), s)"
| "dispatch eng hs ca flt (AtualizarUsuario salt i b) s =
     json_route b (\<lambda>v. (fst (fst (atualizar_usuario eng hs salt i v s)), snd (atualizar_usuario eng hs salt i v s))) s"
| "dispatch eng hs ca flt (ExcluirUsuario i) s = (fst (fst (excluir_usuario eng i s)), snd (excluir_usuario eng i s))"
| "dispatch eng hs ca flt (ObterUsuario i) s = (fst (obter_usuario s i), s)"
| "dispatch eng hs ca flt Health s = (fst (health_check flt s), s)"
| "dispatch eng hs ca flt (NovoCadastro b) s =
     json_route b (\<lambda>v. (fst (fst (novo_cadastro_reurb eng v s)), snd (novo_cadastro_reurb eng v s))) s"
| "dispatch eng hs ca flt ListarCadastros s = (fst (listar_cadastros_reurb flt s), s)"
| "dispatch eng hs ca flt (ObterCadastro i) s = (fst (obter_cadastro_reurb s i), s)"
| "dispatch eng hs ca flt (AtualizarCadastro i b) s =
     (case get_json b of
        Inl _ \<Rightarrow> (if get_row s CadastroReurb i = None then 404 else 500, s)
      | Inr v \<Rightarrow> (fst (fst (atualizar_cadastro_reurb eng ca i v s)), snd (atualizar_cadastro_reurb eng ca i v s)))"
| "dispatch eng hs ca flt (ExcluirCadastro i) s = (fst (fst (excluir_cadastro_reurb eng i s)), snd (excluir_cadastro_reurb eng i s))"
| "dispatch eng hs ca flt (AdicionarConstrucao c b) s =
     json_route b (\<lambda>v. (fst (fst (adicionar_construcao eng c v s)), snd (adicionar_construcao eng c v s))) s"
| "dispatch eng hs ca flt (ListarConstrucoes c) s = (fst (listar_construcoes s c), s)"
| "dispatch eng hs ca flt (ExcluirConstrucao i) s = (fst (fst (excluir_construcao eng i s)), snd (excluir_construcao eng i s))"
| "dispatch eng hs ca flt (PlantaGenerica t PlantaList) s =
     (fst (fst (planta_generica_crud eng ca t PlantaGet s)), snd (planta_generica_crud eng ca t PlantaGet s))"
| "dispatch eng hs ca flt (PlantaGenerica t (PlantaCreate b)) s =
     (case get_json b of
        Inl _ \<Rightarrow> (if map_of planta_model_map t = None then 400 else 500, s)
      | Inr v \<Rightarrow> (fst (fst (planta_generica_crud eng ca t (PlantaPost v) s)), snd (planta_generica_crud eng ca t (PlantaPost v) s)))"
| "dispatch eng hs ca flt (ExcluirPlanta t i) s =
     (fst (fst (excluir_planta_generica_item eng t i s)), snd (excluir_planta_generica_item eng t i s))"
| "dispatch eng hs ca flt (Importar u) s = (fst (fst (importar_dados eng u s)), snd (importar_dados eng u s))"
| "dispatch eng hs ca flt (Exportar b) s = (case get_json b of Inl _ \<Rightarrow> (500, s) | Inr v \<Rightarrow> (fst (exportar_dados v s), s))"

text \<open>
  The methods of the routes, from their \<open>@app.route\<close> decorators.
\<close>

fun http_method :: "request \<Rightarrow> string" where
  "http_method (Login _) = ''POST''"
| "http_method (CriarUsuario _ _) = ''POST''"
| "http_method ListarUsuarios = ''GET''"
| "http_method (AtualizarUsuario _ _ _) = ''PUT''"
| "http_method (ExcluirUsuario _) = ''DELETE''"
| "http_method (ObterUsuario _) = ''GET''"
| "http_method Health = ''GET''"
| "http_method (NovoCadastro _) = ''POST''"
| "http_method ListarCadastros = ''GET''"
| "http_method (ObterCadastro _) = ''GET''"
| "http_method (AtualizarCadastro _ _) = ''PUT''"
| "http_method (ExcluirCadastro _) = ''DELETE''"
| "http_method (AdicionarConstrucao _ _) = ''POST''"
| "http_method (ListarConstrucoes _) = ''GET''"
| "http_method (ExcluirConstrucao _) = ''DELETE''"
| "http_method (PlantaGenerica _ PlantaList) = ''GET''"
| "http_method (PlantaGenerica _ (PlantaCreate _)) = ''POST''"
| "http_method (ExcluirPlanta _ _) = ''DELETE''"
| "http_method (Importar _) = ''POST''"
| "http_method (Exportar _) = ''POST''"

text \<open>
  The path parameters declared \<open><int:...>\<close>. Werkzeug's integer converter matches a string
  of decimal digits only, so a path carrying a negative number matches no route.
\<close>

fun path_ints :: "request \<Rightarrow> int list" where
  "path_ints (AtualizarUsuario _ i _) = [i]"
| "path_ints (ExcluirUsuario i) = [i]"
| "path_ints (ObterUsuario i) = [i]"
| "path_ints (ObterCadastro i) = [i]"
| "path_ints (AtualizarCadastro i _) = [i]"
| "path_ints (ExcluirCadastro i) = [i]"
| "path_ints (AdicionarConstrucao c _) = [c]"
| "path_ints (ListarConstrucoes c) = [c]"
| "path_ints (ExcluirConstrucao i) = [i]"
| "path_ints (ExcluirPlanta _ i) = [i]"
| "path_ints _ = []"

text \<open>The body of the routes that read one with \<open>request.get_json()\<close> or \<open>request.json\<close>.\<close>

fun req_body :: "request \<Rightarrow> body option" where
  "req_body (Login b) = Some b"
| "req_body (CriarUsuario _ b) = Some b"
| "req_body (AtualizarUsuario _ _ b) = Some b"
| "req_body (NovoCadastro b) = Some b"
| "req_body (AtualizarCadastro _ b) = Some b"
| "req_body (AdicionarConstrucao _ b) = Some b"
| "req_body (PlantaGenerica _ (PlantaCreate b)) = Some b"
| "req_body (Exportar b) = Some b"
| "req_body _ = None"

text \<open>Flask's dispatch: a URL that matches no route is a 404 before any view function runs.\<close>

definition handle :: "engine \<Rightarrow> hasher \<Rightarrow> class_attrs \<Rightarrow> fault \<Rightarrow> request \<Rightarrow> db \<Rightarrow> nat \<times> db" where
  "handle eng hs ca flt r s = (if list_all (\<lambda>i. 0 \<le> i) (path_ints r) then dispatch eng hs ca flt r s else (404, s))"

text \<open>A sequence of requests served one after the other: the status codes and the final state.\<close>

fun run :: "engine \<Rightarrow> hasher \<Rightarrow> class_attrs \<Rightarrow> fault \<Rightarrow> request list \<Rightarrow> db \<Rightarrow> nat list \<times> db" where
  "run eng hs ca flt [] s = ([], s)"
| "run eng hs ca flt (r # rs) s =
     (let (c, s1) = handle eng hs ca flt r s; (cs, s2) = run eng hs ca flt rs s1 in (c # cs, s2))"

text \<open>The states the API can reach from the freshly created database.\<close>

inductive reachable :: "engine \<Rightarrow> hasher \<Rightarrow> class_attrs \<Rightarrow> db \<Rightarrow> bool" for eng hs ca where
  reachable_init: "reachable eng hs ca empty_db"
| reachable_step: "reachable eng hs ca s \<Longrightarrow> reachable eng hs ca (snd (handle eng hs ca flt r s))"

text \<open>The spec's scenario of section 8: a street value, then a registration on that street.\<close>

definition scenario_ana :: "request list" where
  "scenario_ana =
     [PlantaGenerica ''logradouros'' (PlantaCreate (JsonBody (JObj [(''logradouro'', JStr ''Rua A''), (''valor_m2'', JNum 50)]))),
      NovoCadastro (JsonBody (JObj [(''req_nome'', JStr ''Ana''), (''imovel_area_total'', JNum 100),
                          (''imovel_logradouro'', JStr ''Rua A'')]))]"

section \<open>Lemmas\<close>

lemma dispatch_wf: "engine_ok eng \<Longrightarrow> db_wf s \<Longrightarrow> db_wf (snd (dispatch eng hs ca flt r s))"
  by (cases r rule: http_method.cases) (simp_all add: handler_wf json_route_def split: sum.split)

lemma handle_wf: "engine_ok eng \<Longrightarrow> db_wf s \<Longrightarrow> db_wf (snd (handle eng hs ca flt r s))"
  by (simp add: handle_def dispatch_wf)

lemma reachable_wf:
  assumes eng: "engine_ok eng"
  shows "reachable eng hs ca s \<Longrightarrow> db_wf s"
proof (induction rule: reachable.induct)
  case reachable_init
  then show ?case by (rule db_wf_empty)
next
  case (reachable_step s flt r)
  with handle_wf [OF eng] show ?case by blast
qed

lemma run_reachable: "reachable eng hs ca s \<Longrightarrow> reachable eng hs ca (snd (run eng hs ca flt rs s))"
proof (induction rs arbitrary: s)
  case Nil
  then show ?case by simp
next
  case (Cons r rs)
  from reachable_step [OF Cons.prems, of flt r] have "reachable eng hs ca (snd (handle eng hs ca flt r s))" .
  with Cons.IH show ?case by (simp add: split_def Let_def)
qed

section \<open>Properties that span the handlers\<close>

text \<open>
  C2. Every state the API can reach satisfies the invariant \<open>db_wf\<close>: every row has
  exactly its model's columns with values of their types, NOT NULL and UNIQUE hold, and
  foreign keys resolve. In particular no construction is orphaned and no two accounts
  share a login name, whatever sequence of requests was served.
\<close>

theorem reachable_db_wf:
  assumes eng: "engine_ok eng" and r: "reachable eng hs ca s"
  shows "db_wf s \<and>
         (\<forall>c\<in>set (tables s Construcao). row_get c ''cadastro_id'' = DNull \<or>
            (\<exists>p\<in>set (tables s CadastroReurb). row_get p ''id'' = row_get c ''cadastro_id'')) \<and>
         distinct (filter (\<lambda>v. v \<noteq> DNull) (map (\<lambda>u. row_get u ''usuario'') (tables s Usuario)))"
proof -
  from reachable_wf [OF eng r] have wf: "db_wf s" .
  then have "fk_ok s" and "unique_ok Usuario (tables s Usuario)" by (auto simp: db_wf_iff)
  moreover have "Column ''usuario'' (TString 50) False True None \<in> set (columns Usuario)" by simp
  ultimately show ?thesis
    using wf unique_ok_col [of Usuario "tables s Usuario" "Column ''usuario'' (TString 50) False True None"]
    by (simp add: fk_ok_iff)
qed

theorem reachable_db_wf_witness:
  "engine_ok pg_engine \<and> reachable pg_engine ex_hasher ex_attrs (snd (run pg_engine ex_hasher ex_attrs (\<lambda>_. False) scenario_ana empty_db)) \<and>
   db_wf (snd (run pg_engine ex_hasher ex_attrs (\<lambda>_. False) scenario_ana empty_db))"
proof -
  have r: "reachable pg_engine ex_hasher ex_attrs (snd (run pg_engine ex_hasher ex_attrs (\<lambda>_. False) scenario_ana empty_db))"
    by (rule run_reachable [OF reachable_init])
  from reachable_db_wf [OF pg_engine_ok r] pg_engine_ok r show ?thesis by simp
qed

text \<open>
  C14. A construction added to a registration is listed by the next
  \<open>GET /api/construcoes/<cadastro_id>\<close> after the ones already there, with the next
  value of the sequence as id and each of the five fields sent read back unchanged, when
  the fields have the types of their columns.
\<close>

theorem construcao_add_then_list:
  assumes eng: "engine_ok eng" and f: "engine_faithful eng"
    and run: "adicionar_construcao eng cid (JObj dados) s = ((201, Inr ()), s')"
    and typed: "list_all (\<lambda>(k, t). json_typed t (dict_get dados k))
       [(''area_total'', TFloat), (''area_construida'', TFloat), (''uso'', TString 50), (''padrao'', TString 50), (''tipo'', TString 50)]"
  shows "\<exists>vs. snd (listar_construcoes s' cid) =
           snd (listar_construcoes s cid) @ [(''id'', DInt (seqs s Construcao + 1)) # zip [''area_total'', ''area_construida'', ''uso'', ''padrao'', ''tipo''] vs] \<and>
         map jval_of_dbval vs = map (dict_get dados) [''area_total'', ''area_construida'', ''uso'', ''padrao'', ''tipo'']"
proof -
  let ?o = "construcao_values cid dados"
  let ?fs = "[''area_total'', ''area_construida'', ''uso'', ''padrao'', ''tipo'']"
  from run have c: "commit eng [OpInsert Construcao ?o] s = (s', None)"
    by (auto simp: adicionar_construcao_def split: prod.splits option.splits)
  from commit_insert [OF c] obtain idv rest where
    t: "tables s' = (tables s)(Construcao := tables s Construcao @ [(''id'', idv) # rest])"
    and b: "bind_all eng ?o (tl (columns Construcao)) = Inr rest"
    and a: "fst (alloc_id eng Construcao ?o s) = Inr idv" by blast
  have "map_of ?o ''id'' = None" by (simp add: construcao_values_def)
  from alloc_id_fresh [OF this a] have idv: "idv = DInt (seqs s Construcao + 1)" .
  have rb: "jval_of_dbval (row_get rest (col_name c)) = obj_value ?o c"
    if "c \<in> set (tl (columns Construcao))" "json_typed (col_type c) (obj_value ?o c)" for c
    using insert_field_roundtrip [OF f b that] .
  have ok: "cell_ok c (row_get rest (col_name c))" if "c \<in> set (tl (columns Construcao))" for c
    using bind_all_value [OF b that distinct_tl_column_names] bind_value_ok [OF eng] by blast
  have "jval_of_dbval (row_get rest ''cadastro_id'') = JNum (of_int cid)"
    using rb [of "opt_column ''cadastro_id'' TInteger"] by (simp add: obj_value_def construcao_values_def)
  moreover have "conforms TInteger (row_get rest ''cadastro_id'')"
    using ok [of "opt_column ''cadastro_id'' TInteger"] by (simp add: cell_ok_def)
  ultimately have cid_v: "row_get rest ''cadastro_id'' = DInt cid"
    by (cases "row_get rest ''cadastro_id''") auto
  have fields: "map (\<lambda>k. jval_of_dbval (row_get rest k)) ?fs = map (dict_get dados) ?fs"
    using typed rb [of "opt_column ''area_total'' TFloat"] rb [of "opt_column ''area_construida'' TFloat"]
      rb [of "opt_column ''uso'' (TString 50)"] rb [of "opt_column ''padrao'' (TString 50)"]
      rb [of "opt_column ''tipo'' (TString 50)"]
    by (simp add: obj_value_def construcao_values_def)
  have "snd (listar_construcoes s' cid) =
          snd (listar_construcoes s cid) @ [(''id'', idv) # zip ?fs (map (row_get rest) ?fs)]"
    using cid_v by (simp add: listar_construcoes_def t row_get_def)
  with idv fields show ?thesis by (intro exI [of _ "map (row_get rest) ?fs"]) simp
qed

theorem construcao_add_then_list_witness:
  "engine_ok pg_engine \<and> engine_faithful pg_engine \<and>
   adicionar_construcao pg_engine 1 (JObj [(''uso'', JStr ''casa''), (''area_total'', JNum 80)])
       (snd (novo_cadastro_reurb pg_engine (JObj ex_ana_fields) empty_db)) =
     ((201, Inr ()), snd (adicionar_construcao pg_engine 1 (JObj [(''uso'', JStr ''casa''), (''area_total'', JNum 80)])
       (snd (novo_cadastro_reurb pg_engine (JObj ex_ana_fields) empty_db)))) \<and>
   (\<exists>vs. snd (listar_construcoes (snd (adicionar_construcao pg_engine 1 (JObj [(''uso'', JStr ''casa''), (''area_total'', JNum 80)])
       (snd (novo_cadastro_reurb pg_engine (JObj ex_ana_fields) empty_db)))) 1) =
     [(''id'', DInt 1) # zip [''area_total'', ''area_construida'', ''uso'', ''padrao'', ''tipo''] vs] \<and>
     map jval_of_dbval vs = [JNum 80, JNull, JStr ''casa'', JNull, JNull])"
proof -
  let ?d = "[(''uso'', JStr ''casa''), (''area_total'', JNum 80)]"
  let ?s = "snd (novo_cadastro_reurb pg_engine (JObj ex_ana_fields) empty_db)"
  have "fst (adicionar_construcao pg_engine 1 (JObj ?d) ?s) = (201, Inr ())" by code_simp
  then have run: "adicionar_construcao pg_engine 1 (JObj ?d) ?s = ((201, Inr ()), snd (adicionar_construcao pg_engine 1 (JObj ?d) ?s))"
    by (metis prod.collapse)
  have typed: "list_all (\<lambda>(k, t). json_typed t (dict_get ?d k))
       [(''area_total'', TFloat), (''area_construida'', TFloat), (''uso'', TString 50), (''padrao'', TString 50), (''tipo'', TString 50)]"
    by (simp add: dict_get_def)
  have l0: "snd (listar_construcoes ?s 1) = []" by code_simp
  have sq: "seqs ?s Construcao = 0" by code_simp
  from construcao_add_then_list [OF pg_engine_ok pg_engine_faithful run typed] l0 sq pg_engine_ok pg_engine_faithful run
  show ?thesis by (simp add: dict_get_def)
qed

text \<open>
  C10. In every reachable state the record \<open>GET /api/novo_cadastro_reurb/<id>\<close> answers
  is typed by the schema: it has exactly the model's columns in order, each holding a value
  of the column's type (an \<open>integer\<close> within 32 bits, a string within its length, a
  float) or NULL where the column allows it.
\<close>

theorem obter_cadastro_typed:
  assumes eng: "engine_ok eng" and r: "reachable eng hs ca s"
    and ok: "obter_cadastro_reurb s i = (200, Inr row)"
  shows "list_all2 cell_wf (columns CadastroReurb) row"
proof -
  from ok obtain x where g: "get_row s CadastroReurb i = Some x"
    and row: "row = map (\<lambda>c. (c, row_get x c)) (column_names CadastroReurb)"
    by (auto simp: obter_cadastro_reurb_def split: option.splits)
  from reachable_wf [OF eng r] get_row_in [OF g] have "row_wf CadastroReurb x"
    by (auto simp: db_wf_iff)
  then show ?thesis using row_wf_read_back [of CadastroReurb x] row by (simp add: row_wf_def)
qed

theorem obter_cadastro_typed_witness:
  "engine_ok pg_engine \<and> reachable pg_engine ex_hasher ex_attrs (snd (run pg_engine ex_hasher ex_attrs (\<lambda>_. False) scenario_ana empty_db)) \<and>
   obter_cadastro_reurb (snd (run pg_engine ex_hasher ex_attrs (\<lambda>_. False) scenario_ana empty_db)) 1 =
     (200, Inr (projr (snd (obter_cadastro_reurb (snd (run pg_engine ex_hasher ex_attrs (\<lambda>_. False) scenario_ana empty_db)) 1)))) \<and>
   list_all2 cell_wf (columns CadastroReurb)
     (projr (snd (obter_cadastro_reurb (snd (run pg_engine ex_hasher ex_attrs (\<lambda>_. False) scenario_ana empty_db)) 1)))"
proof -
  let ?s = "snd (run pg_engine ex_hasher ex_attrs (\<lambda>_. False) scenario_ana empty_db)"
  have r: "reachable pg_engine ex_hasher ex_attrs ?s" by (rule run_reachable [OF reachable_init])
  have c: "fst (obter_cadastro_reurb ?s 1) = 200" by code_simp
  have l: "\<not> isl (snd (obter_cadastro_reurb ?s 1))" by code_simp
  from c l have o: "obter_cadastro_reurb ?s 1 = (200, Inr (projr (snd (obter_cadastro_reurb ?s 1))))"
    by (metis prod.collapse sum.collapse(2))
  from obter_cadastro_typed [OF pg_engine_ok r o] pg_engine_ok r o show ?thesis by simp
qed

end
